theory Spec2Isabelle
  imports Complex_Main "HOL-Library.Log_Nat"
begin

section \<open>Numbers and their decimal rendering\<close>

text \<open>
  The TypeScript type \<open>number\<close> is an IEEE-754 double.  Two models of it are used.
  Where a result depends on rounding (the digits of a mesh identifier, the grid lines a
  bounding box is snapped to) the functions are embedded in double precision, every
  operation rounding to the nearest double; these are the definitions with the suffix
  \<open>_binary64\<close>, in the section on double-precision arithmetic.  Where only the control
  flow matters (which guard fires, which rows are written, how many statements are sent) the
  functions are embedded over the reals without rounding; these carry the names of the
  source.  Results of \<open>Math.floor\<close> and \<open>Math.ceil\<close> are kept as integers and
  injected back with \<open>real_of_int\<close> where the source continues to calculate with them.
  \<open>NaN\<close> is a separate value wherever the source tests for it.
\<close>

definition digitChar :: "nat \<Rightarrow> char" where
  "digitChar d = char_of (48 + d)"

fun natDigits :: "nat \<Rightarrow> string" where
  "natDigits n = (if n < 10 then [digitChar n] else natDigits (n div 10) @ [digitChar (n mod 10)])"

declare natDigits.simps [simp del]

text \<open>\<open>String(n)\<close> and \<open>`${n}`\<close> for an integral number \<open>n\<close>.\<close>

definition numberToString :: "int \<Rightarrow> string" where
  "numberToString n = (if n < 0 then CHR ''-'' # natDigits (nat (- n)) else natDigits (nat n))"

text \<open>\<open>s.padStart(targetLength, c)\<close> for a one-character pad string.\<close>

definition padStart :: "nat \<Rightarrow> char \<Rightarrow> string \<Rightarrow> string" where
  "padStart targetLength c s = replicate (targetLength - length s) c @ s"

section \<open>MeshCodec\<close>

text \<open>\<open>meshCode250\<close> of the backend (\<open>utils/jisMesh\<close>).\<close>

definition meshCode250 :: "real \<Rightarrow> real \<Rightarrow> string" where
  "meshCode250 lat lon =
    (let p = \<lfloor>lat * 1.5\<rfloor>;
         q = \<lfloor>lon\<rfloor> - 100;
         latMinutes = lat * 60;
         lonMinutes = lon * 60;
         r = \<lfloor>(latMinutes - of_int p * 40) / 5\<rfloor>;
         s = \<lfloor>(lonMinutes - of_int \<lfloor>lon\<rfloor> * 60) / 7.5\<rfloor>;
         t = \<lfloor>((latMinutes - of_int p * 40 - of_int r * 5) * 60) / 30\<rfloor>;
         u = \<lfloor>((lonMinutes - of_int \<lfloor>lon\<rfloor> * 60 - of_int s * 7.5) * 60) / 45\<rfloor>;
         latSeconds = lat * 3600;
         lonSeconds = lon * 3600;
         latBaseSeconds = of_int p * 2400 + of_int r * 300 + of_int t * 30;
         lonBaseSeconds = (of_int q + 100) * 3600 + of_int s * 450 + of_int u * 45;
         latSecIn1km = min 29.999999 (max 0 (latSeconds - latBaseSeconds));
         lonSecIn1km = min 44.999999 (max 0 (lonSeconds - lonBaseSeconds));
         latHalf = \<lfloor>latSecIn1km / 15\<rfloor>;
         lonHalf = \<lfloor>lonSecIn1km / 22.5\<rfloor>;
         halfDigit = latHalf * 2 + lonHalf + 1;
         latSecInHalf = latSecIn1km - of_int latHalf * 15;
         lonSecInHalf = lonSecIn1km - of_int lonHalf * 22.5;
         latQuarter = \<lfloor>latSecInHalf / 7.5\<rfloor>;
         lonQuarter = \<lfloor>lonSecInHalf / 11.25\<rfloor>;
         quarterDigit = latQuarter * 2 + lonQuarter + 1
     in padStart 2 CHR ''0'' (numberToString p) @ padStart 2 CHR ''0'' (numberToString q)
        @ numberToString r @ numberToString s @ numberToString t @ numberToString u
        @ numberToString halfDigit @ numberToString quarterDigit)"

text \<open>The private copy of \<open>meshCode250\<close> in the frontend's map view.\<close>

definition meshCode250_frontend :: "real \<Rightarrow> real \<Rightarrow> string" where
  "meshCode250_frontend lat lon =
    (let p = \<lfloor>lat * 1.5\<rfloor>;
         q = \<lfloor>lon\<rfloor> - 100;
         latMinutes = lat * 60;
         lonMinutes = lon * 60;
         r = \<lfloor>(latMinutes - of_int p * 40) / 5\<rfloor>;
         s = \<lfloor>(lonMinutes - of_int \<lfloor>lon\<rfloor> * 60) / 7.5\<rfloor>;
         t = \<lfloor>((latMinutes - of_int p * 40 - of_int r * 5) * 60) / 30\<rfloor>;
         u = \<lfloor>((lonMinutes - of_int \<lfloor>lon\<rfloor> * 60 - of_int s * 7.5) * 60) / 45\<rfloor>;
         latSeconds = lat * 3600;
         lonSeconds = lon * 3600;
         latBaseSeconds = of_int p * 2400 + of_int r * 300 + of_int t * 30;
         lonBaseSeconds = (of_int q + 100) * 3600 + of_int s * 450 + of_int u * 45;
         latSecIn1km = min 29.999999 (max 0 (latSeconds - latBaseSeconds));
         lonSecIn1km = min 44.999999 (max 0 (lonSeconds - lonBaseSeconds));
         latHalf = \<lfloor>latSecIn1km / 15\<rfloor>;
         lonHalf = \<lfloor>lonSecIn1km / 22.5\<rfloor>;
         halfDigit = latHalf * 2 + lonHalf + 1;
         latSecInHalf = latSecIn1km - of_int latHalf * 15;
         lonSecInHalf = lonSecIn1km - of_int lonHalf * 22.5;
         latQuarter = \<lfloor>latSecInHalf / 7.5\<rfloor>;
         lonQuarter = \<lfloor>lonSecInHalf / 11.25\<rfloor>;
         quarterDigit = latQuarter * 2 + lonQuarter + 1
     in padStart 2 CHR ''0'' (numberToString p) @ padStart 2 CHR ''0'' (numberToString q)
        @ numberToString r @ numberToString s @ numberToString t @ numberToString u
        @ numberToString halfDigit @ numberToString quarterDigit)"

section \<open>GridTiler\<close>

type_synonym BBox = "real \<times> real \<times> real \<times> real"

definition JAPAN_BOUNDS :: BBox where
  "JAPAN_BOUNDS = (122.93, 24.04, 153.99, 45.95)"

definition MESH_LAT_STEP_SEC :: real where "MESH_LAT_STEP_SEC = 7.5"
definition MESH_LON_STEP_SEC :: real where "MESH_LON_STEP_SEC = 11.25"

fun isPointInJapan :: "real \<times> real \<Rightarrow> bool" where
  "isPointInJapan (lon, lat) =
     (case JAPAN_BOUNDS of (b0, b1, b2, b3) \<Rightarrow> lon \<ge> b0 \<and> lon \<le> b2 \<and> lat \<ge> b1 \<and> lat \<le> b3)"

record MeshKeyed =
  meshId :: string

record MeshCell = MeshKeyed +
  bbox :: BBox

datatype CellLimit = Limit real | POSITIVE_INFINITY

definition MAX_CELLS_PER_FEATURE :: "real option \<Rightarrow> CellLimit" where
  "MAX_CELLS_PER_FEATURE raw =
     (case raw of
        Some x \<Rightarrow> if x > 0 then Limit x else POSITIVE_INFINITY
      | None \<Rightarrow> POSITIVE_INFINITY)"

fun exceedsLimit :: "real \<Rightarrow> CellLimit \<Rightarrow> bool" where
  "exceedsLimit n (Limit m) = (n > m)"
| "exceedsLimit n POSITIVE_INFINITY = False"

fun intersectBbox :: "BBox \<Rightarrow> BBox \<Rightarrow> BBox option" where
  "intersectBbox (b0, b1, b2, b3) (n0, n1, n2, n3) =
     (let minLon = max b0 n0;
          minLat = max b1 n1;
          maxLon = min b2 n2;
          maxLat = min b3 n3
      in if minLon \<ge> maxLon \<or> minLat \<ge> maxLat then None
         else Some (minLon, minLat, maxLon, maxLat))"

function lonLoop :: "real \<Rightarrow> real \<Rightarrow> real \<Rightarrow> real \<Rightarrow> real \<Rightarrow> MeshCell list" where
  "lonLoop lat0 lat1 centerLat lonSec endLonSec =
     (if lonSec < endLonSec then
        (let lon0 = lonSec / 3600;
             lon1 = (lonSec + MESH_LON_STEP_SEC) / 3600;
             centerLon = (lonSec + MESH_LON_STEP_SEC / 2) / 3600;
             meshId = meshCode250 centerLat centerLon
         in \<lparr>meshId = meshId, bbox = (lon0, lat0, lon1, lat1)\<rparr>
            # lonLoop lat0 lat1 centerLat (lonSec + MESH_LON_STEP_SEC) endLonSec)
      else [])"
  by pat_completeness auto
termination
proof (relation "measure (\<lambda>(lat0, lat1, centerLat, lonSec, endLonSec).
                    nat \<lceil>(endLonSec - lonSec) / MESH_LON_STEP_SEC\<rceil>)")
  show "wf (measure (\<lambda>(lat0, lat1, centerLat, lonSec, endLonSec).
                    nat \<lceil>(endLonSec - lonSec) / MESH_LON_STEP_SEC\<rceil>))" by simp
next
  fix lat0 lat1 centerLat lonSec endLonSec :: real
  assume lt: "lonSec < endLonSec"
  have "(endLonSec - (lonSec + MESH_LON_STEP_SEC)) / MESH_LON_STEP_SEC
      = (endLonSec - lonSec) / MESH_LON_STEP_SEC - 1"
    by (simp add: MESH_LON_STEP_SEC_def field_simps)
  moreover have "0 < (endLonSec - lonSec) / MESH_LON_STEP_SEC"
    using lt by (simp add: MESH_LON_STEP_SEC_def)
  ultimately show "((lat0, lat1, centerLat, lonSec + MESH_LON_STEP_SEC, endLonSec),
         (lat0, lat1, centerLat, lonSec, endLonSec))
        \<in> measure (\<lambda>(lat0, lat1, centerLat, lonSec, endLonSec).
                    nat \<lceil>(endLonSec - lonSec) / MESH_LON_STEP_SEC\<rceil>)"
    by simp
qed

declare lonLoop.simps [simp del]

function latLoop :: "real \<Rightarrow> real \<Rightarrow> real \<Rightarrow> real \<Rightarrow> MeshCell list" where
  "latLoop latSec endLatSec startLonSec endLonSec =
     (if latSec < endLatSec then
        (let lat0 = latSec / 3600;
             lat1 = (latSec + MESH_LAT_STEP_SEC) / 3600;
             centerLat = (latSec + MESH_LAT_STEP_SEC / 2) / 3600
         in lonLoop lat0 lat1 centerLat startLonSec endLonSec
            @ latLoop (latSec + MESH_LAT_STEP_SEC) endLatSec startLonSec endLonSec)
      else [])"
  by pat_completeness auto
termination
proof (relation "measure (\<lambda>(latSec, endLatSec, startLonSec, endLonSec).
                    nat \<lceil>(endLatSec - latSec) / MESH_LAT_STEP_SEC\<rceil>)")
  show "wf (measure (\<lambda>(latSec, endLatSec, startLonSec, endLonSec).
                    nat \<lceil>(endLatSec - latSec) / MESH_LAT_STEP_SEC\<rceil>))" by simp
next
  fix latSec endLatSec startLonSec endLonSec :: real
  assume lt: "latSec < endLatSec"
  have "(endLatSec - (latSec + MESH_LAT_STEP_SEC)) / MESH_LAT_STEP_SEC
      = (endLatSec - latSec) / MESH_LAT_STEP_SEC - 1"
    by (simp add: MESH_LAT_STEP_SEC_def field_simps)
  moreover have "0 < (endLatSec - latSec) / MESH_LAT_STEP_SEC"
    using lt by (simp add: MESH_LAT_STEP_SEC_def)
  ultimately show "((latSec + MESH_LAT_STEP_SEC, endLatSec, startLonSec, endLonSec),
         (latSec, endLatSec, startLonSec, endLonSec))
        \<in> measure (\<lambda>(latSec, endLatSec, startLonSec, endLonSec).
                    nat \<lceil>(endLatSec - latSec) / MESH_LAT_STEP_SEC\<rceil>)"
    by simp
qed

declare latLoop.simps [simp del]

definition buildMeshCells :: "CellLimit \<Rightarrow> BBox \<Rightarrow> MeshCell list" where
  "buildMeshCells maxCellsPerFeature box =
     (case intersectBbox box JAPAN_BOUNDS of
        None \<Rightarrow> []
      | Some (minLon, minLat, maxLon, maxLat) \<Rightarrow>
          (let minLatSec = minLat * 3600;
               maxLatSec = maxLat * 3600;
               minLonSec = minLon * 3600;
               maxLonSec = maxLon * 3600;
               startLatSec = of_int \<lfloor>minLatSec / MESH_LAT_STEP_SEC\<rfloor> * MESH_LAT_STEP_SEC;
               endLatSec = of_int \<lceil>maxLatSec / MESH_LAT_STEP_SEC\<rceil> * MESH_LAT_STEP_SEC;
               startLonSec = of_int \<lfloor>minLonSec / MESH_LON_STEP_SEC\<rfloor> * MESH_LON_STEP_SEC;
               endLonSec = of_int \<lceil>maxLonSec / MESH_LON_STEP_SEC\<rceil> * MESH_LON_STEP_SEC;
               rows = \<lceil>(endLatSec - startLatSec) / MESH_LAT_STEP_SEC\<rceil>;
               cols = \<lceil>(endLonSec - startLonSec) / MESH_LON_STEP_SEC\<rceil>;
               total = rows * cols
           in if exceedsLimit (of_int total) maxCellsPerFeature then []
              else latLoop startLatSec endLatSec startLonSec endLonSec))"



fun bboxRegion :: "BBox \<Rightarrow> (real \<times> real) set" where
  "bboxRegion (x0, y0, x1, y1) = {(x, y). x0 \<le> x \<and> x \<le> x1 \<and> y0 \<le> y \<and> y \<le> y1}"

fun bboxInterior :: "BBox \<Rightarrow> (real \<times> real) set" where
  "bboxInterior (x0, y0, x1, y1) = {(x, y). x0 < x \<and> x < x1 \<and> y0 < y \<and> y < y1}"

definition cellsRegion :: "MeshCell list \<Rightarrow> (real \<times> real) set" where
  "cellsRegion cells = (\<Union>c \<in> set cells. bboxRegion (bbox c))"

definition gridCell :: "int \<Rightarrow> int \<Rightarrow> MeshCell" where
  "gridCell k l =
     \<lparr>meshId = meshCode250 ((of_int k * MESH_LAT_STEP_SEC + MESH_LAT_STEP_SEC / 2) / 3600)
                            ((of_int l * MESH_LON_STEP_SEC + MESH_LON_STEP_SEC / 2) / 3600),
      bbox = (of_int l * MESH_LON_STEP_SEC / 3600, of_int k * MESH_LAT_STEP_SEC / 3600,
              (of_int l * MESH_LON_STEP_SEC + MESH_LON_STEP_SEC) / 3600,
              (of_int k * MESH_LAT_STEP_SEC + MESH_LAT_STEP_SEC) / 3600)\<rparr>"

section \<open>GeometryClipper\<close>

type_synonym Position = "real \<times> real"

datatype Geometry =
    Point Position
  | MultiPoint "Position list"
  | LineString "Position list"
  | MultiLineString "Position list list"
  | Polygon "Position list list"
  | MultiPolygon "Position list list list"
  | GeometryCollection "Geometry list"

datatype Json =
    JNull
  | JBool bool
  | JNumber real
  | JString string
  | JArray "Json list"
  | JObject "(string \<times> Json) list"

record Turf =
  turfLength :: "Geometry \<Rightarrow> real option"
  turfArea :: "Geometry \<Rightarrow> real option"
  turfBbox :: "Geometry \<Rightarrow> BBox"
  bboxClip :: "Geometry \<Rightarrow> BBox \<Rightarrow> Geometry option"

record MeshGeometry = MeshKeyed +
  geometry :: Geometry

record LineMeshPiece = MeshGeometry +
  lengthM :: real
  lengthRatio :: real

record PolygonMeshPiece = MeshGeometry +
  areaM2 :: real
  areaRatio :: real

fun linePiecesLoop :: "Turf \<Rightarrow> Geometry \<Rightarrow> real \<Rightarrow> MeshCell list \<Rightarrow> LineMeshPiece list" where
  "linePiecesLoop T feature totalLengthKm [] = []"
| "linePiecesLoop T feature totalLengthKm (cell # cells) =
     (case bboxClip T feature (bbox cell) of
        None \<Rightarrow> linePiecesLoop T feature totalLengthKm cells
      | Some clipped \<Rightarrow>
          (case turfLength T clipped of
             None \<Rightarrow> linePiecesLoop T feature totalLengthKm cells
           | Some clippedLengthKm \<Rightarrow>
               if clippedLengthKm = 0 then linePiecesLoop T feature totalLengthKm cells
               else \<lparr>meshId = meshId cell, geometry = clipped,
                     lengthM = clippedLengthKm * 1000,
                     lengthRatio = min 1 (clippedLengthKm / totalLengthKm)\<rparr>
                    # linePiecesLoop T feature totalLengthKm cells))"

definition buildLineMeshPieces :: "Turf \<Rightarrow> CellLimit \<Rightarrow> Geometry \<Rightarrow> LineMeshPiece list" where
  "buildLineMeshPieces T maxCellsPerFeature feature =
     (case turfLength T feature of
        None \<Rightarrow> []
      | Some totalLengthKm \<Rightarrow>
          if totalLengthKm = 0 then []
          else (let cells = buildMeshCells maxCellsPerFeature (turfBbox T feature)
                in if length cells = 0 then []
                   else linePiecesLoop T feature totalLengthKm cells))"

fun polygonPiecesLoop :: "Turf \<Rightarrow> Geometry \<Rightarrow> real \<Rightarrow> MeshCell list \<Rightarrow> PolygonMeshPiece list" where
  "polygonPiecesLoop T feature totalArea [] = []"
| "polygonPiecesLoop T feature totalArea (cell # cells) =
     (case bboxClip T feature (bbox cell) of
        None \<Rightarrow> polygonPiecesLoop T feature totalArea cells
      | Some clipped \<Rightarrow>
          (case turfArea T clipped of
             None \<Rightarrow> polygonPiecesLoop T feature totalArea cells
           | Some clippedArea \<Rightarrow>
               if clippedArea = 0 then polygonPiecesLoop T feature totalArea cells
               else \<lparr>meshId = meshId cell, geometry = clipped,
                     areaM2 = clippedArea,
                     areaRatio = min 1 (clippedArea / totalArea)\<rparr>
                    # polygonPiecesLoop T feature totalArea cells))"

definition buildPolygonMeshPieces :: "Turf \<Rightarrow> CellLimit \<Rightarrow> Geometry \<Rightarrow> PolygonMeshPiece list" where
  "buildPolygonMeshPieces T maxCellsPerFeature feature =
     (case turfArea T feature of
        None \<Rightarrow> []
      | Some totalArea \<Rightarrow>
          if totalArea = 0 then []
          else (let cells = buildMeshCells maxCellsPerFeature (turfBbox T feature)
                in if length cells = 0 then []
                   else polygonPiecesLoop T feature totalArea cells))"

section \<open>Ingestion: features, items and chunks\<close>

datatype Feature = Feature (featureGeometry: "Geometry option") (featureProperties: Json)

datatype GeoJsonInput = FeatureCollectionInput "Feature list" | FeatureInput Feature | OtherInput

datatype IngestError = UnsupportedGeoJsonPayload

datatype GeometryKind = PointKind | LineKind | PolygonKind

record LayerRow =
  layerName :: string
  tableName :: string
  geometryType :: GeometryKind
  sourceFile :: string
  meshMapTable :: "string option"

record LayerDefinition = LayerRow +
  features :: "Feature list"

record MeshFeature = MeshGeometry +
  properties :: Json

record 'piece MeshItem = MeshFeature +
  pieces :: "'piece list"

type_synonym LineItem = "LineMeshPiece MeshItem"
type_synonym PolygonItem = "PolygonMeshPiece MeshItem"

definition INSERT_CHUNK_SIZE :: nat where
  "INSERT_CHUNK_SIZE = 500"

definition normalizeProperties :: "Json \<Rightarrow> Json" where
  "normalizeProperties props =
     (case props of JObject kvs \<Rightarrow> props | JArray vs \<Rightarrow> props | _ \<Rightarrow> JObject [])"

definition slice :: "'a list \<Rightarrow> nat \<Rightarrow> nat \<Rightarrow> 'a list" where
  "slice xs i j = take (j - i) (drop i xs)"

partial_function (option) chunkArrayLoop ::
  "'a list \<Rightarrow> nat \<Rightarrow> nat \<Rightarrow> 'a list list \<Rightarrow> 'a list list option" where
  "chunkArrayLoop rows chunkSize i chunks =
     (if i < length rows
      then chunkArrayLoop rows chunkSize (i + chunkSize) (chunks @ [slice rows i (i + chunkSize)])
      else Some chunks)"

declare chunkArrayLoop.simps [code]

definition chunkArray :: "'a list \<Rightarrow> nat \<Rightarrow> 'a list list option" where
  "chunkArray rows chunkSize = chunkArrayLoop rows chunkSize 0 []"

definition forEachChunk :: "'a list \<Rightarrow> ('a list \<Rightarrow> 's \<Rightarrow> 's) \<Rightarrow> 's \<Rightarrow> 's" where
  "forEachChunk rows body s =
     (case chunkArray rows INSERT_CHUNK_SIZE of
        Some chunks \<Rightarrow> fold body chunks s
      | None \<Rightarrow> s)"

definition setAdd :: "'a \<Rightarrow> 'a list \<Rightarrow> 'a list" where
  "setAdd x xs = (if x \<in> set xs then xs else xs @ [x])"

fun explodePointFeatures :: "Feature list \<Rightarrow> (Position \<times> Json) list" where
  "explodePointFeatures [] = []"
| "explodePointFeatures (feature # rest) =
     (case featureGeometry feature of
        None \<Rightarrow> explodePointFeatures rest
      | Some g \<Rightarrow>
          (let props = normalizeProperties (featureProperties feature)
           in case g of
                Point coords \<Rightarrow> (coords, props) # explodePointFeatures rest
              | MultiPoint coordsList \<Rightarrow> map (\<lambda>coords. (coords, props)) coordsList @ explodePointFeatures rest
              | _ \<Rightarrow> explodePointFeatures rest))"

fun isLineGeometry :: "Geometry \<Rightarrow> bool" where
  "isLineGeometry (LineString cs) = True"
| "isLineGeometry (MultiLineString cs) = True"
| "isLineGeometry g = False"

fun isPolygonGeometry :: "Geometry \<Rightarrow> bool" where
  "isPolygonGeometry (Polygon cs) = True"
| "isPolygonGeometry (MultiPolygon cs) = True"
| "isPolygonGeometry g = False"

fun isPointGeometry :: "Geometry \<Rightarrow> bool" where
  "isPointGeometry (Point c) = True"
| "isPointGeometry (MultiPoint cs) = True"
| "isPointGeometry g = False"

fun toLineItems :: "Turf \<Rightarrow> CellLimit \<Rightarrow> Feature list \<Rightarrow> LineItem list" where
  "toLineItems T maxCells [] = []"
| "toLineItems T maxCells (feature # rest) =
     (case featureGeometry feature of
        None \<Rightarrow> toLineItems T maxCells rest
      | Some g \<Rightarrow>
          if \<not> isLineGeometry g then toLineItems T maxCells rest
          else (let props = normalizeProperties (featureProperties feature);
                    ps = buildLineMeshPieces T maxCells g
                in case ps of
                     [] \<Rightarrow> toLineItems T maxCells rest
                   | first # others \<Rightarrow>
                       \<lparr>meshId = meshId first, geometry = g, properties = props, pieces = ps\<rparr>
                       # toLineItems T maxCells rest))"

fun toPolygonItems :: "Turf \<Rightarrow> CellLimit \<Rightarrow> Feature list \<Rightarrow> PolygonItem list" where
  "toPolygonItems T maxCells [] = []"
| "toPolygonItems T maxCells (feature # rest) =
     (case featureGeometry feature of
        None \<Rightarrow> toPolygonItems T maxCells rest
      | Some g \<Rightarrow>
          if \<not> isPolygonGeometry g then toPolygonItems T maxCells rest
          else (let props = normalizeProperties (featureProperties feature);
                    ps = buildPolygonMeshPieces T maxCells g
                in case ps of
                     [] \<Rightarrow> toPolygonItems T maxCells rest
                   | first # others \<Rightarrow>
                       \<lparr>meshId = meshId first, geometry = g, properties = props, pieces = ps\<rparr>
                       # toPolygonItems T maxCells rest))"

section \<open>The store\<close>

record FeatureRow =
  row_id :: nat
  source_layer :: string
  mesh_id :: string
  geometry_json :: Geometry
  properties_json :: Json

record MeshMapRow = FeatureRow +
  feature_id :: nat
  measured :: real
  ratio :: real

record MeshIndexRow =
  has_points :: bool
  has_lines :: bool
  has_polygons :: bool
  layer_presence :: "string \<rightharpoonup> bool"

datatype DynValue = TextValue string | NumberValue real | GeometryValue Geometry | JsonValue Json

record DynRow =
  dyn_id :: nat
  dyn_cells :: "(string \<times> DynValue) list"

record DynTable =
  dyn_rows :: "DynRow list"
  dyn_seq :: nat

record Store =
  mesh_index :: "string \<rightharpoonup> MeshIndexRow"
  point_features :: "FeatureRow list"
  line_features :: "FeatureRow list"
  polygon_features :: "FeatureRow list"
  line_mesh_map :: "MeshMapRow list"
  polygon_mesh_map :: "MeshMapRow list"
  layer_registry :: "LayerRow list"
  tables :: "string \<rightharpoonup> DynTable"
  point_features_seq :: nat
  line_features_seq :: nat
  polygon_features_seq :: nat
  line_mesh_map_seq :: nat
  polygon_mesh_map_seq :: nat
  statements :: "(string \<times> nat) list"

definition emptyStore :: Store where
  "emptyStore = \<lparr>mesh_index = Map.empty, point_features = [], line_features = [],
      polygon_features = [], line_mesh_map = [], polygon_mesh_map = [], layer_registry = [],
      tables = Map.empty, point_features_seq = 1, line_features_seq = 1,
      polygon_features_seq = 1, line_mesh_map_seq = 1, polygon_mesh_map_seq = 1,
      statements = []\<rparr>"

definition tableExists :: "string \<Rightarrow> Store \<Rightarrow> bool" where
  "tableExists name s = (tables s name \<noteq> None)"

definition createTableIfNotExists :: "string \<Rightarrow> Store \<Rightarrow> Store" where
  "createTableIfNotExists name s =
     (case tables s name of
        Some t \<Rightarrow> s
      | None \<Rightarrow> s\<lparr>tables := (tables s)(name \<mapsto> \<lparr>dyn_rows = [], dyn_seq = 1\<rparr>)\<rparr>)"

definition ensureLayerTables :: "LayerDefinition \<Rightarrow> Store \<Rightarrow> Store" where
  "ensureLayerTables def s =
     (let s1 = createTableIfNotExists (tableName def) s;
          s2 = (case meshMapTable def of
                  Some m \<Rightarrow> if geometryType def = LineKind then createTableIfNotExists m s1 else s1
                | None \<Rightarrow> s1)
      in case meshMapTable def of
           Some m \<Rightarrow> if geometryType def = PolygonKind then createTableIfNotExists m s2 else s2
         | None \<Rightarrow> s2)"

definition insertDynamicStatement ::
  "string \<Rightarrow> string list \<Rightarrow> DynValue list list \<Rightarrow> Store \<Rightarrow> Store" where
  "insertDynamicStatement name cols chunk s =
     (let s' = s\<lparr>statements := statements s @ [(name, length chunk)]\<rparr>
      in case tables s name of
           None \<Rightarrow> s'
         | Some t \<Rightarrow>
             s'\<lparr>tables := (tables s)(name \<mapsto>
                  \<lparr>dyn_rows = dyn_rows t
                      @ map (\<lambda>(k, vals). \<lparr>dyn_id = dyn_seq t + k, dyn_cells = zip cols vals\<rparr>)
                          (enumerate 0 chunk),
                   dyn_seq = dyn_seq t + length chunk\<rparr>)\<rparr>)"

definition insertRowsDynamic ::
  "string \<Rightarrow> string list \<Rightarrow> DynValue list list \<Rightarrow> Store \<Rightarrow> Store" where
  "insertRowsDynamic name cols rows s =
     forEachChunk rows
       (\<lambda>chunk s. if length chunk = 0 then s else insertDynamicStatement name cols chunk s) s"

definition insertMeshIndexStatement :: "string list \<Rightarrow> Store \<Rightarrow> Store" where
  "insertMeshIndexStatement chunk s =
     s\<lparr>mesh_index :=
          fold (\<lambda>m idx. case idx m of
                          Some r \<Rightarrow> idx
                        | None \<Rightarrow> idx(m \<mapsto> \<lparr>has_points = False, has_lines = False,
                                              has_polygons = False, layer_presence = Map.empty\<rparr>))
               chunk (mesh_index s),
        statements := statements s @ [(''mesh_index'', length chunk)]\<rparr>"

definition upsertMeshIndex :: "string list \<Rightarrow> Store \<Rightarrow> Store" where
  "upsertMeshIndex meshIds s =
     (if length meshIds = 0 then s
      else forEachChunk meshIds insertMeshIndexStatement s)"

definition refreshMeshFlags :: "string list \<Rightarrow> Store \<Rightarrow> Store" where
  "refreshMeshFlags meshIds s =
     (if length meshIds = 0 then s
      else s\<lparr>mesh_index := (\<lambda>m.
              case mesh_index s m of
                None \<Rightarrow> None
              | Some r \<Rightarrow>
                  if m \<in> set meshIds
                  then Some (r\<lparr>has_points := (\<exists>pf \<in> set (point_features s). mesh_id pf = m),
                               has_lines := (\<exists>lm \<in> set (line_mesh_map s). mesh_id lm = m),
                               has_polygons := (\<exists>pm \<in> set (polygon_mesh_map s). mesh_id pm = m)\<rparr>)
                  else Some r)\<rparr>)"

definition removeLayerPresence :: "string \<Rightarrow> string list \<Rightarrow> Store \<Rightarrow> Store" where
  "removeLayerPresence name meshIds s =
     (if length meshIds = 0 then s
      else s\<lparr>mesh_index := (\<lambda>m.
              case mesh_index s m of
                None \<Rightarrow> None
              | Some r \<Rightarrow>
                  if m \<in> set meshIds
                  then Some (r\<lparr>layer_presence := (layer_presence r)(name := None)\<rparr>)
                  else Some r)\<rparr>)"

definition addLayerPresence :: "string \<Rightarrow> string list \<Rightarrow> Store \<Rightarrow> Store" where
  "addLayerPresence name meshIds s =
     (if length meshIds = 0 then s
      else s\<lparr>mesh_index := (\<lambda>m.
              case mesh_index s m of
                None \<Rightarrow> None
              | Some r \<Rightarrow>
                  if m \<in> set meshIds
                  then Some (r\<lparr>layer_presence := (layer_presence r)(name \<mapsto> True)\<rparr>)
                  else Some r)\<rparr>)"

definition dynMeshId :: "DynRow \<Rightarrow> string" where
  "dynMeshId r = (case map_of (dyn_cells r) ''mesh_id'' of Some (TextValue m) \<Rightarrow> m | _ \<Rightarrow> [])"

definition selectDistinctMeshIds :: "string \<Rightarrow> Store \<Rightarrow> string list" where
  "selectDistinctMeshIds name s =
     (case tables s name of None \<Rightarrow> [] | Some t \<Rightarrow> remdups (map dynMeshId (dyn_rows t)))"

definition getLayerMeshIds :: "string \<Rightarrow> string option \<Rightarrow> Store \<Rightarrow> string list" where
  "getLayerMeshIds table mapTable s =
     (case mapTable of
        Some m \<Rightarrow>
          if tableExists m s then selectDistinctMeshIds m s
          else if tableExists table s then selectDistinctMeshIds table s
          else []
      | None \<Rightarrow>
          if tableExists table s then selectDistinctMeshIds table s else [])"

definition deleteGenericRows :: "string \<Rightarrow> Store \<Rightarrow> Store" where
  "deleteGenericRows name s =
     (let s1 = s\<lparr>point_features := filter (\<lambda>r. source_layer r \<noteq> name) (point_features s)\<rparr>;
          goneLines = set (map row_id (filter (\<lambda>r. source_layer r = name) (line_features s1)));
          s2 = s1\<lparr>line_features := filter (\<lambda>r. source_layer r \<noteq> name) (line_features s1),
                  line_mesh_map := filter (\<lambda>r. feature_id r \<notin> goneLines) (line_mesh_map s1)\<rparr>;
          gonePolygons = set (map row_id (filter (\<lambda>r. source_layer r = name) (polygon_features s2)));
          s3 = s2\<lparr>polygon_features := filter (\<lambda>r. source_layer r \<noteq> name) (polygon_features s2),
                  polygon_mesh_map := filter (\<lambda>r. feature_id r \<notin> gonePolygons) (polygon_mesh_map s2)\<rparr>;
          s4 = s3\<lparr>line_mesh_map := filter (\<lambda>r. source_layer r \<noteq> name) (line_mesh_map s3)\<rparr>
      in s4\<lparr>polygon_mesh_map := filter (\<lambda>r. source_layer r \<noteq> name) (polygon_mesh_map s4)\<rparr>)"

definition deleteFrom :: "string \<Rightarrow> Store \<Rightarrow> Store" where
  "deleteFrom name s =
     (case tables s name of
        None \<Rightarrow> s
      | Some t \<Rightarrow> s\<lparr>tables := (tables s)(name \<mapsto> t\<lparr>dyn_rows := []\<rparr>)\<rparr>)"

definition deleteLayerTables :: "LayerDefinition \<Rightarrow> Store \<Rightarrow> Store" where
  "deleteLayerTables def s =
     (let s1 = (if tableExists (tableName def) s then deleteFrom (tableName def) s else s)
      in case meshMapTable def of
           Some m \<Rightarrow> if tableExists m s1 then deleteFrom m s1 else s1
         | None \<Rightarrow> s1)"

definition dropTable :: "string \<Rightarrow> Store \<Rightarrow> Store" where
  "dropTable name s = (if tableExists name s then s\<lparr>tables := (tables s)(name := None)\<rparr> else s)"

section \<open>LayerIngestionPipeline\<close>

record Env =
  turf :: Turf
  cellLimit :: CellLimit
  pathStem :: "string \<Rightarrow> string"

definition featureRows ::
  "(string \<times> string \<times> Geometry \<times> Json) list \<Rightarrow> nat \<Rightarrow> FeatureRow list" where
  "featureRows vals seq =
     map (\<lambda>(k, (layer, m, g, props)).
            \<lparr>row_id = seq + k, source_layer = layer, mesh_id = m,
             geometry_json = g, properties_json = props\<rparr>)
         (enumerate 0 vals)"

definition insertPointFeatures :: "(string \<times> string \<times> Geometry \<times> Json) list \<Rightarrow> Store \<Rightarrow> Store" where
  "insertPointFeatures vals s =
     s\<lparr>point_features := point_features s
          @ featureRows vals (point_features_seq s),
        point_features_seq := point_features_seq s + length vals,
        statements := statements s @ [(''point_features'', length vals)]\<rparr>"

definition insertLineFeatures ::
  "(string \<times> string \<times> Geometry \<times> Json) list \<Rightarrow> Store \<Rightarrow> nat list \<times> Store" where
  "insertLineFeatures vals s =
     (map (\<lambda>k. line_features_seq s + k) [0..<length vals],
      s\<lparr>line_features := line_features s
          @ featureRows vals (line_features_seq s),
        line_features_seq := line_features_seq s + length vals,
        statements := statements s @ [(''line_features'', length vals)]\<rparr>)"

definition insertPolygonFeatures ::
  "(string \<times> string \<times> Geometry \<times> Json) list \<Rightarrow> Store \<Rightarrow> nat list \<times> Store" where
  "insertPolygonFeatures vals s =
     (map (\<lambda>k. polygon_features_seq s + k) [0..<length vals],
      s\<lparr>polygon_features := polygon_features s
          @ featureRows vals (polygon_features_seq s),
        polygon_features_seq := polygon_features_seq s + length vals,
        statements := statements s @ [(''polygon_features'', length vals)]\<rparr>)"

definition meshMapRows ::
  "(string \<times> nat \<times> string \<times> Geometry \<times> Json \<times> real \<times> real) list \<Rightarrow> nat \<Rightarrow> MeshMapRow list" where
  "meshMapRows vals seq =
     map (\<lambda>(k, (layer, fid, m, g, props, len, rat)).
            \<lparr>row_id = seq + k, source_layer = layer, mesh_id = m, geometry_json = g,
             properties_json = props, feature_id = fid, measured = len, ratio = rat\<rparr>)
         (enumerate 0 vals)"

definition insertLineMeshMap ::
  "(string \<times> nat \<times> string \<times> Geometry \<times> Json \<times> real \<times> real) list \<Rightarrow> Store \<Rightarrow> Store" where
  "insertLineMeshMap vals s =
     s\<lparr>line_mesh_map := line_mesh_map s @ meshMapRows vals (line_mesh_map_seq s),
        line_mesh_map_seq := line_mesh_map_seq s + length vals,
        statements := statements s @ [(''line_mesh_map'', length vals)]\<rparr>"

definition insertPolygonMeshMap ::
  "(string \<times> nat \<times> string \<times> Geometry \<times> Json \<times> real \<times> real) list \<Rightarrow> Store \<Rightarrow> Store" where
  "insertPolygonMeshMap vals s =
     s\<lparr>polygon_mesh_map := polygon_mesh_map s @ meshMapRows vals (polygon_mesh_map_seq s),
        polygon_mesh_map_seq := polygon_mesh_map_seq s + length vals,
        statements := statements s @ [(''polygon_mesh_map'', length vals)]\<rparr>"

definition pointsInJapan :: "(Position \<times> Json) list \<Rightarrow> (Position \<times> Json) list" where
  "pointsInJapan pointFeaturesList = filter (\<lambda>(coords, props). isPointInJapan coords) pointFeaturesList"

definition processPointLayer :: "LayerDefinition \<Rightarrow> Store \<Rightarrow> string list \<times> Store" where
  "processPointLayer def s =
     (let pointFeaturesList = explodePointFeatures (features def);
          kept = pointsInJapan pointFeaturesList;
          meshIds = fold (\<lambda>((lon, lat), props). setAdd (meshCode250 lat lon)) kept [];
          layerRows = map (\<lambda>((lon, lat), props).
                             [TextValue (meshCode250 lat lon), GeometryValue (Point (lon, lat)),
                              JsonValue (normalizeProperties props)]) kept;
          genericRows = map (\<lambda>((lon, lat), props).
                               (layerName def, meshCode250 lat lon, Point (lon, lat),
                                normalizeProperties props)) kept;
          s1 = upsertMeshIndex meshIds s;
          s2 = insertRowsDynamic (tableName def) [''mesh_id'', ''geometry'', ''properties''] layerRows s1;
          s3 = forEachChunk genericRows
                 (\<lambda>chunk s. if length chunk > 0 then insertPointFeatures chunk s else s) s2
      in (meshIds, s3))"

definition lineChunkBody :: "LayerDefinition \<Rightarrow> string \<Rightarrow> LineItem list \<Rightarrow> Store \<Rightarrow> Store" where
  "lineChunkBody def mapTable chunk s =
     (let chunkRows = map (\<lambda>item. (layerName def, meshId item, geometry item, properties item)) chunk;
          (inserted, s1) = insertLineFeatures chunkRows s;
          genericMeshRows = concat (map (\<lambda>(rowId, item).
               map (\<lambda>piece. (layerName def, rowId, meshId piece, geometry piece, properties item,
                              lengthM piece, lengthRatio piece)) (pieces item))
             (zip inserted chunk));
          s2 = forEachChunk genericMeshRows
                 (\<lambda>meshChunk s. if length meshChunk > 0 then insertLineMeshMap meshChunk s else s) s1;
          perLayerMeshRows = concat (map (\<lambda>item.
               map (\<lambda>piece. [TextValue (meshId piece), GeometryValue (geometry piece),
                              JsonValue (properties item), NumberValue (lengthM piece),
                              NumberValue (lengthRatio piece)]) (pieces item)) chunk)
      in insertRowsDynamic mapTable
           [''mesh_id'', ''geometry'', ''properties'', ''length_m'', ''length_ratio'']
           perLayerMeshRows s2)"

definition processLineLayer :: "Env \<Rightarrow> LayerDefinition \<Rightarrow> Store \<Rightarrow> string list \<times> Store" where
  "processLineLayer env def s =
     (case meshMapTable def of
        None \<Rightarrow> ([], s)
      | Some mapTable \<Rightarrow>
          (let items = toLineItems (turf env) (cellLimit env) (features def);
               primaryMeshIds = fold (\<lambda>item. setAdd (meshId item)) items [];
               layerRows = map (\<lambda>item. [TextValue (meshId item), GeometryValue (geometry item),
                                          JsonValue (properties item)]) items;
               meshIds = fold (\<lambda>item acc. fold (\<lambda>piece. setAdd (meshId piece)) (pieces item) acc)
                              items [];
               meshIndexIds = fold setAdd meshIds primaryMeshIds;
               s1 = upsertMeshIndex meshIndexIds s;
               s2 = insertRowsDynamic (tableName def) [''mesh_id'', ''geometry'', ''properties'']
                      layerRows s1;
               s3 = forEachChunk items (lineChunkBody def mapTable) s2
           in (meshIds, s3)))"

definition polygonChunkBody :: "LayerDefinition \<Rightarrow> string \<Rightarrow> PolygonItem list \<Rightarrow> Store \<Rightarrow> Store" where
  "polygonChunkBody def mapTable chunk s =
     (let chunkRows = map (\<lambda>item. (layerName def, meshId item, geometry item, properties item)) chunk;
          (inserted, s1) = insertPolygonFeatures chunkRows s;
          genericMeshRows = concat (map (\<lambda>(rowId, item).
               map (\<lambda>piece. (layerName def, rowId, meshId piece, geometry piece, properties item,
                              areaM2 piece, areaRatio piece)) (pieces item))
             (zip inserted chunk));
          s2 = forEachChunk genericMeshRows
                 (\<lambda>meshChunk s. if length meshChunk > 0 then insertPolygonMeshMap meshChunk s else s) s1;
          perLayerMeshRows = concat (map (\<lambda>item.
               map (\<lambda>piece. [TextValue (meshId piece), GeometryValue (geometry piece),
                              JsonValue (properties item), NumberValue (areaM2 piece),
                              NumberValue (areaRatio piece)]) (pieces item)) chunk)
      in insertRowsDynamic mapTable
           [''mesh_id'', ''geometry'', ''properties'', ''area_m2'', ''area_ratio'']
           perLayerMeshRows s2)"

definition processPolygonLayer :: "Env \<Rightarrow> LayerDefinition \<Rightarrow> Store \<Rightarrow> string list \<times> Store" where
  "processPolygonLayer env def s =
     (case meshMapTable def of
        None \<Rightarrow> ([], s)
      | Some mapTable \<Rightarrow>
          (let items = toPolygonItems (turf env) (cellLimit env) (features def);
               primaryMeshIds = fold (\<lambda>item. setAdd (meshId item)) items [];
               layerRows = map (\<lambda>item. [TextValue (meshId item), GeometryValue (geometry item),
                                          JsonValue (properties item)]) items;
               meshIds = fold (\<lambda>item acc. fold (\<lambda>piece. setAdd (meshId piece)) (pieces item) acc)
                              items [];
               meshIndexIds = fold setAdd meshIds primaryMeshIds;
               s1 = upsertMeshIndex meshIndexIds s;
               s2 = insertRowsDynamic (tableName def) [''mesh_id'', ''geometry'', ''properties'']
                      layerRows s1;
               s3 = forEachChunk items (polygonChunkBody def mapTable) s2
           in (meshIds, s3)))"

definition upsertLayerRegistry :: "LayerDefinition \<Rightarrow> Store \<Rightarrow> Store" where
  "upsertLayerRegistry def s =
     (let row = \<lparr>layerName = layerName def, tableName = tableName def,
                 geometryType = geometryType def, sourceFile = sourceFile def,
                 meshMapTable = meshMapTable def\<rparr>
      in if \<exists>r \<in> set (layer_registry s). layerName r = layerName def
         then s\<lparr>layer_registry :=
                  map (\<lambda>r. if layerName r = layerName def then row else r) (layer_registry s)\<rparr>
         else s\<lparr>layer_registry := layer_registry s @ [row]\<rparr>)"

definition removeLayer :: "LayerRow \<Rightarrow> Store \<Rightarrow> Store" where
  "removeLayer layerRow s =
     (let oldMeshIds = getLayerMeshIds (tableName layerRow) (meshMapTable layerRow) s;
          s1 = deleteGenericRows (layerName layerRow) s;
          s2 = (case meshMapTable layerRow of Some m \<Rightarrow> dropTable m s1 | None \<Rightarrow> s1);
          s3 = dropTable (tableName layerRow) s2;
          s4 = s3\<lparr>layer_registry :=
                    filter (\<lambda>r. layerName r \<noteq> layerName layerRow) (layer_registry s3)\<rparr>;
          s5 = removeLayerPresence (layerName layerRow) oldMeshIds s4
      in refreshMeshFlags oldMeshIds s5)"

definition processLayer :: "Env \<Rightarrow> LayerDefinition \<Rightarrow> Store \<Rightarrow> Store" where
  "processLayer env def s =
     (let previous = find (\<lambda>r. layerName r = layerName def) (layer_registry s);
          oldMeshIds = (case previous of
                          Some prev \<Rightarrow> getLayerMeshIds (tableName prev) (meshMapTable prev) s
                        | None \<Rightarrow> []);
          s1 = deleteGenericRows (layerName def) s;
          s2 = deleteLayerTables def s1;
          s3 = (case previous of
                  Some prev \<Rightarrow>
                    (case meshMapTable prev of
                       Some m \<Rightarrow> if geometryType prev \<noteq> geometryType def then dropTable m s2 else s2
                     | None \<Rightarrow> s2)
                | None \<Rightarrow> s2);
          s4 = ensureLayerTables def s3;
          (newMeshIds, s5) =
             (case geometryType def of
                PointKind \<Rightarrow> processPointLayer def s4
              | LineKind \<Rightarrow> processLineLayer env def s4
              | PolygonKind \<Rightarrow> processPolygonLayer env def s4);
          s6 = removeLayerPresence (layerName def) oldMeshIds s5;
          s7 = addLayerPresence (layerName def) newMeshIds s6;
          s8 = refreshMeshFlags (fold setAdd newMeshIds (fold setAdd oldMeshIds [])) s7
      in upsertLayerRegistry def s8)"

definition toFeatureCollection :: "GeoJsonInput \<Rightarrow> IngestError + Feature list" where
  "toFeatureCollection input =
     (case input of
        FeatureCollectionInput fs \<Rightarrow> Inr fs
      | FeatureInput f \<Rightarrow> Inr [f]
      | OtherInput \<Rightarrow> Inl UnsupportedGeoJsonPayload)"

definition isLowerAlnum :: "char \<Rightarrow> bool" where
  "isLowerAlnum c =
     ((97 \<le> (of_char c :: nat) \<and> (of_char c :: nat) \<le> 122)
      \<or> (48 \<le> (of_char c :: nat) \<and> (of_char c :: nat) \<le> 57))"

definition toLowerCase :: "string \<Rightarrow> string" where
  "toLowerCase str =
     map (\<lambda>c. if 65 \<le> (of_char c :: nat) \<and> (of_char c :: nat) \<le> 90
              then char_of ((of_char c :: nat) + 32) else c) str"

fun replaceRuns :: "bool \<Rightarrow> string \<Rightarrow> string" where
  "replaceRuns inRun [] = []"
| "replaceRuns inRun (c # cs) =
     (if isLowerAlnum c then c # replaceRuns False cs
      else if inRun then replaceRuns True cs
      else CHR ''_'' # replaceRuns True cs)"

definition trimUnderscores :: "string \<Rightarrow> string" where
  "trimUnderscores str =
     rev (dropWhile (\<lambda>c. c = CHR ''_'') (rev (dropWhile (\<lambda>c. c = CHR ''_'') str)))"

definition normalizeLayerName :: "string \<Rightarrow> string" where
  "normalizeLayerName rawName =
     (let base = trimUnderscores (replaceRuns False (toLowerCase rawName))
      in case base of
           [] \<Rightarrow> ''layer''
         | c # cs \<Rightarrow>
             if 97 \<le> (of_char c :: nat) \<and> (of_char c :: nat) \<le> 122 then base
             else ''layer_'' @ base)"

definition hasKind :: "(Geometry \<Rightarrow> bool) \<Rightarrow> Feature \<Rightarrow> bool" where
  "hasKind isKind feature = (case featureGeometry feature of Some g \<Rightarrow> isKind g | None \<Rightarrow> False)"

definition layerDefinitions :: "Env \<Rightarrow> string \<Rightarrow> Feature list \<Rightarrow> LayerDefinition list" where
  "layerDefinitions env fileName collectionFeatures =
     (let fs = filter (\<lambda>f. featureGeometry f \<noteq> None) collectionFeatures;
          grouped = [(PointKind, filter (hasKind isPointGeometry) fs),
                     (LineKind, filter (hasKind isLineGeometry) fs),
                     (PolygonKind, filter (hasKind isPolygonGeometry) fs)];
          baseName = normalizeLayerName (pathStem env fileName);
          geometryTypes = filter (\<lambda>(kind, group). length group > 0) grouped;
          useSuffix = (length geometryTypes > 1)
      in map (\<lambda>(kind, group).
                (let suffix = (case kind of PointKind \<Rightarrow> ''points'' | LineKind \<Rightarrow> ''lines''
                                | PolygonKind \<Rightarrow> ''polygons'');
                     name = (if useSuffix then baseName @ ''_'' @ suffix else baseName)
                 in \<lparr>layerName = name, tableName = name, geometryType = kind,
                      sourceFile = fileName,
                      meshMapTable = (if kind = PointKind then None else Some (name @ ''_mesh_map'')),
                      features = group\<rparr>))
             geometryTypes)"

definition ingestFile :: "Env \<Rightarrow> string \<Rightarrow> GeoJsonInput \<Rightarrow> Store \<Rightarrow> IngestError + Store" where
  "ingestFile env fileName input s =
     (case toFeatureCollection input of
        Inl e \<Rightarrow> Inl e
      | Inr collectionFeatures \<Rightarrow>
          (let layerDefs = layerDefinitions env fileName collectionFeatures
           in if length layerDefs = 0 then Inr s
              else (let existingLayers = filter (\<lambda>r. sourceFile r = fileName) (layer_registry s);
                        staleLayers = filter (\<lambda>r. layerName r \<notin> set (map layerName layerDefs))
                                             existingLayers;
                        s1 = fold removeLayer staleLayers s
                    in Inr (fold (processLayer env) layerDefs s1))))"


section \<open>Mesh mapping module: chunked inserts\<close>

datatype MeshFlag = HasPoints | HasLines | HasPolygons

function insertInChunksLoop :: "('r list \<Rightarrow> Store \<Rightarrow> Store) \<Rightarrow> 'r list \<Rightarrow> nat \<Rightarrow> Store \<Rightarrow> Store" where
  "insertInChunksLoop insertValues rows i s =
     (if i < length rows
      then (let chunk = slice rows i (i + INSERT_CHUNK_SIZE)
            in insertInChunksLoop insertValues rows (i + INSERT_CHUNK_SIZE)
                 (if length chunk > 0 then insertValues chunk s else s))
      else s)"
  by pat_completeness auto
termination
  by (relation "measure (\<lambda>(insertValues, rows, i, s). length rows - i)")
     (simp_all add: INSERT_CHUNK_SIZE_def)

declare insertInChunksLoop.simps [simp del]

definition insertInChunks :: "('r list \<Rightarrow> Store \<Rightarrow> Store) \<Rightarrow> 'r list \<Rightarrow> Store \<Rightarrow> Store" where
  "insertInChunks insertValues rows s = insertInChunksLoop insertValues rows 0 s"

definition setFlag :: "MeshFlag \<Rightarrow> MeshIndexRow \<Rightarrow> MeshIndexRow" where
  "setFlag flag r =
     (case flag of
        HasPoints \<Rightarrow> r\<lparr>has_points := True\<rparr>
      | HasLines \<Rightarrow> r\<lparr>has_lines := True\<rparr>
      | HasPolygons \<Rightarrow> r\<lparr>has_polygons := True\<rparr>)"

definition upsertMeshFlagStatement :: "MeshFlag \<Rightarrow> string list \<Rightarrow> Store \<Rightarrow> Store" where
  "upsertMeshFlagStatement flag chunk s =
     s\<lparr>mesh_index :=
          fold (\<lambda>m idx. case idx m of
                          Some r \<Rightarrow> idx(m \<mapsto> setFlag flag r)
                        | None \<Rightarrow> idx(m \<mapsto> setFlag flag
                                     \<lparr>has_points = False, has_lines = False,
                                      has_polygons = False, layer_presence = Map.empty\<rparr>))
               chunk (mesh_index s),
        statements := statements s @ [(''mesh_index'', length chunk)]\<rparr>"

function upsertMeshFlagLoop :: "MeshFlag \<Rightarrow> string list \<Rightarrow> nat \<Rightarrow> Store \<Rightarrow> Store" where
  "upsertMeshFlagLoop flag vals i s =
     (if i < length vals
      then (let chunk = slice vals i (i + INSERT_CHUNK_SIZE)
            in upsertMeshFlagLoop flag vals (i + INSERT_CHUNK_SIZE)
                 (if length chunk = 0 then s else upsertMeshFlagStatement flag chunk s))
      else s)"
  by pat_completeness auto
termination
  by (relation "measure (\<lambda>(flag, vals, i, s). length vals - i)")
     (simp_all add: INSERT_CHUNK_SIZE_def)

declare upsertMeshFlagLoop.simps [simp del]

definition upsertMeshFlag :: "string list \<Rightarrow> MeshFlag \<Rightarrow> Store \<Rightarrow> Store" where
  "upsertMeshFlag meshIds flag s = upsertMeshFlagLoop flag meshIds 0 s"

function chunksOf :: "nat \<Rightarrow> 'a list \<Rightarrow> 'a list list" where
  "chunksOf n xs = (if n = 0 \<or> xs = [] then [] else take n xs # chunksOf n (drop n xs))"
  by pat_completeness auto
termination
  by (relation "measure (\<lambda>(n, xs). length xs)") auto

declare chunksOf.simps [simp del]

definition boundedStatements :: "Store \<Rightarrow> bool" where
  "boundedStatements s = (\<forall>st \<in> set (statements s). snd st \<le> INSERT_CHUNK_SIZE)"

section \<open>Sample inputs\<close>

definition unitTurf :: Turf where
  "unitTurf = \<lparr>turfLength = (\<lambda>g. Some 1), turfArea = (\<lambda>g. Some 1),
               turfBbox = (\<lambda>g. (139.7601, 35.6781, 139.7602, 35.6782)),
               bboxClip = (\<lambda>g b. Some g)\<rparr>"

text \<open>A geometry library that measures the clipped part as \<open>-1\<close>, as an area
  computed by subtracting hole rings from the shell does for a ring nesting the wrong way round.\<close>

definition holedTurf :: Turf where
  "holedTurf = \<lparr>turfLength = (\<lambda>g. Some 1),
                turfArea = (\<lambda>g. if g = Polygon [] then Some (- 1) else Some 1),
                turfBbox = (\<lambda>g. (139.7601, 35.6781, 139.7602, 35.6782)),
                bboxClip = (\<lambda>g b. Some (Polygon []))\<rparr>"

definition pointTurf :: Turf where
  "pointTurf = \<lparr>turfLength = (\<lambda>g. Some 1), turfArea = (\<lambda>g. Some 1),
               turfBbox = (\<lambda>g. (139.767, 35.68, 139.767, 35.69)),
               bboxClip = (\<lambda>g b. Some g)\<rparr>"



definition sampleEnv :: Env where
  "sampleEnv = \<lparr>turf = unitTurf, cellLimit = POSITIVE_INFINITY,
                pathStem = (\<lambda>f. takeWhile (\<lambda>c. c \<noteq> CHR ''.'') f)\<rparr>"

definition sampleInput :: GeoJsonInput where
  "sampleInput = FeatureCollectionInput
     [Feature (Some (Point (139.767, 35.681))) (JObject [(''name'', JString ''Tokyo Station'')]),
      Feature (Some (LineString [(139.7601, 35.6781), (139.7602, 35.6782)])) JNull,
      Feature None JNull,
      Feature (Some (Point (0, 0))) JNull]"

section \<open>Store content, for comparing two stores\<close>

text \<open>
  The notions of this section are not part of the program: they serve to state and prove
  that ingesting a file a second time changes nothing.  Row identifiers are serial, so the
  second ingestion writes the same rows under new identifiers; \<open>contentOf\<close> is the store
  without its identifiers, serial counters and statement log, \<open>stepC\<close> is the effect of
  \<open>processLayer\<close> on that content, and \<open>integrity\<close> says that identifiers are below
  the serial counters and that a mesh-map row and the feature it references belong to the
  same layer, which makes the cascade of \<open>deleteGenericRows\<close> delete nothing but rows of
  the layer being deleted.
\<close>

definition defaultIndexRow :: MeshIndexRow where
  "defaultIndexRow = \<lparr>has_points = False, has_lines = False, has_polygons = False,
                        layer_presence = Map.empty\<rparr>"

definition upsertIdx :: "string list \<Rightarrow> (string \<rightharpoonup> MeshIndexRow) \<Rightarrow> (string \<rightharpoonup> MeshIndexRow)" where
  "upsertIdx ids idx = (\<lambda>m. case idx m of Some r \<Rightarrow> Some r
                              | None \<Rightarrow> if m \<in> set ids then Some defaultIndexRow else None)"

definition stripFeature :: "FeatureRow \<Rightarrow> string \<times> string \<times> Geometry \<times> Json" where
  "stripFeature r = (source_layer r, mesh_id r, geometry_json r, properties_json r)"

definition stripMesh :: "MeshMapRow \<Rightarrow> string \<times> string \<times> Geometry \<times> Json \<times> real \<times> real" where
  "stripMesh r = (source_layer r, mesh_id r, geometry_json r, properties_json r, measured r, ratio r)"

definition dropFeatureId ::
  "string \<times> nat \<times> string \<times> Geometry \<times> Json \<times> real \<times> real
   \<Rightarrow> string \<times> string \<times> Geometry \<times> Json \<times> real \<times> real" where
  "dropFeatureId v = (case v of (layer, fid, rest) \<Rightarrow> (layer, rest))"

definition cellsOf :: "(string \<rightharpoonup> DynTable) \<Rightarrow> string \<rightharpoonup> (string \<times> DynValue) list list" where
  "cellsOf tabs name = map_option (\<lambda>t. map dyn_cells (dyn_rows t)) (tabs name)"

definition dynRowsOf :: "nat \<Rightarrow> string list \<Rightarrow> DynValue list list \<Rightarrow> DynRow list" where
  "dynRowsOf seq cols rows =
     map (\<lambda>(k, vals). \<lparr>dyn_id = seq + k, dyn_cells = zip cols vals\<rparr>) (enumerate 0 rows)"

definition appendCells ::
  "string \<Rightarrow> (string \<times> DynValue) list list
   \<Rightarrow> (string \<rightharpoonup> (string \<times> DynValue) list list)
   \<Rightarrow> (string \<rightharpoonup> (string \<times> DynValue) list list)" where
  "appendCells name new cells =
     (case cells name of None \<Rightarrow> cells | Some old \<Rightarrow> cells(name \<mapsto> old @ new))"

definition refreshIdx ::
  "string list \<Rightarrow> FeatureRow list \<Rightarrow> MeshMapRow list \<Rightarrow> MeshMapRow list
   \<Rightarrow> (string \<rightharpoonup> MeshIndexRow) \<Rightarrow> (string \<rightharpoonup> MeshIndexRow)" where
  "refreshIdx meshIds pf lm pm idx =
     (\<lambda>m. case idx m of
            None \<Rightarrow> None
          | Some r \<Rightarrow>
              if m \<in> set meshIds
              then Some (r\<lparr>has_points := (\<exists>x \<in> set pf. mesh_id x = m),
                           has_lines := (\<exists>x \<in> set lm. mesh_id x = m),
                           has_polygons := (\<exists>x \<in> set pm. mesh_id x = m)\<rparr>)
              else Some r)"

definition removeIdx :: "string \<Rightarrow> string list \<Rightarrow> (string \<rightharpoonup> MeshIndexRow) \<Rightarrow> (string \<rightharpoonup> MeshIndexRow)" where
  "removeIdx name meshIds idx =
     (\<lambda>m. case idx m of
            None \<Rightarrow> None
          | Some r \<Rightarrow>
              if m \<in> set meshIds
              then Some (r\<lparr>layer_presence := (layer_presence r)(name := None)\<rparr>)
              else Some r)"

definition addIdx :: "string \<Rightarrow> string list \<Rightarrow> (string \<rightharpoonup> MeshIndexRow) \<Rightarrow> (string \<rightharpoonup> MeshIndexRow)" where
  "addIdx name meshIds idx =
     (\<lambda>m. case idx m of
            None \<Rightarrow> None
          | Some r \<Rightarrow>
              if m \<in> set meshIds
              then Some (r\<lparr>layer_presence := (layer_presence r)(name \<mapsto> True)\<rparr>)
              else Some r)"

definition clearCells ::
  "string \<Rightarrow> (string \<rightharpoonup> (string \<times> DynValue) list list)
   \<Rightarrow> (string \<rightharpoonup> (string \<times> DynValue) list list)" where
  "clearCells name cells = (case cells name of None \<Rightarrow> cells | Some old \<Rightarrow> cells(name \<mapsto> []))"

definition createCells ::
  "string \<Rightarrow> (string \<rightharpoonup> (string \<times> DynValue) list list)
   \<Rightarrow> (string \<rightharpoonup> (string \<times> DynValue) list list)" where
  "createCells name cells = (case cells name of None \<Rightarrow> cells(name \<mapsto> []) | Some old \<Rightarrow> cells)"

definition serialsAhead :: "Store \<Rightarrow> bool" where
  "serialsAhead s =
     ((\<forall>r \<in> set (line_features s). row_id r < line_features_seq s)
      \<and> (\<forall>m \<in> set (line_mesh_map s). feature_id m < line_features_seq s)
      \<and> (\<forall>r \<in> set (polygon_features s). row_id r < polygon_features_seq s)
      \<and> (\<forall>m \<in> set (polygon_mesh_map s). feature_id m < polygon_features_seq s))"

definition linked :: "Store \<Rightarrow> bool" where
  "linked s =
     ((\<forall>m \<in> set (line_mesh_map s). \<forall>f \<in> set (line_features s).
          feature_id m = row_id f \<longrightarrow> source_layer m = source_layer f)
      \<and> (\<forall>m \<in> set (polygon_mesh_map s). \<forall>f \<in> set (polygon_features s).
          feature_id m = row_id f \<longrightarrow> source_layer m = source_layer f))"

definition integrity :: "Store \<Rightarrow> bool" where
  "integrity s = (serialsAhead s \<and> linked s)"

definition lineFeatureValues :: "string \<Rightarrow> LineItem list \<Rightarrow> (string \<times> string \<times> Geometry \<times> Json) list" where
  "lineFeatureValues name items =
     map (\<lambda>item. (name, meshId item, geometry item, properties item)) items"

definition lineMapValues ::
  "string \<Rightarrow> LineItem list \<Rightarrow> (string \<times> string \<times> Geometry \<times> Json \<times> real \<times> real) list" where
  "lineMapValues name items =
     concat (map (\<lambda>item. map (\<lambda>piece. (name, meshId piece, geometry piece, properties item,
                                         lengthM piece, lengthRatio piece)) (pieces item)) items)"

definition lineMapCells :: "LineItem list \<Rightarrow> DynValue list list" where
  "lineMapCells items =
     concat (map (\<lambda>item. map (\<lambda>piece. [TextValue (meshId piece), GeometryValue (geometry piece),
                              JsonValue (properties item), NumberValue (lengthM piece),
                              NumberValue (lengthRatio piece)]) (pieces item)) items)"

definition lineGenericMeshRows ::
  "string \<Rightarrow> nat \<Rightarrow> LineItem list
   \<Rightarrow> (string \<times> nat \<times> string \<times> Geometry \<times> Json \<times> real \<times> real) list" where
  "lineGenericMeshRows name seq chunk =
     concat (map (\<lambda>(rowId, item).
               map (\<lambda>piece. (name, rowId, meshId piece, geometry piece, properties item,
                              lengthM piece, lengthRatio piece)) (pieces item))
             (zip (map (\<lambda>k. seq + k) [0..<length chunk]) chunk))"

definition polygonFeatureValues :: "string \<Rightarrow> PolygonItem list \<Rightarrow> (string \<times> string \<times> Geometry \<times> Json) list" where
  "polygonFeatureValues name items =
     map (\<lambda>item. (name, meshId item, geometry item, properties item)) items"

definition polygonMapValues ::
  "string \<Rightarrow> PolygonItem list \<Rightarrow> (string \<times> string \<times> Geometry \<times> Json \<times> real \<times> real) list" where
  "polygonMapValues name items =
     concat (map (\<lambda>item. map (\<lambda>piece. (name, meshId piece, geometry piece, properties item,
                                         areaM2 piece, areaRatio piece)) (pieces item)) items)"

definition polygonMapCells :: "PolygonItem list \<Rightarrow> DynValue list list" where
  "polygonMapCells items =
     concat (map (\<lambda>item. map (\<lambda>piece. [TextValue (meshId piece), GeometryValue (geometry piece),
                              JsonValue (properties item), NumberValue (areaM2 piece),
                              NumberValue (areaRatio piece)]) (pieces item)) items)"

definition polygonGenericMeshRows ::
  "string \<Rightarrow> nat \<Rightarrow> PolygonItem list
   \<Rightarrow> (string \<times> nat \<times> string \<times> Geometry \<times> Json \<times> real \<times> real) list" where
  "polygonGenericMeshRows name seq chunk =
     concat (map (\<lambda>(rowId, item).
               map (\<lambda>piece. (name, rowId, meshId piece, geometry piece, properties item,
                              areaM2 piece, areaRatio piece)) (pieces item))
             (zip (map (\<lambda>k. seq + k) [0..<length chunk]) chunk))"

definition lineItemsOf :: "Env \<Rightarrow> LayerDefinition \<Rightarrow> LineItem list" where
  "lineItemsOf env def = toLineItems (turf env) (cellLimit env) (features def)"

definition polygonItemsOf :: "Env \<Rightarrow> LayerDefinition \<Rightarrow> PolygonItem list" where
  "polygonItemsOf env def = toPolygonItems (turf env) (cellLimit env) (features def)"

definition pointKept :: "LayerDefinition \<Rightarrow> (Position \<times> Json) list" where
  "pointKept def = pointsInJapan (explodePointFeatures (features def))"

definition pointMeshIds :: "LayerDefinition \<Rightarrow> string list" where
  "pointMeshIds def = fold (\<lambda>((lon, lat), props). setAdd (meshCode250 lat lon)) (pointKept def) []"

definition pointCells :: "LayerDefinition \<Rightarrow> DynValue list list" where
  "pointCells def = map (\<lambda>((lon, lat), props).
                             [TextValue (meshCode250 lat lon), GeometryValue (Point (lon, lat)),
                              JsonValue (normalizeProperties props)]) (pointKept def)"

definition pointFeatureValues :: "LayerDefinition \<Rightarrow> (string \<times> string \<times> Geometry \<times> Json) list" where
  "pointFeatureValues def = map (\<lambda>((lon, lat), props).
                               (layerName def, meshCode250 lat lon, Point (lon, lat),
                                normalizeProperties props)) (pointKept def)"

definition lineLayerCells :: "LineItem list \<Rightarrow> DynValue list list" where
  "lineLayerCells items =
     map (\<lambda>item. [TextValue (meshId item), GeometryValue (geometry item),
                   JsonValue (properties item)]) items"

definition lineMeshIds :: "LineItem list \<Rightarrow> string list" where
  "lineMeshIds items =
     fold (\<lambda>item acc. fold (\<lambda>piece. setAdd (meshId piece)) (pieces item) acc) items []"

definition lineIndexIds :: "LineItem list \<Rightarrow> string list" where
  "lineIndexIds items =
     fold setAdd (lineMeshIds items) (fold (\<lambda>item. setAdd (meshId item)) items [])"

definition polygonLayerCells :: "PolygonItem list \<Rightarrow> DynValue list list" where
  "polygonLayerCells items =
     map (\<lambda>item. [TextValue (meshId item), GeometryValue (geometry item),
                   JsonValue (properties item)]) items"

definition polygonMeshIds :: "PolygonItem list \<Rightarrow> string list" where
  "polygonMeshIds items =
     fold (\<lambda>item acc. fold (\<lambda>piece. setAdd (meshId piece)) (pieces item) acc) items []"

definition polygonIndexIds :: "PolygonItem list \<Rightarrow> string list" where
  "polygonIndexIds items =
     fold setAdd (polygonMeshIds items) (fold (\<lambda>item. setAdd (meshId item)) items [])"



definition meshOf :: "(string \<times> string \<times> 'a) list \<Rightarrow> string set" where
  "meshOf vals = (\<lambda>v. fst (snd v)) ` set vals"

definition upsertS :: "string set \<Rightarrow> (string \<rightharpoonup> MeshIndexRow) \<Rightarrow> (string \<rightharpoonup> MeshIndexRow)" where
  "upsertS ids idx = (\<lambda>m. case idx m of Some r \<Rightarrow> Some r
                            | None \<Rightarrow> if m \<in> ids then Some defaultIndexRow else None)"

definition removeS :: "string \<Rightarrow> string set \<Rightarrow> (string \<rightharpoonup> MeshIndexRow) \<Rightarrow> (string \<rightharpoonup> MeshIndexRow)" where
  "removeS name ids idx =
     (\<lambda>m. case idx m of
            None \<Rightarrow> None
          | Some r \<Rightarrow> if m \<in> ids then Some (r\<lparr>layer_presence := (layer_presence r)(name := None)\<rparr>)
                      else Some r)"

definition addS :: "string \<Rightarrow> string set \<Rightarrow> (string \<rightharpoonup> MeshIndexRow) \<Rightarrow> (string \<rightharpoonup> MeshIndexRow)" where
  "addS name ids idx =
     (\<lambda>m. case idx m of
            None \<Rightarrow> None
          | Some r \<Rightarrow> if m \<in> ids then Some (r\<lparr>layer_presence := (layer_presence r)(name \<mapsto> True)\<rparr>)
                      else Some r)"

definition refreshS ::
  "string set \<Rightarrow> string set \<Rightarrow> string set \<Rightarrow> string set
   \<Rightarrow> (string \<rightharpoonup> MeshIndexRow) \<Rightarrow> (string \<rightharpoonup> MeshIndexRow)" where
  "refreshS ids P L G idx =
     (\<lambda>m. case idx m of
            None \<Rightarrow> None
          | Some r \<Rightarrow> if m \<in> ids
                      then Some (r\<lparr>has_points := m \<in> P, has_lines := m \<in> L, has_polygons := m \<in> G\<rparr>)
                      else Some r)"

definition cellMeshId :: "(string \<times> DynValue) list \<Rightarrow> string" where
  "cellMeshId cells = (case map_of cells ''mesh_id'' of Some (TextValue m) \<Rightarrow> m | _ \<Rightarrow> [])"



definition layerRowOf :: "LayerDefinition \<Rightarrow> LayerRow" where
  "layerRowOf def = \<lparr>layerName = layerName def, tableName = tableName def,
                 geometryType = geometryType def, sourceFile = sourceFile def,
                 meshMapTable = meshMapTable def\<rparr>"

definition upsertRows :: "LayerDefinition \<Rightarrow> LayerRow list \<Rightarrow> LayerRow list" where
  "upsertRows def rows =
     (if \<exists>r \<in> set rows. layerName r = layerName def
      then map (\<lambda>r. if layerName r = layerName def then layerRowOf def else r) rows
      else rows @ [layerRowOf def])"

definition previousRow :: "LayerDefinition \<Rightarrow> LayerRow list \<Rightarrow> LayerRow option" where
  "previousRow def rows = find (\<lambda>r. layerName r = layerName def) rows"


definition droppedTables ::
  "LayerDefinition \<Rightarrow> LayerRow list \<Rightarrow> (string \<rightharpoonup> 'a) \<Rightarrow> (string \<rightharpoonup> 'a)" where
  "droppedTables def rows tabs =
     (case previousRow def rows of
        Some prev \<Rightarrow>
          (case meshMapTable prev of
             Some m \<Rightarrow> if geometryType prev \<noteq> geometryType def then tabs(m := None) else tabs
           | None \<Rightarrow> tabs)
      | None \<Rightarrow> tabs)"


definition newMeshIds :: "Env \<Rightarrow> LayerDefinition \<Rightarrow> string list" where
  "newMeshIds env def =
     (case geometryType def of
        PointKind \<Rightarrow> pointMeshIds def
      | LineKind \<Rightarrow> lineMeshIds (lineItemsOf env def)
      | PolygonKind \<Rightarrow> polygonMeshIds (polygonItemsOf env def))"







definition dropPrevious :: "LayerDefinition \<Rightarrow> LayerRow list \<Rightarrow> Store \<Rightarrow> Store" where
  "dropPrevious def rows s =
     (case previousRow def rows of
        Some prev \<Rightarrow>
          (case meshMapTable prev of
             Some m \<Rightarrow> if geometryType prev \<noteq> geometryType def then dropTable m s else s
           | None \<Rightarrow> s)
      | None \<Rightarrow> s)"








section \<open>Double-precision arithmetic\<close>

text \<open>
  A \<open>number\<close> of the source is an IEEE-754 double.  The finite doubles are modelled as the
  reals they denote, and every arithmetic operation of the source rounds its exact result to
  the nearest double, ties to the even significand: \<open>binary64 x\<close> is the double nearest
  to \<open>x\<close>, with 53 significant bits and the subnormal spacing \<open>2\<^sup>-\<^sup>1\<^sup>0\<^sup>7\<^sup>4\<close> below
  \<open>2\<^sup>-\<^sup>1\<^sup>0\<^sup>2\<^sup>2\<close>.  A decimal literal of the source is the double nearest to it.  Overflow to
  an infinity (beyond \<open>2\<^sup>1\<^sup>0\<^sup>2\<^sup>4\<close>), the sign of zero and \<open>NaN\<close> are outside this model; the
  functions below are only used on coordinates, far away from them.
\<close>

definition pow2 :: "int \<Rightarrow> real" where
  "pow2 e = (if 0 \<le> e then 2 ^ nat e else 1 / 2 ^ nat (- e))"

text \<open>The binary exponent \<open>e\<close> of a positive real: \<open>2\<^sup>e \<le> x < 2\<^sup>e\<^sup>+\<^sup>1\<close>.\<close>

definition exponentOf :: "real \<Rightarrow> int" where
  "exponentOf x =
     (if 1 \<le> x then bitlen \<lfloor>x\<rfloor> - 1 else - bitlen (\<lceil>1 / x\<rceil> - 1))"

definition roundToEven :: "real \<Rightarrow> int" where
  "roundToEven y =
     (let f = \<lfloor>y\<rfloor>; d = y - of_int f
      in if d < 1 / 2 then f else if 1 / 2 < d then f + 1 else if even f then f else f + 1)"

definition binary64 :: "real \<Rightarrow> real" where
  "binary64 x =
     (if x = 0 then 0
      else (let e = max (exponentOf \<bar>x\<bar>) (- 1022);
                ulp = pow2 (e - 52)
            in sgn x * (of_int (roundToEven (\<bar>x\<bar> / ulp)) * ulp)))"

text \<open>\<open>meshCode250\<close> of the backend, operation by operation in double precision.\<close>

definition meshCode250_binary64 :: "real \<Rightarrow> real \<Rightarrow> string" where
  "meshCode250_binary64 lat lon =
    (let p = \<lfloor>binary64 (lat * 1.5)\<rfloor>;
         q = \<lfloor>lon\<rfloor> - 100;
         latMinutes = binary64 (lat * 60);
         lonMinutes = binary64 (lon * 60);
         r = \<lfloor>binary64 (binary64 (latMinutes - binary64 (of_int p * 40)) / 5)\<rfloor>;
         s = \<lfloor>binary64 (binary64 (lonMinutes - binary64 (of_int \<lfloor>lon\<rfloor> * 60)) / 7.5)\<rfloor>;
         t = \<lfloor>binary64 (binary64 (binary64 (binary64 (latMinutes - binary64 (of_int p * 40))
                 - binary64 (of_int r * 5)) * 60) / 30)\<rfloor>;
         u = \<lfloor>binary64 (binary64 (binary64 (binary64 (lonMinutes - binary64 (of_int \<lfloor>lon\<rfloor> * 60))
                 - binary64 (of_int s * 7.5)) * 60) / 45)\<rfloor>;
         latSeconds = binary64 (lat * 3600);
         lonSeconds = binary64 (lon * 3600);
         latBaseSeconds = binary64 (binary64 (binary64 (of_int p * 2400) + binary64 (of_int r * 300))
                 + binary64 (of_int t * 30));
         lonBaseSeconds = binary64 (binary64 (binary64 (binary64 (of_int q + 100) * 3600)
                 + binary64 (of_int s * 450)) + binary64 (of_int u * 45));
         latSecIn1km = min (binary64 29.999999) (max 0 (binary64 (latSeconds - latBaseSeconds)));
         lonSecIn1km = min (binary64 44.999999) (max 0 (binary64 (lonSeconds - lonBaseSeconds)));
         latHalf = \<lfloor>binary64 (latSecIn1km / 15)\<rfloor>;
         lonHalf = \<lfloor>binary64 (lonSecIn1km / 22.5)\<rfloor>;
         halfDigit = latHalf * 2 + lonHalf + 1;
         latSecInHalf = binary64 (latSecIn1km - binary64 (of_int latHalf * 15));
         lonSecInHalf = binary64 (lonSecIn1km - binary64 (of_int lonHalf * 22.5));
         latQuarter = \<lfloor>binary64 (latSecInHalf / 7.5)\<rfloor>;
         lonQuarter = \<lfloor>binary64 (lonSecInHalf / 11.25)\<rfloor>;
         quarterDigit = latQuarter * 2 + lonQuarter + 1
     in padStart 2 CHR ''0'' (numberToString p) @ padStart 2 CHR ''0'' (numberToString q)
        @ numberToString r @ numberToString s @ numberToString t @ numberToString u
        @ numberToString halfDigit @ numberToString quarterDigit)"









section \<open>Decimal rendering: auxiliary facts\<close>

lemma natDigits_lt10: "n < 10 \<Longrightarrow> natDigits n = [digitChar n]"
  by (simp add: natDigits.simps)

lemma natDigits_lt100: "10 \<le> n \<Longrightarrow> n < 100 \<Longrightarrow> natDigits n = [digitChar (n div 10), digitChar (n mod 10)]"
  by (subst natDigits.simps) (simp add: natDigits_lt10)

lemma numberToString_digit: "0 \<le> n \<Longrightarrow> n < 10 \<Longrightarrow> numberToString n = [digitChar (nat n)]"
  by (simp add: numberToString_def natDigits_lt10)

lemma numberToString_two: "10 \<le> n \<Longrightarrow> n < 100 \<Longrightarrow>
  numberToString n = [digitChar (nat (n div 10)), digitChar (nat (n mod 10))]"
  by (simp add: numberToString_def natDigits_lt100 nat_div_distrib nat_mod_distrib)

lemma digitChar_inj: "a < 10 \<Longrightarrow> b < 10 \<Longrightarrow> digitChar a = digitChar b \<Longrightarrow> a = b"
proof -
  assume a: "a < 10" and b: "b < 10" and e: "digitChar a = digitChar b"
  from e have "(of_char (digitChar a) :: nat) = of_char (digitChar b)" by simp
  then have "(48 + a) mod 256 = (48 + b) mod 256" by (simp add: digitChar_def)
  with a b show "a = b" by simp
qed

lemma digitChar_numeral:
  "digitChar 0 = CHR ''0''" "digitChar 1 = CHR ''1''" "digitChar 2 = CHR ''2''"
  "digitChar 3 = CHR ''3''" "digitChar 4 = CHR ''4''" "digitChar 5 = CHR ''5''"
  "digitChar 6 = CHR ''6''" "digitChar 7 = CHR ''7''" "digitChar 8 = CHR ''8''"
  "digitChar 9 = CHR ''9''" "digitChar (Suc 0) = CHR ''1''"
  by (simp_all add: digitChar_def char_of_def bit_0)

lemma padStart_two_digits:
  assumes "0 \<le> n" "n < 100"
  shows "padStart 2 CHR ''0'' (numberToString n) = [digitChar (nat (n div 10)), digitChar (nat (n mod 10))]"
proof (cases "n < 10")
  case True
  then have "numberToString n = [digitChar (nat n)]" using assms by (simp add: numberToString_digit)
  moreover have "n div 10 = 0" "n mod 10 = n" using True assms by simp_all
  moreover have "digitChar 0 = CHR ''0''" by (rule digitChar_numeral)
  ultimately show ?thesis by (simp add: padStart_def)
next
  case False
  then show ?thesis using assms by (simp add: numberToString_two padStart_def)
qed

section \<open>MeshCodec: the code as a function of the 250m cell\<close>

lemma lat_half_quarter:
  fixes w :: real
  assumes "0 \<le> w" "w < 30"
  defines "c \<equiv> min 29.999999 (max 0 w)"
  shows "\<lfloor>c / 15\<rfloor> = \<lfloor>w / 7.5\<rfloor> div 2"
    and "\<lfloor>(c - of_int \<lfloor>c / 15\<rfloor> * 15) / 7.5\<rfloor> = \<lfloor>w / 7.5\<rfloor> mod 2"
proof -
  consider "w < 7.5" | "7.5 \<le> w" "w < 15" | "15 \<le> w" "w < 22.5" | "22.5 \<le> w"
    by linarith
  then have "\<lfloor>c / 15\<rfloor> = \<lfloor>w / 7.5\<rfloor> div 2 \<and> \<lfloor>(c - of_int \<lfloor>c / 15\<rfloor> * 15) / 7.5\<rfloor> = \<lfloor>w / 7.5\<rfloor> mod 2"
  proof cases
    case 1
    have w: "\<lfloor>w / 7.5\<rfloor> = 0" using assms 1 by (simp add: floor_eq_iff)
    have c: "0 \<le> c \<and> c < 7.5" using assms 1 by (simp add: c_def)
    have h: "\<lfloor>c / 15\<rfloor> = 0" using c by (simp add: floor_eq_iff)
    have q: "\<lfloor>c / 7.5\<rfloor> = 0" using c by (simp add: floor_eq_iff)
    show ?thesis unfolding h w using q by simp
  next
    case 2
    have w: "\<lfloor>w / 7.5\<rfloor> = 1" using assms 2 by (simp add: floor_eq_iff)
    have c: "7.5 \<le> c \<and> c < 15" using assms 2 by (simp add: c_def)
    have h: "\<lfloor>c / 15\<rfloor> = 0" using c by (simp add: floor_eq_iff)
    have q: "\<lfloor>c / 7.5\<rfloor> = 1" using c by (simp add: floor_eq_iff)
    show ?thesis unfolding h w using q by simp
  next
    case 3
    have w: "\<lfloor>w / 7.5\<rfloor> = 2" using assms 3 by (simp add: floor_eq_iff)
    have c: "15 \<le> c \<and> c < 22.5" using assms 3 by (simp add: c_def)
    have h: "\<lfloor>c / 15\<rfloor> = 1" using c by (simp add: floor_eq_iff)
    have q: "\<lfloor>(c - 15) / 7.5\<rfloor> = 0" using c by (simp add: floor_eq_iff)
    show ?thesis unfolding h w using q by simp
  next
    case 4
    have w: "\<lfloor>w / 7.5\<rfloor> = 3" using assms 4 by (simp add: floor_eq_iff)
    have c: "22.5 \<le> c \<and> c \<le> 29.999999" using assms 4 by (simp add: c_def min_def max_def)
    have h: "\<lfloor>c / 15\<rfloor> = 1" using c by (simp add: floor_eq_iff)
    have q: "\<lfloor>(c - 15) / 7.5\<rfloor> = 1" using c by (simp add: floor_eq_iff)
    show ?thesis unfolding h w using q by simp
  qed
  then show "\<lfloor>c / 15\<rfloor> = \<lfloor>w / 7.5\<rfloor> div 2"
    and "\<lfloor>(c - of_int \<lfloor>c / 15\<rfloor> * 15) / 7.5\<rfloor> = \<lfloor>w / 7.5\<rfloor> mod 2" by blast+
qed

lemma lon_half_quarter:
  fixes w :: real
  assumes "0 \<le> w" "w < 45"
  defines "c \<equiv> min 44.999999 (max 0 w)"
  shows "\<lfloor>c / 22.5\<rfloor> = \<lfloor>w / 11.25\<rfloor> div 2"
    and "\<lfloor>(c - of_int \<lfloor>c / 22.5\<rfloor> * 22.5) / 11.25\<rfloor> = \<lfloor>w / 11.25\<rfloor> mod 2"
proof -
  consider "w < 11.25" | "11.25 \<le> w" "w < 22.5" | "22.5 \<le> w" "w < 33.75" | "33.75 \<le> w"
    by linarith
  then have "\<lfloor>c / 22.5\<rfloor> = \<lfloor>w / 11.25\<rfloor> div 2 \<and> \<lfloor>(c - of_int \<lfloor>c / 22.5\<rfloor> * 22.5) / 11.25\<rfloor> = \<lfloor>w / 11.25\<rfloor> mod 2"
  proof cases
    case 1
    have w: "\<lfloor>w / 11.25\<rfloor> = 0" using assms 1 by (simp add: floor_eq_iff)
    have c: "0 \<le> c \<and> c < 11.25" using assms 1 by (simp add: c_def)
    have h: "\<lfloor>c / 22.5\<rfloor> = 0" using c by (simp add: floor_eq_iff)
    have q: "\<lfloor>c / 11.25\<rfloor> = 0" using c by (simp add: floor_eq_iff)
    show ?thesis unfolding h w using q by simp
  next
    case 2
    have w: "\<lfloor>w / 11.25\<rfloor> = 1" using assms 2 by (simp add: floor_eq_iff)
    have c: "11.25 \<le> c \<and> c < 22.5" using assms 2 by (simp add: c_def)
    have h: "\<lfloor>c / 22.5\<rfloor> = 0" using c by (simp add: floor_eq_iff)
    have q: "\<lfloor>c / 11.25\<rfloor> = 1" using c by (simp add: floor_eq_iff)
    show ?thesis unfolding h w using q by simp
  next
    case 3
    have w: "\<lfloor>w / 11.25\<rfloor> = 2" using assms 3 by (simp add: floor_eq_iff)
    have c: "22.5 \<le> c \<and> c < 33.75" using assms 3 by (simp add: c_def)
    have h: "\<lfloor>c / 22.5\<rfloor> = 1" using c by (simp add: floor_eq_iff)
    have q: "\<lfloor>(c - 22.5) / 11.25\<rfloor> = 0" using c by (simp add: floor_eq_iff)
    show ?thesis unfolding h w using q by simp
  next
    case 4
    have w: "\<lfloor>w / 11.25\<rfloor> = 3" using assms 4 by (simp add: floor_eq_iff)
    have c: "33.75 \<le> c \<and> c \<le> 44.999999" using assms 4 by (simp add: c_def min_def max_def)
    have h: "\<lfloor>c / 22.5\<rfloor> = 1" using c by (simp add: floor_eq_iff)
    have q: "\<lfloor>(c - 22.5) / 11.25\<rfloor> = 1" using c by (simp add: floor_eq_iff)
    show ?thesis unfolding h w using q by simp
  qed
  then show "\<lfloor>c / 22.5\<rfloor> = \<lfloor>w / 11.25\<rfloor> div 2"
    and "\<lfloor>(c - of_int \<lfloor>c / 22.5\<rfloor> * 22.5) / 11.25\<rfloor> = \<lfloor>w / 11.25\<rfloor> mod 2" by blast+
qed

text \<open>
  With \<open>i = \<lfloor>480 lat\<rfloor>\<close> and \<open>j = \<lfloor>320 lon\<rfloor>\<close> the row and column of the
  7.5 by 11.25 arc-second cell that contains the coordinate, every digit of the code is a
  digit of the mixed-radix expansion of \<open>i\<close> and \<open>j\<close>.
\<close>

lemma lat_digits:
  fixes lat :: real
  defines "i \<equiv> \<lfloor>lat * 480\<rfloor>"
  defines "p \<equiv> \<lfloor>lat * 1.5\<rfloor>"
  defines "r \<equiv> \<lfloor>(lat * 60 - of_int p * 40) / 5\<rfloor>"
  defines "t \<equiv> \<lfloor>((lat * 60 - of_int p * 40 - of_int r * 5) * 60) / 30\<rfloor>"
  defines "w \<equiv> lat * 3600 - (of_int p * 2400 + of_int r * 300 + of_int t * 30)"
  shows "p = i div 320" and "r = i div 40 mod 8" and "t = i div 4 mod 10"
    and "0 \<le> w" and "w < 30" and "\<lfloor>w / 7.5\<rfloor> = i mod 4"
proof -
  have p: "p = i div 320"
  proof -
    have "p = \<lfloor>lat * 480 / real_of_int 320\<rfloor>"
      unfolding p_def by (rule arg_cong [where f = floor]) simp
    also have "\<dots> = i div 320" unfolding i_def by (rule floor_divide_real_eq_div) simp
    finally show ?thesis .
  qed
  have f40: "\<lfloor>lat * 12\<rfloor> = i div 40"
  proof -
    have "\<lfloor>lat * 12\<rfloor> = \<lfloor>lat * 480 / real_of_int 40\<rfloor>"
      by (rule arg_cong [where f = floor]) simp
    also have "\<dots> = i div 40" unfolding i_def by (rule floor_divide_real_eq_div) simp
    finally show ?thesis .
  qed
  have f4: "\<lfloor>lat * 120\<rfloor> = i div 4"
  proof -
    have "\<lfloor>lat * 120\<rfloor> = \<lfloor>lat * 480 / real_of_int 4\<rfloor>"
      by (rule arg_cong [where f = floor]) simp
    also have "\<dots> = i div 4" unfolding i_def by (rule floor_divide_real_eq_div) simp
    finally show ?thesis .
  qed
  have r0: "r = i div 40 - 8 * p"
  proof -
    have "r = \<lfloor>lat * 12 - of_int (8 * p)\<rfloor>"
      unfolding r_def by (rule arg_cong [where f = floor]) simp
    then show ?thesis by (simp only: floor_diff_of_int f40)
  qed
  have d320: "i div 320 = i div 40 div 8" using zdiv_zmult2_eq [of 8 i 40] by simp
  have d40: "i div 40 = i div 4 div 10" using zdiv_zmult2_eq [of 10 i 4] by simp
  have r: "r = i div 40 mod 8" unfolding r0 p d320 by (simp only: minus_mult_div_eq_mod)
  have t0: "t = i div 4 - (80 * p + 10 * r)"
  proof -
    have "t = \<lfloor>lat * 120 - of_int (80 * p + 10 * r)\<rfloor>"
      unfolding t_def by (rule arg_cong [where f = floor]) simp
    then show ?thesis by (simp only: floor_diff_of_int f4)
  qed
  have "80 * p + 10 * r = 10 * (i div 40)" unfolding r0 by simp
  then have t1: "t = i div 4 - 10 * (i div 4 div 10)" unfolding t0 d40 by simp
  have t: "t = i div 4 mod 10" unfolding t1 by (simp only: minus_mult_div_eq_mod)
  have base: "80 * p + 10 * r + t = i div 4" using t0 by simp
  have "of_int p * 2400 + of_int r * 300 + of_int t * 30 = 30 * real_of_int (80 * p + 10 * r + t)"
    by simp
  then have w: "w = lat * 3600 - 30 * real_of_int (i div 4)"
    unfolding w_def base by simp
  have lo: "real_of_int i \<le> lat * 480" and hi: "lat * 480 < real_of_int i + 1"
    unfolding i_def by linarith+
  have m4: "i - 4 * (i div 4) = i mod 4" by (simp only: minus_mult_div_eq_mod)
  have "0 \<le> i mod 4" and "i mod 4 < 4" by simp_all
  with m4 have d1: "4 * (i div 4) \<le> i" and d2: "i < 4 * (i div 4) + 4" by linarith+
  from d1 have "4 * real_of_int (i div 4) \<le> real_of_int i" by linarith
  with lo have "4 * real_of_int (i div 4) \<le> lat * 480" by linarith
  then show "0 \<le> w" unfolding w by linarith
  from d2 have "real_of_int i + 1 \<le> 4 * real_of_int (i div 4) + 4" by linarith
  with hi have "lat * 480 < 4 * real_of_int (i div 4) + 4" by linarith
  then show "w < 30" unfolding w by linarith
  have "\<lfloor>w / 7.5\<rfloor> = \<lfloor>lat * 480 - of_int (4 * (i div 4))\<rfloor>"
    unfolding w by (rule arg_cong [where f = floor]) simp
  also have "\<dots> = i - 4 * (i div 4)" by (simp only: floor_diff_of_int i_def)
  also have "\<dots> = i mod 4" by (rule m4)
  finally show "\<lfloor>w / 7.5\<rfloor> = i mod 4" .
  show "p = i div 320" by (rule p)
  show "r = i div 40 mod 8" by (rule r)
  show "t = i div 4 mod 10" by (rule t)
qed

lemma lon_digits:
  fixes lon :: real
  defines "j \<equiv> \<lfloor>lon * 320\<rfloor>"
  defines "q \<equiv> \<lfloor>lon\<rfloor> - 100"
  defines "s \<equiv> \<lfloor>(lon * 60 - of_int \<lfloor>lon\<rfloor> * 60) / 7.5\<rfloor>"
  defines "u \<equiv> \<lfloor>((lon * 60 - of_int \<lfloor>lon\<rfloor> * 60 - of_int s * 7.5) * 60) / 45\<rfloor>"
  defines "w \<equiv> lon * 3600 - ((of_int q + 100) * 3600 + of_int s * 450 + of_int u * 45)"
  shows "q = j div 320 - 100" and "s = j div 40 mod 8" and "u = j div 4 mod 10"
    and "0 \<le> w" and "w < 45" and "\<lfloor>w / 11.25\<rfloor> = j mod 4"
proof -
  have fl: "\<lfloor>lon\<rfloor> = j div 320"
  proof -
    have "\<lfloor>lon\<rfloor> = \<lfloor>lon * 320 / real_of_int 320\<rfloor>"
      by (rule arg_cong [where f = floor]) simp
    also have "\<dots> = j div 320" unfolding j_def by (rule floor_divide_real_eq_div) simp
    finally show ?thesis .
  qed
  have f40: "\<lfloor>lon * 8\<rfloor> = j div 40"
  proof -
    have "\<lfloor>lon * 8\<rfloor> = \<lfloor>lon * 320 / real_of_int 40\<rfloor>"
      by (rule arg_cong [where f = floor]) simp
    also have "\<dots> = j div 40" unfolding j_def by (rule floor_divide_real_eq_div) simp
    finally show ?thesis .
  qed
  have f4: "\<lfloor>lon * 80\<rfloor> = j div 4"
  proof -
    have "\<lfloor>lon * 80\<rfloor> = \<lfloor>lon * 320 / real_of_int 4\<rfloor>"
      by (rule arg_cong [where f = floor]) simp
    also have "\<dots> = j div 4" unfolding j_def by (rule floor_divide_real_eq_div) simp
    finally show ?thesis .
  qed
  show q: "q = j div 320 - 100" unfolding q_def fl by (rule refl)
  have s0: "s = j div 40 - 8 * \<lfloor>lon\<rfloor>"
  proof -
    have "s = \<lfloor>lon * 8 - of_int (8 * \<lfloor>lon\<rfloor>)\<rfloor>"
      unfolding s_def by (rule arg_cong [where f = floor]) simp
    then show ?thesis by (simp only: floor_diff_of_int f40)
  qed
  have d320: "j div 320 = j div 40 div 8" using zdiv_zmult2_eq [of 8 j 40] by simp
  have d40: "j div 40 = j div 4 div 10" using zdiv_zmult2_eq [of 10 j 4] by simp
  show s: "s = j div 40 mod 8" unfolding s0 fl d320 by (simp only: minus_mult_div_eq_mod)
  have u0: "u = j div 4 - (80 * \<lfloor>lon\<rfloor> + 10 * s)"
  proof -
    have "u = \<lfloor>lon * 80 - of_int (80 * \<lfloor>lon\<rfloor> + 10 * s)\<rfloor>"
      unfolding u_def by (rule arg_cong [where f = floor]) simp
    then show ?thesis by (simp only: floor_diff_of_int f4)
  qed
  have "80 * \<lfloor>lon\<rfloor> + 10 * s = 10 * (j div 40)" unfolding s0 by simp
  then have u1: "u = j div 4 - 10 * (j div 4 div 10)" unfolding u0 d40 by simp
  show u: "u = j div 4 mod 10" unfolding u1 by (simp only: minus_mult_div_eq_mod)
  have base: "80 * \<lfloor>lon\<rfloor> + 10 * s + u = j div 4" using u0 by simp
  have "(of_int q + 100) * 3600 + of_int s * 450 + of_int u * 45
      = 45 * real_of_int (80 * \<lfloor>lon\<rfloor> + 10 * s + u)"
    unfolding q_def by simp
  then have w: "w = lon * 3600 - 45 * real_of_int (j div 4)"
    unfolding w_def base by simp
  have lo: "real_of_int j \<le> lon * 320" and hi: "lon * 320 < real_of_int j + 1"
    unfolding j_def by linarith+
  have m4: "j - 4 * (j div 4) = j mod 4" by (simp only: minus_mult_div_eq_mod)
  have "0 \<le> j mod 4" and "j mod 4 < 4" by simp_all
  with m4 have d1: "4 * (j div 4) \<le> j" and d2: "j < 4 * (j div 4) + 4" by linarith+
  from d1 have "4 * real_of_int (j div 4) \<le> real_of_int j" by linarith
  with lo have "4 * real_of_int (j div 4) \<le> lon * 320" by linarith
  then show "0 \<le> w" unfolding w by linarith
  from d2 have "real_of_int j + 1 \<le> 4 * real_of_int (j div 4) + 4" by linarith
  with hi have "lon * 320 < 4 * real_of_int (j div 4) + 4" by linarith
  then show "w < 45" unfolding w by linarith
  have "\<lfloor>w / 11.25\<rfloor> = \<lfloor>lon * 320 - of_int (4 * (j div 4))\<rfloor>"
    unfolding w by (rule arg_cong [where f = floor]) simp
  also have "\<dots> = j - 4 * (j div 4)" by (simp only: floor_diff_of_int j_def)
  also have "\<dots> = j mod 4" by (rule m4)
  finally show "\<lfloor>w / 11.25\<rfloor> = j mod 4" .
qed

lemma mod4_div2: "(i::int) mod 4 div 2 = i div 2 mod 2" by presburger
lemma mod4_mod2: "(i::int) mod 4 mod 2 = i mod 2" by presburger

lemmas lat_half = lat_half_quarter(1) [OF lat_digits(4) lat_digits(5), unfolded lat_digits(6) mod4_div2]
lemmas lat_quarter = lat_half_quarter(2) [OF lat_digits(4) lat_digits(5), unfolded lat_digits(6) mod4_mod2]
lemmas lon_half = lon_half_quarter(1) [OF lon_digits(4) lon_digits(5), unfolded lon_digits(6) mod4_div2]
lemmas lon_quarter = lon_half_quarter(2) [OF lon_digits(4) lon_digits(5), unfolded lon_digits(6) mod4_mod2]


lemma meshCode250_cell:
  "meshCode250 lat lon =
     padStart 2 CHR ''0'' (numberToString (\<lfloor>lat * 480\<rfloor> div 320))
     @ padStart 2 CHR ''0'' (numberToString (\<lfloor>lon * 320\<rfloor> div 320 - 100))
     @ numberToString (\<lfloor>lat * 480\<rfloor> div 40 mod 8)
     @ numberToString (\<lfloor>lon * 320\<rfloor> div 40 mod 8)
     @ numberToString (\<lfloor>lat * 480\<rfloor> div 4 mod 10)
     @ numberToString (\<lfloor>lon * 320\<rfloor> div 4 mod 10)
     @ numberToString (\<lfloor>lat * 480\<rfloor> div 2 mod 2 * 2 + \<lfloor>lon * 320\<rfloor> div 2 mod 2 + 1)
     @ numberToString (\<lfloor>lat * 480\<rfloor> mod 2 * 2 + \<lfloor>lon * 320\<rfloor> mod 2 + 1)"
  unfolding meshCode250_def Let_def
  apply (simp only: lat_quarter lon_quarter)
  apply (simp only: lat_half lon_half)
  apply (simp only: lat_digits(3) lon_digits(3))
  apply (simp only: lat_digits(2) lon_digits(2))
  apply (simp only: lat_digits(1) lon_digits(1))
  done

lemma quarter_digit_range:
  fixes i j :: int
  shows "0 \<le> i mod 2 * 2 + j mod 2 + 1" "i mod 2 * 2 + j mod 2 + 1 < 10"
        "1 \<le> i mod 2 * 2 + j mod 2 + 1" "i mod 2 * 2 + j mod 2 + 1 \<le> 4"
  by presburger+

lemma meshCode250_digits:
  fixes lat lon :: real
  defines "i \<equiv> \<lfloor>lat * 480\<rfloor>" and "j \<equiv> \<lfloor>lon * 320\<rfloor>"
  shows "meshCode250 lat lon =
     (padStart 2 CHR ''0'' (numberToString (i div 320))
      @ padStart 2 CHR ''0'' (numberToString (j div 320 - 100)))
     @ [digitChar (nat (i div 40 mod 8)), digitChar (nat (j div 40 mod 8)),
        digitChar (nat (i div 4 mod 10)), digitChar (nat (j div 4 mod 10)),
        digitChar (nat (i div 2 mod 2 * 2 + j div 2 mod 2 + 1)),
        digitChar (nat (i mod 2 * 2 + j mod 2 + 1))]"
proof -
  have a: "numberToString (i div 40 mod 8) = [digitChar (nat (i div 40 mod 8))]"
    by (rule numberToString_digit) simp_all
  have b: "numberToString (j div 40 mod 8) = [digitChar (nat (j div 40 mod 8))]"
    by (rule numberToString_digit) simp_all
  have c: "numberToString (i div 4 mod 10) = [digitChar (nat (i div 4 mod 10))]"
    by (rule numberToString_digit) simp_all
  have d: "numberToString (j div 4 mod 10) = [digitChar (nat (j div 4 mod 10))]"
    by (rule numberToString_digit) simp_all
  have e: "numberToString (i div 2 mod 2 * 2 + j div 2 mod 2 + 1)
      = [digitChar (nat (i div 2 mod 2 * 2 + j div 2 mod 2 + 1))]"
    by (rule numberToString_digit) (rule quarter_digit_range)+
  have f: "numberToString (i mod 2 * 2 + j mod 2 + 1) = [digitChar (nat (i mod 2 * 2 + j mod 2 + 1))]"
    by (rule numberToString_digit) (rule quarter_digit_range)+
  show ?thesis
    unfolding meshCode250_cell i_def [symmetric] j_def [symmetric] a b c d e f by simp
qed


lemma floor_scaled:
  fixes x :: real
  shows "\<lfloor>x * 3600 / 7.5\<rfloor> = \<lfloor>x * 480\<rfloor>" "\<lfloor>x * 3600 / 11.25\<rfloor> = \<lfloor>x * 320\<rfloor>"
        "\<lfloor>x * 3600 / 15\<rfloor> = \<lfloor>x * 480\<rfloor> div 2" "\<lfloor>x * 3600 / 22.5\<rfloor> = \<lfloor>x * 320\<rfloor> div 2"
proof -
  show "\<lfloor>x * 3600 / 7.5\<rfloor> = \<lfloor>x * 480\<rfloor>" by (rule arg_cong [where f = floor]) simp
  show "\<lfloor>x * 3600 / 11.25\<rfloor> = \<lfloor>x * 320\<rfloor>" by (rule arg_cong [where f = floor]) simp
  have "\<lfloor>x * 3600 / 15\<rfloor> = \<lfloor>x * 480 / real_of_int 2\<rfloor>"
    by (rule arg_cong [where f = floor]) simp
  also have "\<dots> = \<lfloor>x * 480\<rfloor> div 2" by (rule floor_divide_real_eq_div) simp
  finally show "\<lfloor>x * 3600 / 15\<rfloor> = \<lfloor>x * 480\<rfloor> div 2" .
  have "\<lfloor>x * 3600 / 22.5\<rfloor> = \<lfloor>x * 320 / real_of_int 2\<rfloor>"
    by (rule arg_cong [where f = floor]) simp
  also have "\<dots> = \<lfloor>x * 320\<rfloor> div 2" by (rule floor_divide_real_eq_div) simp
  finally show "\<lfloor>x * 3600 / 22.5\<rfloor> = \<lfloor>x * 320\<rfloor> div 2" .
qed

lemma quarter_digit_inj:
  fixes a b c d :: int
  assumes "a mod 2 * 2 + b mod 2 + 1 = c mod 2 * 2 + d mod 2 + 1"
  shows "a mod 2 = c mod 2" "b mod 2 = d mod 2"
  using assms by presburger+

lemma same_parity_near:
  fixes a c :: int
  assumes "a mod 2 = c mod 2" "\<bar>a - c\<bar> \<le> 1"
  shows "a = c"
  using assms by presburger

text \<open>
  Without rounding, the identifier of a coordinate inside the national bounding box is the
  list of the ten digits \<open>p\<close>, \<open>q\<close> (two each), \<open>r\<close>, \<open>s\<close>, \<open>t\<close>, \<open>u\<close>, half
  and quarter.
\<close>

lemma meshCode250_exact_digits:
  fixes lat lon :: real
  defines "p \<equiv> \<lfloor>lat * 1.5\<rfloor>"
    and "q \<equiv> \<lfloor>lon\<rfloor> - 100"
  defines "r \<equiv> \<lfloor>(lat * 60 - of_int p * 40) / 5\<rfloor>"
    and "s \<equiv> \<lfloor>(lon * 60 - of_int \<lfloor>lon\<rfloor> * 60) / 7.5\<rfloor>"
  defines "t \<equiv> \<lfloor>((lat * 60 - of_int p * 40 - of_int r * 5) * 60) / 30\<rfloor>"
    and "u \<equiv> \<lfloor>((lon * 60 - of_int \<lfloor>lon\<rfloor> * 60 - of_int s * 7.5) * 60) / 45\<rfloor>"
  defines "latHalf \<equiv> \<lfloor>lat * 3600 / 15\<rfloor> mod 2"
    and "lonHalf \<equiv> \<lfloor>lon * 3600 / 22.5\<rfloor> mod 2"
    and "latQuarter \<equiv> \<lfloor>lat * 3600 / 7.5\<rfloor> mod 2"
    and "lonQuarter \<equiv> \<lfloor>lon * 3600 / 11.25\<rfloor> mod 2"
  assumes inside: "isPointInJapan (lon, lat)"
  shows "length (meshCode250 lat lon) = 10
       \<and> meshCode250 lat lon =
           [digitChar (nat (p div 10)), digitChar (nat (p mod 10)),
            digitChar (nat (q div 10)), digitChar (nat (q mod 10)),
            digitChar (nat r), digitChar (nat s), digitChar (nat t), digitChar (nat u),
            digitChar (nat (latHalf * 2 + lonHalf + 1)),
            digitChar (nat (latQuarter * 2 + lonQuarter + 1))]
       \<and> 0 \<le> p \<and> p < 100 \<and> 0 \<le> q \<and> q < 100
       \<and> 0 \<le> r \<and> r < 10 \<and> 0 \<le> s \<and> s < 10 \<and> 0 \<le> t \<and> t < 10 \<and> 0 \<le> u \<and> u < 10
       \<and> 1 \<le> latHalf * 2 + lonHalf + 1 \<and> latHalf * 2 + lonHalf + 1 \<le> 4
       \<and> 1 \<le> latQuarter * 2 + lonQuarter + 1 \<and> latQuarter * 2 + lonQuarter + 1 \<le> 4"
proof -
  define i where "i = \<lfloor>lat * 480\<rfloor>"
  define j where "j = \<lfloor>lon * 320\<rfloor>"
  from inside have lat: "24.04 \<le> lat" "lat \<le> 45.95" and lon: "122.93 \<le> lon" "lon \<le> 153.99"
    by (simp_all add: JAPAN_BOUNDS_def)
  have p: "p = i div 320" and r: "r = i div 40 mod 8" and t: "t = i div 4 mod 10"
    unfolding p_def r_def t_def i_def by (rule lat_digits)+
  have q: "q = j div 320 - 100" and s: "s = j div 40 mod 8" and u: "u = j div 4 mod 10"
    unfolding q_def s_def u_def j_def by (rule lon_digits)+
  have halves: "latHalf = i div 2 mod 2" "lonHalf = j div 2 mod 2"
    "latQuarter = i mod 2" "lonQuarter = j mod 2"
    unfolding latHalf_def lonHalf_def latQuarter_def lonQuarter_def i_def j_def
    by (simp_all only: floor_scaled)
  have pr: "36 \<le> p" "p < 69" using lat unfolding p_def by (simp_all add: le_floor_iff floor_less_iff)
  have qr: "22 \<le> q" "q < 54" using lon unfolding q_def by (simp_all add: le_floor_iff floor_less_iff)
  have pp: "padStart 2 CHR ''0'' (numberToString (i div 320))
      = [digitChar (nat (p div 10)), digitChar (nat (p mod 10))]"
    unfolding p [symmetric] using pr by (intro padStart_two_digits) simp_all
  have qq: "padStart 2 CHR ''0'' (numberToString (j div 320 - 100))
      = [digitChar (nat (q div 10)), digitChar (nat (q mod 10))]"
    unfolding q [symmetric] using qr by (intro padStart_two_digits) simp_all
  have code: "meshCode250 lat lon =
           [digitChar (nat (p div 10)), digitChar (nat (p mod 10)),
            digitChar (nat (q div 10)), digitChar (nat (q mod 10)),
            digitChar (nat r), digitChar (nat s), digitChar (nat t), digitChar (nat u),
            digitChar (nat (latHalf * 2 + lonHalf + 1)),
            digitChar (nat (latQuarter * 2 + lonQuarter + 1))]"
    unfolding meshCode250_digits i_def [symmetric] j_def [symmetric] pp qq r s t u halves by simp
  have len: "length (meshCode250 lat lon) = 10" unfolding code by simp
  have rng: "0 \<le> r" "r < 10" "0 \<le> s" "s < 10" "0 \<le> t" "t < 10" "0 \<le> u" "u < 10"
    unfolding r s t u by simp_all
  have hq: "1 \<le> latHalf * 2 + lonHalf + 1" "latHalf * 2 + lonHalf + 1 \<le> 4"
    "1 \<le> latQuarter * 2 + lonQuarter + 1" "latQuarter * 2 + lonQuarter + 1 \<le> 4"
    unfolding halves by (rule quarter_digit_range)+
  show ?thesis using len code pr qr rng hq by simp
qed

text \<open>
  Without rounding, the identifier is the same within a cell and differs between cells
  whose rows and columns differ by at most one.
\<close>

lemma meshCode250_exact_cells:
  fixes lat1 lon1 lat2 lon2 :: real
  defines "i1 \<equiv> \<lfloor>lat1 * 3600 / MESH_LAT_STEP_SEC\<rfloor>"
    and "j1 \<equiv> \<lfloor>lon1 * 3600 / MESH_LON_STEP_SEC\<rfloor>"
    and "i2 \<equiv> \<lfloor>lat2 * 3600 / MESH_LAT_STEP_SEC\<rfloor>"
    and "j2 \<equiv> \<lfloor>lon2 * 3600 / MESH_LON_STEP_SEC\<rfloor>"
  shows "(i1 = i2 \<and> j1 = j2 \<longrightarrow> meshCode250 lat1 lon1 = meshCode250 lat2 lon2)
       \<and> ((i1 \<noteq> i2 \<or> j1 \<noteq> j2) \<and> \<bar>i1 - i2\<bar> \<le> 1 \<and> \<bar>j1 - j2\<bar> \<le> 1
            \<longrightarrow> meshCode250 lat1 lon1 \<noteq> meshCode250 lat2 lon2)"
proof (intro conjI impI)
  have ij: "i1 = \<lfloor>lat1 * 480\<rfloor>" "j1 = \<lfloor>lon1 * 320\<rfloor>" "i2 = \<lfloor>lat2 * 480\<rfloor>" "j2 = \<lfloor>lon2 * 320\<rfloor>"
    unfolding i1_def j1_def i2_def j2_def MESH_LAT_STEP_SEC_def MESH_LON_STEP_SEC_def
    by (simp_all only: floor_scaled)
  {
    assume "i1 = i2 \<and> j1 = j2"
    then show "meshCode250 lat1 lon1 = meshCode250 lat2 lon2"
      unfolding meshCode250_cell ij by simp
  }
  {
    assume adj: "(i1 \<noteq> i2 \<or> j1 \<noteq> j2) \<and> \<bar>i1 - i2\<bar> \<le> 1 \<and> \<bar>j1 - j2\<bar> \<le> 1"
    show "meshCode250 lat1 lon1 \<noteq> meshCode250 lat2 lon2"
    proof
      assume eq: "meshCode250 lat1 lon1 = meshCode250 lat2 lon2"
      have "last (meshCode250 lat1 lon1) = digitChar (nat (i1 mod 2 * 2 + j1 mod 2 + 1))"
        unfolding meshCode250_digits ij by simp
      moreover have "last (meshCode250 lat2 lon2) = digitChar (nat (i2 mod 2 * 2 + j2 mod 2 + 1))"
        unfolding meshCode250_digits ij by simp
      ultimately have "digitChar (nat (i1 mod 2 * 2 + j1 mod 2 + 1))
          = digitChar (nat (i2 mod 2 * 2 + j2 mod 2 + 1))"
        using eq by simp
      moreover have "nat (i1 mod 2 * 2 + j1 mod 2 + 1) < 10" "nat (i2 mod 2 * 2 + j2 mod 2 + 1) < 10"
        using quarter_digit_range(2) [of i1 j1] quarter_digit_range(2) [of i2 j2] by linarith+
      ultimately have "nat (i1 mod 2 * 2 + j1 mod 2 + 1) = nat (i2 mod 2 * 2 + j2 mod 2 + 1)"
        by (intro digitChar_inj)
      then have "i1 mod 2 * 2 + j1 mod 2 + 1 = i2 mod 2 * 2 + j2 mod 2 + 1"
        using quarter_digit_range(1) [of i1 j1] quarter_digit_range(1) [of i2 j2] by linarith
      then have "i1 mod 2 = i2 mod 2" "j1 mod 2 = j2 mod 2" by (rule quarter_digit_inj)+
      with adj have "i1 = i2" "j1 = j2" by (auto intro: same_parity_near)
      with adj show False by simp
    qed
  }
qed

section \<open>Properties of MeshCodec\<close>

text \<open>
  Claim C1 asks for a code of exactly 10 characters for every coordinate inside the
  national bounding box.  The double \<open>24.666666666666664\<close> (latitude) with the longitude
  \<open>139.75\<close> lies inside the box, and \<open>meshCode250\<close> returns the 11 characters
  \<open>3739-169033\<close> for it: \<open>lat * 1.5\<close> rounds up to 37, so \<open>p = 37\<close>, while
  \<open>lat * 60\<close> stays below \<open>1480 = 37 * 40\<close>, so \<open>r = -1\<close>.  Only the offsets
  within the 1km cell are clamped by the source; \<open>r\<close>, \<open>s\<close>, \<open>t\<close> and \<open>u\<close> are not.
\<close>

theorem meshCode250_binary64_negative_digit:
  "binary64 24.666666666666664 = 3471524712764757 / 140737488355328
   \<and> binary64 139.75 = 139.75
   \<and> binary64 24.04 \<le> binary64 24.666666666666664
   \<and> binary64 24.666666666666664 \<le> binary64 45.95
   \<and> binary64 122.93 \<le> binary64 139.75
   \<and> binary64 139.75 \<le> binary64 153.99
   \<and> isPointInJapan (139.75, 3471524712764757 / 140737488355328)
   \<and> meshCode250_binary64 (3471524712764757 / 140737488355328) 139.75 = ''3739-169033''
   \<and> length (meshCode250_binary64 (3471524712764757 / 140737488355328) 139.75) = 11"
proof -
  have 1: "binary64 24.666666666666664 = 3471524712764757 / 140737488355328"
    "binary64 139.75 = 139.75"
    "binary64 24.04 \<le> binary64 24.666666666666664"
    "binary64 24.666666666666664 \<le> binary64 45.95"
    "binary64 122.93 \<le> binary64 139.75"
    "binary64 139.75 \<le> binary64 153.99"
    by code_simp+
  have 2: "isPointInJapan (139.75, 3471524712764757 / 140737488355328)"
    by (simp add: JAPAN_BOUNDS_def)
  have 3: "meshCode250_binary64 (3471524712764757 / 140737488355328) 139.75 = ''3739-169033''"
    by code_simp
  show ?thesis using 1 2 unfolding 3 by simp
qed

text \<open>
  Claim C2 asks for one code per 250m cell.  The cell of a coordinate is the pair of
  \<open>\<lfloor>3600 lat / 7.5\<rfloor>\<close> and \<open>\<lfloor>3600 lon / 11.25\<rfloor>\<close>.  The doubles nearest to
  \<open>(35.675, 139.73125)\<close> and \<open>(35.674, 139.73125)\<close> lie in the same cell
  \<open>(17123, 44713)\<close> and get different codes; the doubles nearest to
  \<open>(35.675, 139.73125)\<close> and \<open>(35.676, 139.73)\<close> lie in the adjacent cells
  \<open>(17123, 44713)\<close> and \<open>(17124, 44713)\<close> and get the same code.
\<close>

theorem meshCode250_binary64_cells_confused:
  "binary64 35.675 = 2510404948538163 / 70368744177664
   \<and> binary64 139.73125 = 2458178146218803 / 17592186044416
   \<and> binary64 35.676 = 2510475317282341 / 70368744177664
   \<and> binary64 139.73 = 4916312311972495 / 35184372088832
   \<and> binary64 35.674 = 5020669159587971 / 140737488355328
   \<and> \<lfloor>2510404948538163 / 70368744177664 * 3600 / MESH_LAT_STEP_SEC\<rfloor> = 17123
   \<and> \<lfloor>2458178146218803 / 17592186044416 * 3600 / MESH_LON_STEP_SEC\<rfloor> = 44713
   \<and> \<lfloor>2510475317282341 / 70368744177664 * 3600 / MESH_LAT_STEP_SEC\<rfloor> = 17124
   \<and> \<lfloor>4916312311972495 / 35184372088832 * 3600 / MESH_LON_STEP_SEC\<rfloor> = 44713
   \<and> \<lfloor>5020669159587971 / 140737488355328 * 3600 / MESH_LAT_STEP_SEC\<rfloor> = 17123
   \<and> meshCode250_binary64 (2510404948538163 / 70368744177664) (2458178146218803 / 17592186044416)
       = ''5339451812''
   \<and> meshCode250_binary64 (2510475317282341 / 70368744177664) (4916312311972495 / 35184372088832)
       = ''5339451812''
   \<and> meshCode250_binary64 (5020669159587971 / 140737488355328) (2458178146218803 / 17592186044416)
       = ''5339450834''"
proof -
  have 1: "binary64 35.675 = 2510404948538163 / 70368744177664"
    "binary64 139.73125 = 2458178146218803 / 17592186044416"
    "binary64 35.676 = 2510475317282341 / 70368744177664"
    "binary64 139.73 = 4916312311972495 / 35184372088832"
    "binary64 35.674 = 5020669159587971 / 140737488355328"
    by code_simp+
  have 2: "\<lfloor>2510404948538163 / 70368744177664 * 3600 / MESH_LAT_STEP_SEC\<rfloor> = 17123"
    "\<lfloor>2458178146218803 / 17592186044416 * 3600 / MESH_LON_STEP_SEC\<rfloor> = 44713"
    "\<lfloor>2510475317282341 / 70368744177664 * 3600 / MESH_LAT_STEP_SEC\<rfloor> = 17124"
    "\<lfloor>4916312311972495 / 35184372088832 * 3600 / MESH_LON_STEP_SEC\<rfloor> = 44713"
    "\<lfloor>5020669159587971 / 140737488355328 * 3600 / MESH_LAT_STEP_SEC\<rfloor> = 17123"
    by code_simp+
  have 3: "meshCode250_binary64 (2510404948538163 / 70368744177664) (2458178146218803 / 17592186044416)
       = ''5339451812''"
    by code_simp
  have 4: "meshCode250_binary64 (2510475317282341 / 70368744177664) (4916312311972495 / 35184372088832)
       = ''5339451812''"
    by code_simp
  have 5: "meshCode250_binary64 (5020669159587971 / 140737488355328) (2458178146218803 / 17592186044416)
       = ''5339450834''"
    by code_simp
  show ?thesis using 1 2 3 4 5 by blast
qed

text \<open>
  Claim C9.  The mesh identifier computed on the ingestion path (backend \<open>meshCode250\<close>)
  and the one computed on the display path (the frontend's copy) are the same string for
  every latitude and longitude.
\<close>

theorem meshCode250_frontend_eq_backend:
  "meshCode250_frontend lat lon = meshCode250 lat lon"
  unfolding meshCode250_frontend_def meshCode250_def by (rule refl)

section \<open>GridTiler: the loops enumerate a grid\<close>

lemma lonLoop_grid:
  "lonLoop (of_int k * MESH_LAT_STEP_SEC / 3600) ((of_int k * MESH_LAT_STEP_SEC + MESH_LAT_STEP_SEC) / 3600)
      ((of_int k * MESH_LAT_STEP_SEC + MESH_LAT_STEP_SEC / 2) / 3600)
      (of_int c * MESH_LON_STEP_SEC) (of_int d * MESH_LON_STEP_SEC)
   = map (gridCell k) [c..d - 1]"
proof (induction "nat (d - c)" arbitrary: c)
  case 0
  then have "d \<le> c" by simp
  then have "\<not> of_int c * MESH_LON_STEP_SEC < of_int d * MESH_LON_STEP_SEC"
    by (simp add: MESH_LON_STEP_SEC_def)
  moreover have "[c..d - 1] = []" using \<open>d \<le> c\<close> by simp
  ultimately show ?case by (subst lonLoop.simps) simp
next
  case (Suc n)
  then have lt: "c < d" and n: "n = nat (d - (c + 1))" by simp_all
  have step: "of_int c * MESH_LON_STEP_SEC + MESH_LON_STEP_SEC = of_int (c + 1) * MESH_LON_STEP_SEC"
    by (simp add: algebra_simps)
  have cond: "of_int c * MESH_LON_STEP_SEC < of_int d * MESH_LON_STEP_SEC"
    using lt by (simp add: MESH_LON_STEP_SEC_def)
  have up: "[c..d - 1] = c # [c + 1..d - 1]" using lt by (simp add: upto_rec1)
  show ?case
    apply (subst lonLoop.simps)
    apply (simp only: cond if_True Let_def step Suc.hyps(1) [OF n] up list.map)
    apply (simp add: gridCell_def algebra_simps)
    done
qed

lemma latLoop_grid:
  "latLoop (of_int a * MESH_LAT_STEP_SEC) (of_int b * MESH_LAT_STEP_SEC)
      (of_int c * MESH_LON_STEP_SEC) (of_int d * MESH_LON_STEP_SEC)
   = concat (map (\<lambda>k. map (gridCell k) [c..d - 1]) [a..b - 1])"
proof (induction "nat (b - a)" arbitrary: a)
  case 0
  then have "b \<le> a" by simp
  then have "\<not> of_int a * MESH_LAT_STEP_SEC < of_int b * MESH_LAT_STEP_SEC"
    by (simp add: MESH_LAT_STEP_SEC_def)
  moreover have "[a..b - 1] = []" using \<open>b \<le> a\<close> by simp
  ultimately show ?case by (subst latLoop.simps) simp
next
  case (Suc n)
  then have lt: "a < b" and n: "n = nat (b - (a + 1))" by simp_all
  have step: "of_int a * MESH_LAT_STEP_SEC + MESH_LAT_STEP_SEC = of_int (a + 1) * MESH_LAT_STEP_SEC"
    by (simp add: algebra_simps)
  have cond: "of_int a * MESH_LAT_STEP_SEC < of_int b * MESH_LAT_STEP_SEC"
    using lt by (simp add: MESH_LAT_STEP_SEC_def)
  have up: "[a..b - 1] = a # [a + 1..b - 1]" using lt by (simp add: upto_rec1)
  show ?case
    apply (subst latLoop.simps)
    apply (simp only: cond if_True Let_def lonLoop_grid)
    apply (simp only: step Suc.hyps(1) [OF n] up list.map concat.simps)
    done
qed

lemma rows_cols:
  fixes a b :: int
  shows "\<lceil>(of_int b * MESH_LAT_STEP_SEC - of_int a * MESH_LAT_STEP_SEC) / MESH_LAT_STEP_SEC\<rceil> = b - a"
    and "\<lceil>(of_int b * MESH_LON_STEP_SEC - of_int a * MESH_LON_STEP_SEC) / MESH_LON_STEP_SEC\<rceil> = b - a"
proof -
  have "(of_int b * MESH_LAT_STEP_SEC - of_int a * MESH_LAT_STEP_SEC) / MESH_LAT_STEP_SEC
      = real_of_int (b - a)"
    by (simp add: MESH_LAT_STEP_SEC_def field_simps)
  then show "\<lceil>(of_int b * MESH_LAT_STEP_SEC - of_int a * MESH_LAT_STEP_SEC) / MESH_LAT_STEP_SEC\<rceil> = b - a"
    by (simp only: ceiling_of_int)
  have "(of_int b * MESH_LON_STEP_SEC - of_int a * MESH_LON_STEP_SEC) / MESH_LON_STEP_SEC
      = real_of_int (b - a)"
    by (simp add: MESH_LON_STEP_SEC_def field_simps)
  then show "\<lceil>(of_int b * MESH_LON_STEP_SEC - of_int a * MESH_LON_STEP_SEC) / MESH_LON_STEP_SEC\<rceil> = b - a"
    by (simp only: ceiling_of_int)
qed

lemma buildMeshCells_bounded:
  assumes "intersectBbox box JAPAN_BOUNDS = Some (minLon, minLat, maxLon, maxLat)"
  defines "a \<equiv> \<lfloor>minLat * 3600 / MESH_LAT_STEP_SEC\<rfloor>"
    and "b \<equiv> \<lceil>maxLat * 3600 / MESH_LAT_STEP_SEC\<rceil>"
    and "c \<equiv> \<lfloor>minLon * 3600 / MESH_LON_STEP_SEC\<rfloor>"
    and "d \<equiv> \<lceil>maxLon * 3600 / MESH_LON_STEP_SEC\<rceil>"
  shows "buildMeshCells cap box =
     (if exceedsLimit (of_int ((b - a) * (d - c))) cap then []
      else concat (map (\<lambda>k. map (gridCell k) [c..d - 1]) [a..b - 1]))"
  unfolding buildMeshCells_def assms(1) a_def b_def c_def d_def
  by (simp only: option.case prod.case Let_def rows_cols latLoop_grid)

lemma intersectBbox_Some:
  assumes "intersectBbox box bounds = Some (minLon, minLat, maxLon, maxLat)"
  shows "minLon < maxLon" "minLat < maxLat"
  using assms by (cases box; cases bounds; simp add: Let_def split: if_splits; linarith)+

lemma grid_extent:
  fixes lo hi st :: real
  assumes "lo < hi" "0 < st"
  shows "\<lfloor>lo / st\<rfloor> < \<lceil>hi / st\<rceil>"
proof -
  have "of_int \<lfloor>lo / st\<rfloor> \<le> lo / st" by simp
  also have "\<dots> < hi / st" using assms by (simp add: divide_strict_right_mono)
  also have "\<dots> \<le> of_int \<lceil>hi / st\<rceil>" by simp
  finally show ?thesis by simp
qed

lemma bbox_gridCell:
  "bbox (gridCell k l) = (of_int l / 320, of_int k / 480, (of_int l + 1) / 320, (of_int k + 1) / 480)"
  by (simp add: gridCell_def MESH_LAT_STEP_SEC_def MESH_LON_STEP_SEC_def field_simps)

lemma grid_as_product:
  "concat (map (\<lambda>k. map (gridCell k) ls) ks) = map (\<lambda>(k, l). gridCell k l) (List.product ks ls)"
  by (induction ks) simp_all

lemma interval_cover:
  fixes X :: real and c d :: int
  assumes "c < d"
  shows "(\<exists>l \<in> {c..d - 1}. of_int l \<le> X \<and> X \<le> of_int l + 1)
         \<longleftrightarrow> (of_int c \<le> X \<and> X \<le> of_int d)"
proof
  assume "\<exists>l \<in> {c..d - 1}. of_int l \<le> X \<and> X \<le> of_int l + 1"
  then obtain l where l: "c \<le> l" "l \<le> d - 1" "of_int l \<le> X" "X \<le> of_int l + 1" by auto
  from l(1) l(3) have "of_int c \<le> X" by linarith
  moreover from l(2) l(4) have "X \<le> of_int d" by linarith
  ultimately show "of_int c \<le> X \<and> X \<le> of_int d" by simp
next
  assume X: "of_int c \<le> X \<and> X \<le> of_int d"
  define l where "l = min \<lfloor>X\<rfloor> (d - 1)"
  have "c \<le> \<lfloor>X\<rfloor>" using X by (simp add: le_floor_iff)
  then have 1: "c \<le> l" using assms by (simp add: l_def)
  have 2: "l \<le> d - 1" by (simp add: l_def)
  have "l \<le> \<lfloor>X\<rfloor>" by (simp add: l_def)
  then have 3: "of_int l \<le> X" by (simp add: le_floor_iff)
  have 4: "X \<le> of_int l + 1"
  proof (cases "\<lfloor>X\<rfloor> \<le> d - 1")
    case True
    then have "l = \<lfloor>X\<rfloor>" by (simp add: l_def)
    then show ?thesis by linarith
  next
    case False
    then have "l = d - 1" by (simp add: l_def)
    then show ?thesis using X by simp
  qed
  from 1 2 have "l \<in> {c..d - 1}" by simp
  with 3 4 show "\<exists>l \<in> {c..d - 1}. of_int l \<le> X \<and> X \<le> of_int l + 1" by blast
qed

lemma in_gridCell:
  "(x, y) \<in> bboxRegion (bbox (gridCell k l))
   \<longleftrightarrow> (of_int l \<le> x * 320 \<and> x * 320 \<le> of_int l + 1)
        \<and> (of_int k \<le> y * 480 \<and> y * 480 \<le> of_int k + 1)"
  by (simp add: bbox_gridCell field_simps)

lemma cellsRegion_grid:
  assumes "a < b" "c < d"
  shows "cellsRegion (concat (map (\<lambda>k. map (gridCell k) [c..d - 1]) [a..b - 1]))
       = bboxRegion (of_int c * MESH_LON_STEP_SEC / 3600, of_int a * MESH_LAT_STEP_SEC / 3600,
                     of_int d * MESH_LON_STEP_SEC / 3600, of_int b * MESH_LAT_STEP_SEC / 3600)"
proof (rule set_eqI)
  fix pt :: "real \<times> real"
  obtain x y where pt: "pt = (x, y)" by (cases pt)
  have "pt \<in> cellsRegion (concat (map (\<lambda>k. map (gridCell k) [c..d - 1]) [a..b - 1]))
      \<longleftrightarrow> (\<exists>k \<in> {a..b - 1}. \<exists>l \<in> {c..d - 1}. (x, y) \<in> bboxRegion (bbox (gridCell k l)))"
    unfolding cellsRegion_def pt by simp
  also have "\<dots> \<longleftrightarrow> (\<exists>l \<in> {c..d - 1}. of_int l \<le> x * 320 \<and> x * 320 \<le> of_int l + 1)
                 \<and> (\<exists>k \<in> {a..b - 1}. of_int k \<le> y * 480 \<and> y * 480 \<le> of_int k + 1)"
    unfolding in_gridCell by blast
  also have "\<dots> \<longleftrightarrow> (of_int c \<le> x * 320 \<and> x * 320 \<le> of_int d)
                 \<and> (of_int a \<le> y * 480 \<and> y * 480 \<le> of_int b)"
    by (simp only: interval_cover [OF assms(1)] interval_cover [OF assms(2)])
  also have "\<dots> \<longleftrightarrow> pt \<in> bboxRegion (of_int c * MESH_LON_STEP_SEC / 3600, of_int a * MESH_LAT_STEP_SEC / 3600,
                     of_int d * MESH_LON_STEP_SEC / 3600, of_int b * MESH_LAT_STEP_SEC / 3600)"
    unfolding pt by (simp add: MESH_LAT_STEP_SEC_def MESH_LON_STEP_SEC_def field_simps)
  finally show "pt \<in> cellsRegion (concat (map (\<lambda>k. map (gridCell k) [c..d - 1]) [a..b - 1]))
      \<longleftrightarrow> pt \<in> bboxRegion (of_int c * MESH_LON_STEP_SEC / 3600, of_int a * MESH_LAT_STEP_SEC / 3600,
                     of_int d * MESH_LON_STEP_SEC / 3600, of_int b * MESH_LAT_STEP_SEC / 3600)" .
qed

lemma gridCell_interior_disjoint:
  assumes "(k, l) \<noteq> (k', l')"
  shows "bboxInterior (bbox (gridCell k l)) \<inter> bboxInterior (bbox (gridCell k' l')) = {}"
proof (rule ccontr)
  assume "bboxInterior (bbox (gridCell k l)) \<inter> bboxInterior (bbox (gridCell k' l')) \<noteq> {}"
  then obtain x y where "(x, y) \<in> bboxInterior (bbox (gridCell k l))"
    and "(x, y) \<in> bboxInterior (bbox (gridCell k' l'))" by auto
  then have "of_int l < x * 320" "x * 320 < of_int l + 1" "of_int k < y * 480" "y * 480 < of_int k + 1"
    "of_int l' < x * 320" "x * 320 < of_int l' + 1" "of_int k' < y * 480" "y * 480 < of_int k' + 1"
    by (simp_all add: bbox_gridCell field_simps)
  then have "l = l'" "k = k'" by linarith+
  with assms show False by simp
qed

lemma grid_pairwise_disjoint:
  fixes ks ls :: "int list"
  assumes "distinct ks" "distinct ls"
  defines "cells \<equiv> concat (map (\<lambda>k. map (gridCell k) ls) ks)"
  assumes "i < j" "j < length cells"
  shows "bboxInterior (bbox (cells ! i)) \<inter> bboxInterior (bbox (cells ! j)) = {}"
proof -
  let ?ps = "List.product ks ls"
  have cells: "cells = map (\<lambda>(k, l). gridCell k l) ?ps" unfolding cells_def by (rule grid_as_product)
  have len: "j < length ?ps" "i < length ?ps" using assms(4,5) unfolding cells by simp_all
  have "distinct ?ps" using assms(1,2) by (rule distinct_product)
  then have ne: "?ps ! i \<noteq> ?ps ! j" using len assms(4) by (simp add: nth_eq_iff_index_eq)
  obtain k l where pi: "?ps ! i = (k, l)" by (cases "?ps ! i")
  obtain k' l' where pj: "?ps ! j = (k', l')" by (cases "?ps ! j")
  have "cells ! i = gridCell k l" "cells ! j = gridCell k' l'"
    unfolding cells using len pi pj by simp_all
  then show ?thesis using gridCell_interior_disjoint ne pi pj by simp
qed

lemma gridCell_meets_box:
  fixes minLon minLat maxLon maxLat :: real
  assumes lon: "minLon < maxLon" and lat: "minLat < maxLat"
    and k: "\<lfloor>minLat * 480\<rfloor> \<le> k" "k \<le> \<lceil>maxLat * 480\<rceil> - 1"
    and l: "\<lfloor>minLon * 320\<rfloor> \<le> l" "l \<le> \<lceil>maxLon * 320\<rceil> - 1"
  shows "bboxInterior (bbox (gridCell k l)) \<inter> bboxInterior (minLon, minLat, maxLon, maxLat) \<noteq> {}"
proof -
  define x0 where "x0 = max (of_int l / 320) minLon"
  define x1 where "x1 = min ((of_int l + 1) / 320) maxLon"
  define y0 where "y0 = max (of_int k / 480) minLat"
  define y1 where "y1 = min ((of_int k + 1) / 480) maxLat"
  have "of_int l < maxLon * 320" using l(2) by (simp add: less_ceiling_iff)
  moreover have "minLon * 320 < of_int l + 1" using l(1) by linarith
  ultimately have x: "x0 < x1" using lon unfolding x0_def x1_def by (simp add: field_simps)
  have "of_int k < maxLat * 480" using k(2) by (simp add: less_ceiling_iff)
  moreover have "minLat * 480 < of_int k + 1" using k(1) by linarith
  ultimately have y: "y0 < y1" using lat unfolding y0_def y1_def by (simp add: field_simps)
  define x where "x = (x0 + x1) / 2"
  define y where "y = (y0 + y1) / 2"
  have "x0 < x" "x < x1" "y0 < y" "y < y1" using x y by (simp_all add: x_def y_def)
  then have "of_int l / 320 < x" "x < (of_int l + 1) / 320" "minLon < x" "x < maxLon"
    "of_int k / 480 < y" "y < (of_int k + 1) / 480" "minLat < y" "y < maxLat"
    unfolding x0_def x1_def y0_def y1_def by simp_all
  then have "(x, y) \<in> bboxInterior (bbox (gridCell k l))"
    and "(x, y) \<in> bboxInterior (minLon, minLat, maxLon, maxLat)"
    by (simp_all add: bbox_gridCell)
  then show ?thesis by blast
qed

lemma snapped_contains:
  fixes minLon minLat maxLon maxLat :: real
  shows "bboxRegion (minLon, minLat, maxLon, maxLat)
      \<subseteq> bboxRegion (of_int \<lfloor>minLon * 3600 / MESH_LON_STEP_SEC\<rfloor> * MESH_LON_STEP_SEC / 3600,
                    of_int \<lfloor>minLat * 3600 / MESH_LAT_STEP_SEC\<rfloor> * MESH_LAT_STEP_SEC / 3600,
                    of_int \<lceil>maxLon * 3600 / MESH_LON_STEP_SEC\<rceil> * MESH_LON_STEP_SEC / 3600,
                    of_int \<lceil>maxLat * 3600 / MESH_LAT_STEP_SEC\<rceil> * MESH_LAT_STEP_SEC / 3600)"
proof -
  have a: "of_int \<lfloor>minLon * 3600 / MESH_LON_STEP_SEC\<rfloor> * MESH_LON_STEP_SEC / 3600 \<le> minLon"
  proof -
    have "of_int \<lfloor>minLon * 3600 / MESH_LON_STEP_SEC\<rfloor> \<le> minLon * 3600 / MESH_LON_STEP_SEC"
      by (rule of_int_floor_le)
    then show ?thesis by (simp add: MESH_LON_STEP_SEC_def field_simps)
  qed
  have b: "of_int \<lfloor>minLat * 3600 / MESH_LAT_STEP_SEC\<rfloor> * MESH_LAT_STEP_SEC / 3600 \<le> minLat"
  proof -
    have "of_int \<lfloor>minLat * 3600 / MESH_LAT_STEP_SEC\<rfloor> \<le> minLat * 3600 / MESH_LAT_STEP_SEC"
      by (rule of_int_floor_le)
    then show ?thesis by (simp add: MESH_LAT_STEP_SEC_def field_simps)
  qed
  have c: "maxLon \<le> of_int \<lceil>maxLon * 3600 / MESH_LON_STEP_SEC\<rceil> * MESH_LON_STEP_SEC / 3600"
  proof -
    have "maxLon * 3600 / MESH_LON_STEP_SEC \<le> of_int \<lceil>maxLon * 3600 / MESH_LON_STEP_SEC\<rceil>"
      by (rule le_of_int_ceiling)
    then show ?thesis by (simp add: MESH_LON_STEP_SEC_def field_simps)
  qed
  have d: "maxLat \<le> of_int \<lceil>maxLat * 3600 / MESH_LAT_STEP_SEC\<rceil> * MESH_LAT_STEP_SEC / 3600"
  proof -
    have "maxLat * 3600 / MESH_LAT_STEP_SEC \<le> of_int \<lceil>maxLat * 3600 / MESH_LAT_STEP_SEC\<rceil>"
      by (rule le_of_int_ceiling)
    then show ?thesis by (simp add: MESH_LAT_STEP_SEC_def field_simps)
  qed
  show ?thesis using a b c d by auto
qed

lemma buildMeshCells_one_cell:
  "buildMeshCells POSITIVE_INFINITY (139.7601, 35.6781, 139.7602, 35.6782)
   = [\<lparr>meshId = ''5339461024'', bbox = (44723 / 320, 17125 / 480, 44724 / 320, 17126 / 480)\<rparr>]"
  by (simp add: buildMeshCells_def JAPAN_BOUNDS_def MESH_LAT_STEP_SEC_def MESH_LON_STEP_SEC_def
      latLoop.simps lonLoop.simps meshCode250_digits digitChar_numeral padStart_def numberToString_two)

text \<open>
  Without rounding, the cells tile the rectangle obtained by snapping the intersection
  outward to the grid, that rectangle contains the intersection, and every cell overlaps
  the interior of the intersection.
\<close>

lemma buildMeshCells_exact_tiling:
  fixes minLon minLat maxLon maxLat :: real and box :: BBox and maxCellsPerFeature :: CellLimit
  defines "a \<equiv> \<lfloor>minLat * 3600 / MESH_LAT_STEP_SEC\<rfloor>"
    and "b \<equiv> \<lceil>maxLat * 3600 / MESH_LAT_STEP_SEC\<rceil>"
    and "c \<equiv> \<lfloor>minLon * 3600 / MESH_LON_STEP_SEC\<rfloor>"
    and "d \<equiv> \<lceil>maxLon * 3600 / MESH_LON_STEP_SEC\<rceil>"
  defines "cells \<equiv> buildMeshCells maxCellsPerFeature box"
  assumes inter: "intersectBbox box JAPAN_BOUNDS = Some (minLon, minLat, maxLon, maxLat)"
    and fits: "\<not> exceedsLimit (of_int ((b - a) * (d - c))) maxCellsPerFeature"
  shows "cellsRegion cells
           = bboxRegion (of_int c * MESH_LON_STEP_SEC / 3600, of_int a * MESH_LAT_STEP_SEC / 3600,
                         of_int d * MESH_LON_STEP_SEC / 3600, of_int b * MESH_LAT_STEP_SEC / 3600)
       \<and> bboxRegion (minLon, minLat, maxLon, maxLat) \<subseteq> cellsRegion cells
       \<and> length cells = nat ((b - a) * (d - c))
       \<and> (\<forall>i j. i < j \<and> j < length cells \<longrightarrow>
             bboxInterior (bbox (cells ! i)) \<inter> bboxInterior (bbox (cells ! j)) = {})
       \<and> (\<forall>cell \<in> set cells.
             bboxInterior (bbox cell) \<inter> bboxInterior (minLon, minLat, maxLon, maxLat) \<noteq> {})"
proof -
  have lon: "minLon < maxLon" and lat: "minLat < maxLat"
    using inter by (rule intersectBbox_Some)+
  have ab: "a < b" unfolding a_def b_def using lat
    by (intro grid_extent) (simp_all add: MESH_LAT_STEP_SEC_def)
  have cd: "c < d" unfolding c_def d_def using lon
    by (intro grid_extent) (simp_all add: MESH_LON_STEP_SEC_def)
  have cells: "cells = concat (map (\<lambda>k. map (gridCell k) [c..d - 1]) [a..b - 1])"
    unfolding cells_def buildMeshCells_bounded [OF inter] using fits
    by (simp add: a_def b_def c_def d_def)
  have region: "cellsRegion cells
           = bboxRegion (of_int c * MESH_LON_STEP_SEC / 3600, of_int a * MESH_LAT_STEP_SEC / 3600,
                         of_int d * MESH_LON_STEP_SEC / 3600, of_int b * MESH_LAT_STEP_SEC / 3600)"
    unfolding cells using ab cd by (rule cellsRegion_grid)
  have covers: "bboxRegion (minLon, minLat, maxLon, maxLat) \<subseteq> cellsRegion cells"
    unfolding region a_def b_def c_def d_def by (rule snapped_contains)
  have len: "length cells = nat ((b - a) * (d - c))"
  proof -
    have "length cells = length (List.product [a..b - 1] [c..d - 1])"
      unfolding cells grid_as_product by simp
    also have "\<dots> = nat (b - a) * nat (d - c)" by simp
    also have "\<dots> = nat ((b - a) * (d - c))" using ab cd by (simp add: nat_mult_distrib)
    finally show ?thesis .
  qed
  have disj: "\<forall>i j. i < j \<and> j < length cells \<longrightarrow>
             bboxInterior (bbox (cells ! i)) \<inter> bboxInterior (bbox (cells ! j)) = {}"
    unfolding cells by (intro allI impI grid_pairwise_disjoint) simp_all
  have ij: "a = \<lfloor>minLat * 480\<rfloor>" "b = \<lceil>maxLat * 480\<rceil>" "c = \<lfloor>minLon * 320\<rfloor>" "d = \<lceil>maxLon * 320\<rceil>"
    unfolding a_def b_def c_def d_def MESH_LAT_STEP_SEC_def MESH_LON_STEP_SEC_def
    by (rule arg_cong [where f = floor] arg_cong [where f = ceiling], simp)+
  have meets: "\<forall>cell \<in> set cells.
             bboxInterior (bbox cell) \<inter> bboxInterior (minLon, minLat, maxLon, maxLat) \<noteq> {}"
  proof
    fix cell assume "cell \<in> set cells"
    then obtain k l where kl: "k \<in> {a..b - 1}" "l \<in> {c..d - 1}" "cell = gridCell k l"
      unfolding cells by auto
    show "bboxInterior (bbox cell) \<inter> bboxInterior (minLon, minLat, maxLon, maxLat) \<noteq> {}"
      unfolding kl(3) using lon lat kl(1,2) unfolding ij
      by (intro gridCell_meets_box) simp_all
  qed
  from region covers len disj meets show ?thesis by blast
qed

section \<open>GeometryClipper: ratios\<close>

lemma linePiecesLoop_ratio:
  assumes nonneg: "\<forall>g x. turfLength T g = Some x \<longrightarrow> 0 \<le> x"
    and total: "0 < totalLengthKm"
    and p: "p \<in> set (linePiecesLoop T feature totalLengthKm cells)"
  shows "0 < lengthRatio p \<and> lengthRatio p \<le> 1 \<and> 0 < lengthM p"
  using p
proof (induction cells)
  case Nil
  then show ?case by simp
next
  case (Cons cell cells)
  show ?case
  proof (cases "bboxClip T feature (bbox cell)")
    case None
    with Cons show ?thesis by simp
  next
    case (Some clipped)
    show ?thesis
    proof (cases "turfLength T clipped")
      case None
      with Some Cons show ?thesis by simp
    next
      case len: (Some clippedLengthKm)
      show ?thesis
      proof (cases "clippedLengthKm = 0")
        case True
        with Some len Cons show ?thesis by simp
      next
        case False
        from nonneg len have "0 \<le> clippedLengthKm" by blast
        with False have pos: "0 < clippedLengthKm" by simp
        from Cons.prems Some len False
        consider "p = \<lparr>meshId = meshId cell, geometry = clipped,
                     lengthM = clippedLengthKm * 1000,
                     lengthRatio = min 1 (clippedLengthKm / totalLengthKm)\<rparr>"
          | "p \<in> set (linePiecesLoop T feature totalLengthKm cells)" by auto
        then show ?thesis
        proof cases
          case 1
          then show ?thesis using pos total by simp
        next
          case 2
          then show ?thesis by (rule Cons.IH)
        qed
      qed
    qed
  qed
qed

lemma polygonPiecesLoop_ratio:
  assumes nonneg: "\<forall>g x. turfArea T g = Some x \<longrightarrow> 0 \<le> x"
    and total: "0 < totalArea"
    and p: "p \<in> set (polygonPiecesLoop T feature totalArea cells)"
  shows "0 < areaRatio p \<and> areaRatio p \<le> 1 \<and> 0 < areaM2 p"
  using p
proof (induction cells)
  case Nil
  then show ?case by simp
next
  case (Cons cell cells)
  show ?case
  proof (cases "bboxClip T feature (bbox cell)")
    case None
    with Cons show ?thesis by simp
  next
    case (Some clipped)
    show ?thesis
    proof (cases "turfArea T clipped")
      case None
      with Some Cons show ?thesis by simp
    next
      case ar: (Some clippedArea)
      show ?thesis
      proof (cases "clippedArea = 0")
        case True
        with Some ar Cons show ?thesis by simp
      next
        case False
        from nonneg ar have "0 \<le> clippedArea" by blast
        with False have pos: "0 < clippedArea" by simp
        from Cons.prems Some ar False
        consider "p = \<lparr>meshId = meshId cell, geometry = clipped,
                     areaM2 = clippedArea,
                     areaRatio = min 1 (clippedArea / totalArea)\<rparr>"
          | "p \<in> set (polygonPiecesLoop T feature totalArea cells)" by auto
        then show ?thesis
        proof cases
          case 1
          then show ?thesis using pos total by simp
        next
          case 2
          then show ?thesis by (rule Cons.IH)
        qed
      qed
    qed
  qed
qed

lemma unitTurf_simps:
  "turfLength unitTurf g = Some 1" "turfArea unitTurf g = Some 1"
  "turfBbox unitTurf g = (139.7601, 35.6781, 139.7602, 35.6782)"
  "bboxClip unitTurf g b = Some g"
  by (simp_all add: unitTurf_def)

lemma unitTurf_line_pieces:
  "buildLineMeshPieces unitTurf POSITIVE_INFINITY g
   = [\<lparr>meshId = ''5339461024'', geometry = g, lengthM = 1000, lengthRatio = 1\<rparr>]"
  unfolding buildLineMeshPieces_def unitTurf_simps buildMeshCells_one_cell
  by (simp add: unitTurf_simps)

lemma unitTurf_polygon_pieces:
  "buildPolygonMeshPieces unitTurf POSITIVE_INFINITY g
   = [\<lparr>meshId = ''5339461024'', geometry = g, areaM2 = 1, areaRatio = 1\<rparr>]"
  unfolding buildPolygonMeshPieces_def unitTurf_simps buildMeshCells_one_cell
  by (simp add: unitTurf_simps)

lemma linePiecesLoop_shape:
  assumes p: "p \<in> set (linePiecesLoop T feature totalLengthKm cells)"
  shows "lengthM p \<noteq> 0 \<and> lengthRatio p = min 1 (lengthM p / 1000 / totalLengthKm)"
  using p
proof (induction cells)
  case Nil
  then show ?case by simp
next
  case (Cons cell cells)
  then show ?case
    by (auto split: option.splits if_splits)
qed

lemma polygonPiecesLoop_shape:
  assumes p: "p \<in> set (polygonPiecesLoop T feature totalArea cells)"
  shows "areaM2 p \<noteq> 0 \<and> areaRatio p = min 1 (areaM2 p / totalArea)"
  using p
proof (induction cells)
  case Nil
  then show ?case by simp
next
  case (Cons cell cells)
  then show ?case
    by (auto split: option.splits if_splits)
qed

lemma linePiecesLoop_measured:
  assumes p: "p \<in> set (linePiecesLoop T feature totalLengthKm cells)"
  shows "turfLength T (geometry p) = Some (lengthM p / 1000)"
  using p
proof (induction cells)
  case Nil
  then show ?case by simp
next
  case (Cons cell cells)
  then show ?case
    by (auto split: option.splits if_splits)
qed

lemma polygonPiecesLoop_measured:
  assumes p: "p \<in> set (polygonPiecesLoop T feature totalArea cells)"
  shows "turfArea T (geometry p) = Some (areaM2 p)"
  using p
proof (induction cells)
  case Nil
  then show ?case by simp
next
  case (Cons cell cells)
  then show ?case
    by (auto split: option.splits if_splits)
qed

lemma min_one_ratio:
  fixes x :: real
  assumes "x \<noteq> 0" "t \<noteq> 0"
  shows "min 1 (x / t) \<le> 1" "min 1 (x / t) \<noteq> 0" "0 \<le> min 1 (x / t) \<longleftrightarrow> 0 < x / t"
proof -
  define r where "r = x / t"
  from assms have "r \<noteq> 0" by (simp add: r_def)
  then have "min 1 r \<le> 1" "min 1 r \<noteq> 0" "0 \<le> min 1 r \<longleftrightarrow> 0 < r"
    by (simp_all add: min_def) linarith+
  then show "min 1 (x / t) \<le> 1" "min 1 (x / t) \<noteq> 0" "0 \<le> min 1 (x / t) \<longleftrightarrow> 0 < x / t"
    unfolding r_def by blast+
qed

lemma holedTurf_simps:
  "turfLength holedTurf g = Some 1"
  "turfArea holedTurf g = (if g = Polygon [] then Some (- 1) else Some 1)"
  "turfBbox holedTurf g = (139.7601, 35.6781, 139.7602, 35.6782)"
  "bboxClip holedTurf g b = Some (Polygon [])"
  by (simp_all add: holedTurf_def)

lemma holedTurf_polygon_pieces:
  "g \<noteq> Polygon [] \<Longrightarrow> buildPolygonMeshPieces holedTurf POSITIVE_INFINITY g
   = [\<lparr>meshId = ''5339461024'', geometry = Polygon [], areaM2 = - 1, areaRatio = - 1\<rparr>]"
  unfolding buildPolygonMeshPieces_def holedTurf_simps buildMeshCells_one_cell
  by (simp add: holedTurf_simps)

section \<open>Double-precision arithmetic: rounding error and exact cases\<close>












































section \<open>Properties of GridTiler and GeometryClipper\<close>






text \<open>
  Claim C4, as the code has it.  Every piece carries the ratio
  \<open>min 1 (clipped / total)\<close> of two measures that the skip conditions leave different
  from zero (they skip \<open>0\<close> and \<open>NaN\<close> only).  The ratio is therefore never above 1
  and never 0, and it is positive exactly when the clipped measure and the total measure
  have the same sign; when the geometry library returns no negative length (area), every
  line (polygon) piece has \<open>0 < ratio \<le> 1\<close>.
\<close>

theorem piece_ratio_sign:
  "(\<forall>p \<in> set (buildLineMeshPieces T maxCellsPerFeature feature).
      \<exists>totalLengthKm. turfLength T feature = Some totalLengthKm \<and> totalLengthKm \<noteq> 0
        \<and> turfLength T (geometry p) = Some (lengthM p / 1000) \<and> lengthM p \<noteq> 0
        \<and> lengthRatio p = min 1 (lengthM p / 1000 / totalLengthKm)
        \<and> lengthRatio p \<le> 1
        \<and> (0 \<le> lengthRatio p \<longleftrightarrow> 0 < lengthM p / totalLengthKm))
 \<and> (\<forall>p \<in> set (buildPolygonMeshPieces T maxCellsPerFeature feature).
      \<exists>totalArea. turfArea T feature = Some totalArea \<and> totalArea \<noteq> 0
        \<and> turfArea T (geometry p) = Some (areaM2 p) \<and> areaM2 p \<noteq> 0
        \<and> areaRatio p = min 1 (areaM2 p / totalArea)
        \<and> areaRatio p \<le> 1
        \<and> (0 \<le> areaRatio p \<longleftrightarrow> 0 < areaM2 p / totalArea))
 \<and> ((\<forall>g x. turfLength T g = Some x \<longrightarrow> 0 \<le> x) \<longrightarrow>
      (\<forall>p \<in> set (buildLineMeshPieces T maxCellsPerFeature feature).
         0 < lengthRatio p \<and> lengthRatio p \<le> 1))
 \<and> ((\<forall>g x. turfArea T g = Some x \<longrightarrow> 0 \<le> x) \<longrightarrow>
      (\<forall>p \<in> set (buildPolygonMeshPieces T maxCellsPerFeature feature).
         0 < areaRatio p \<and> areaRatio p \<le> 1))"
proof (intro conjI ballI impI)
  fix p assume p: "p \<in> set (buildLineMeshPieces T maxCellsPerFeature feature)"
  then obtain totalLengthKm where t: "turfLength T feature = Some totalLengthKm"
    by (cases "turfLength T feature") (simp_all add: buildLineMeshPieces_def)
  with p have t0: "totalLengthKm \<noteq> 0"
    and l: "p \<in> set (linePiecesLoop T feature totalLengthKm
                       (buildMeshCells maxCellsPerFeature (turfBbox T feature)))"
    by (auto simp: buildLineMeshPieces_def Let_def split: if_splits)
  note s = linePiecesLoop_shape [OF l] and m = linePiecesLoop_measured [OF l]
  from s have x0: "lengthM p / 1000 \<noteq> 0" by simp
  have "lengthRatio p \<le> 1" "0 \<le> lengthRatio p \<longleftrightarrow> 0 < lengthM p / totalLengthKm"
    using min_one_ratio [OF x0 t0] s by (simp_all add: zero_less_divide_iff)
  with t t0 s m
  show "\<exists>totalLengthKm. turfLength T feature = Some totalLengthKm \<and> totalLengthKm \<noteq> 0
        \<and> turfLength T (geometry p) = Some (lengthM p / 1000) \<and> lengthM p \<noteq> 0
        \<and> lengthRatio p = min 1 (lengthM p / 1000 / totalLengthKm)
        \<and> lengthRatio p \<le> 1
        \<and> (0 \<le> lengthRatio p \<longleftrightarrow> 0 < lengthM p / totalLengthKm)"
    by blast
next
  fix p assume p: "p \<in> set (buildPolygonMeshPieces T maxCellsPerFeature feature)"
  then obtain totalArea where t: "turfArea T feature = Some totalArea"
    by (cases "turfArea T feature") (simp_all add: buildPolygonMeshPieces_def)
  with p have t0: "totalArea \<noteq> 0"
    and l: "p \<in> set (polygonPiecesLoop T feature totalArea
                       (buildMeshCells maxCellsPerFeature (turfBbox T feature)))"
    by (auto simp: buildPolygonMeshPieces_def Let_def split: if_splits)
  note s = polygonPiecesLoop_shape [OF l] and m = polygonPiecesLoop_measured [OF l]
  from s have x0: "areaM2 p \<noteq> 0" by simp
  have "areaRatio p \<le> 1" "0 \<le> areaRatio p \<longleftrightarrow> 0 < areaM2 p / totalArea"
    using min_one_ratio [OF x0 t0] s by simp_all
  with t t0 s m
  show "\<exists>totalArea. turfArea T feature = Some totalArea \<and> totalArea \<noteq> 0
        \<and> turfArea T (geometry p) = Some (areaM2 p) \<and> areaM2 p \<noteq> 0
        \<and> areaRatio p = min 1 (areaM2 p / totalArea)
        \<and> areaRatio p \<le> 1
        \<and> (0 \<le> areaRatio p \<longleftrightarrow> 0 < areaM2 p / totalArea)"
    by blast
next
  fix p
  assume lengths: "\<forall>g x. turfLength T g = Some x \<longrightarrow> 0 \<le> x"
    and p: "p \<in> set (buildLineMeshPieces T maxCellsPerFeature feature)"
  then obtain totalLengthKm where t: "turfLength T feature = Some totalLengthKm"
    by (cases "turfLength T feature") (simp_all add: buildLineMeshPieces_def)
  with p have t0: "totalLengthKm \<noteq> 0"
    and l: "p \<in> set (linePiecesLoop T feature totalLengthKm
                       (buildMeshCells maxCellsPerFeature (turfBbox T feature)))"
    by (auto simp: buildLineMeshPieces_def Let_def split: if_splits)
  from lengths t have "0 \<le> totalLengthKm" by blast
  with t0 have "0 < totalLengthKm" by simp
  from linePiecesLoop_ratio [OF lengths this l]
  show "0 < lengthRatio p" and "lengthRatio p \<le> 1" by simp_all
next
  fix p
  assume areas: "\<forall>g x. turfArea T g = Some x \<longrightarrow> 0 \<le> x"
    and p: "p \<in> set (buildPolygonMeshPieces T maxCellsPerFeature feature)"
  then obtain totalArea where t: "turfArea T feature = Some totalArea"
    by (cases "turfArea T feature") (simp_all add: buildPolygonMeshPieces_def)
  with p have t0: "totalArea \<noteq> 0"
    and l: "p \<in> set (polygonPiecesLoop T feature totalArea
                       (buildMeshCells maxCellsPerFeature (turfBbox T feature)))"
    by (auto simp: buildPolygonMeshPieces_def Let_def split: if_splits)
  from areas t have "0 \<le> totalArea" by blast
  with t0 have "0 < totalArea" by simp
  from polygonPiecesLoop_ratio [OF areas this l]
  show "0 < areaRatio p" and "areaRatio p \<le> 1" by simp_all
qed

theorem piece_ratio_sign_witness:
  "buildLineMeshPieces unitTurf POSITIVE_INFINITY (LineString [(139.7601, 35.6781), (139.7602, 35.6782)])
     = [\<lparr>meshId = ''5339461024'', geometry = LineString [(139.7601, 35.6781), (139.7602, 35.6782)],
         lengthM = 1000, lengthRatio = 1\<rparr>]
   \<and> 0 < lengthRatio (hd (buildLineMeshPieces unitTurf POSITIVE_INFINITY
                              (LineString [(139.7601, 35.6781), (139.7602, 35.6782)])))
   \<and> lengthRatio (hd (buildLineMeshPieces unitTurf POSITIVE_INFINITY
                              (LineString [(139.7601, 35.6781), (139.7602, 35.6782)]))) \<le> 1"
  using piece_ratio_sign [where T = unitTurf and maxCellsPerFeature = POSITIVE_INFINITY
        and feature = "LineString [(139.7601, 35.6781), (139.7602, 35.6782)]"]
  by (simp add: unitTurf_line_pieces unitTurf_simps)

text \<open>
  Claim C4, as stated, fails: nothing in \<open>buildPolygonMeshPieces\<close> clamps the ratio from
  below.  With a geometry library that measures the feature as \<open>1\<close> and its clipped part as
  \<open>-1\<close>, the one piece returned has \<open>areaRatio = -1\<close>.
\<close>

theorem piece_ratio_negative_counterexample:
  "\<not> (\<forall>p \<in> set (buildPolygonMeshPieces holedTurf POSITIVE_INFINITY
                    (Polygon [[(139.7601, 35.6781), (139.7602, 35.6781), (139.7602, 35.6782), (139.7601, 35.6781)]])).
        0 \<le> areaRatio p \<and> areaRatio p \<le> 1)"
  by (simp add: holedTurf_polygon_pieces)

text \<open>
  Claim C10.  A box whose clamped width or height is not positive gets no cell, also
  strictly inside the national extent; a line or polygon whose bounding box is such a box
  (a point, a north-south or an east-west segment) gets no piece.
\<close>

theorem degenerate_bbox_yields_nothing:
  fixes b0 b1 b2 b3 :: real
  assumes "max b0 122.93 \<ge> min b2 153.99 \<or> max b1 24.04 \<ge> min b3 45.95"
  shows "buildMeshCells maxCellsPerFeature (b0, b1, b2, b3) = []
       \<and> (turfBbox T feature = (b0, b1, b2, b3) \<longrightarrow>
            buildLineMeshPieces T maxCellsPerFeature feature = []
            \<and> buildPolygonMeshPieces T maxCellsPerFeature feature = [])"
proof -
  have "intersectBbox (b0, b1, b2, b3) JAPAN_BOUNDS = None"
    using assms by (auto simp: JAPAN_BOUNDS_def Let_def)
  then have cells: "buildMeshCells maxCellsPerFeature (b0, b1, b2, b3) = []"
    by (simp add: buildMeshCells_def)
  then show ?thesis
    by (simp add: buildLineMeshPieces_def buildPolygonMeshPieces_def split: option.splits)
qed

theorem degenerate_bbox_yields_nothing_witness:
  "buildMeshCells POSITIVE_INFINITY (139.767, 35.681, 139.767, 35.681) = []
   \<and> turfBbox pointTurf (LineString [(139.767, 35.68), (139.767, 35.69)]) = (139.767, 35.68, 139.767, 35.69)
   \<and> buildMeshCells POSITIVE_INFINITY (139.767, 35.68, 139.767, 35.69) = []
   \<and> buildLineMeshPieces pointTurf POSITIVE_INFINITY (LineString [(139.767, 35.68), (139.767, 35.69)]) = []"
  using degenerate_bbox_yields_nothing [where ?b0.0 = "139.767" and ?b1.0 = "35.681"
      and ?b2.0 = "139.767" and ?b3.0 = "35.681" and maxCellsPerFeature = POSITIVE_INFINITY]
    degenerate_bbox_yields_nothing [where ?b0.0 = "139.767" and ?b1.0 = "35.68"
      and ?b2.0 = "139.767" and ?b3.0 = "35.69" and maxCellsPerFeature = POSITIVE_INFINITY
      and T = pointTurf and feature = "LineString [(139.767, 35.68), (139.767, 35.69)]"]
  by (simp add: pointTurf_def)

section \<open>Chunking and the statements sent to the store\<close>

lemma chunksOf_Nil [simp]: "chunksOf n [] = []"
  by (simp add: chunksOf.simps)

lemma chunksOf_step: "0 < n \<Longrightarrow> xs \<noteq> [] \<Longrightarrow> chunksOf n xs = take n xs # chunksOf n (drop n xs)"
  by (subst chunksOf.simps) simp

lemma concat_chunksOf: "0 < n \<Longrightarrow> concat (chunksOf n xs) = xs"
proof (induction n xs rule: chunksOf.induct)
  case (1 n xs)
  show ?case
  proof (cases "xs = []")
    case True
    then show ?thesis by simp
  next
    case False
    with 1 show ?thesis by (simp add: chunksOf_step)
  qed
qed

lemma chunksOf_lengths: "c \<in> set (chunksOf n xs) \<Longrightarrow> 0 < length c \<and> length c \<le> n"
proof (induction n xs rule: chunksOf.induct)
  case (1 n xs)
  show ?case
  proof (cases "n = 0 \<or> xs = []")
    case True
    with 1(2) show ?thesis by (simp add: chunksOf.simps)
  next
    case False
    then have "chunksOf n xs = take n xs # chunksOf n (drop n xs)" by (simp add: chunksOf_step)
    with 1(2) consider "c = take n xs" | "c \<in> set (chunksOf n (drop n xs))" by auto
    then show ?thesis
    proof cases
      case 1
      with False show ?thesis by (cases xs) auto
    next
      case 2
      with 1(1) False show ?thesis by simp
    qed
  qed
qed

lemma length_chunksOf: "0 < n \<Longrightarrow> length (chunksOf n xs) = (length xs + (n - 1)) div n"
proof (induction n xs rule: chunksOf.induct)
  case (1 n xs)
  show ?case
  proof (cases "xs = []")
    case True
    with 1(2) show ?thesis by simp
  next
    case False
    have ih: "length (chunksOf n (drop n xs)) = (length xs - n + (n - 1)) div n"
      using 1 False by simp
    show ?thesis
    proof (cases "n \<le> length xs")
      case True
      then have "length xs + (n - 1) = (length xs - n + (n - 1)) + n" by simp
      then have "(length xs + (n - 1)) div n = ((length xs - n + (n - 1)) + n) div n" by simp
      also have "\<dots> = (length xs - n + (n - 1)) div n + 1"
        using 1(2) by (intro div_add_self2) simp
      finally have "(length xs + (n - 1)) div n = Suc ((length xs - n + (n - 1)) div n)" by simp
      then show ?thesis using False 1(2) ih by (simp add: chunksOf_step)
    next
      case short: False
      then have "drop n xs = []" by simp
      moreover have "(length xs + (n - 1)) div n = 1"
      proof -
        have "n \<le> length xs + (n - 1)" using False by (cases xs) auto
        moreover have "length xs + (n - 1) < 2 * n" using short by simp
        ultimately show ?thesis by (intro div_nat_eqI) simp_all
      qed
      ultimately show ?thesis using False 1(2) by (simp add: chunksOf_step)
    qed
  qed
qed

lemma chunkArrayLoop_returns:
  assumes "0 < n"
  shows "chunkArrayLoop rows n i acc = Some (acc @ chunksOf n (drop i rows))"
proof (induction "length rows - i" arbitrary: i acc rule: less_induct)
  case less
  show ?case
  proof (cases "i < length rows")
    case False
    then show ?thesis by (subst chunkArrayLoop.simps) simp
  next
    case True
    then have ne: "drop i rows \<noteq> []" by simp
    have "length rows - (i + n) < length rows - i" using True assms by simp
    then have "chunkArrayLoop rows n (i + n) (acc @ [slice rows i (i + n)])
        = Some ((acc @ [slice rows i (i + n)]) @ chunksOf n (drop (i + n) rows))"
      by (rule less)
    moreover have "slice rows i (i + n) = take n (drop i rows)" by (simp add: slice_def)
    moreover have "drop (i + n) rows = drop n (drop i rows)" by (simp add: add.commute)
    ultimately show ?thesis
      using True ne assms by (subst chunkArrayLoop.simps) (simp add: chunksOf_step)
  qed
qed

lemma chunkArray_returns: "0 < n \<Longrightarrow> chunkArray rows n = Some (chunksOf n rows)"
  by (simp add: chunkArray_def chunkArrayLoop_returns)

lemma forEachChunk_fold:
  "forEachChunk rows body s = fold body (chunksOf INSERT_CHUNK_SIZE rows) s"
  by (simp add: forEachChunk_def chunkArray_returns INSERT_CHUNK_SIZE_def)

lemma fold_statements:
  assumes "\<And>c s. c \<in> set cs \<Longrightarrow> statements (body c s) = statements s @ [(name, length c)]"
  shows "statements (fold body cs s) = statements s @ map (\<lambda>c. (name, length c)) cs"
  using assms by (induction cs arbitrary: s) simp_all

lemma statements_insertDynamicStatement:
  "statements (insertDynamicStatement name cols chunk s) = statements s @ [(name, length chunk)]"
  by (simp add: insertDynamicStatement_def Let_def split: option.splits)

lemma statements_insertRowsDynamic:
  "statements (insertRowsDynamic name cols rows s)
   = statements s @ map (\<lambda>c. (name, length c)) (chunksOf INSERT_CHUNK_SIZE rows)"
  unfolding insertRowsDynamic_def forEachChunk_fold
proof (rule fold_statements)
  fix c s assume "c \<in> set (chunksOf INSERT_CHUNK_SIZE rows)"
  then have "0 < length c" using chunksOf_lengths by blast
  then show "statements (if length c = 0 then s else insertDynamicStatement name cols c s)
      = statements s @ [(name, length c)]"
    by (simp add: statements_insertDynamicStatement)
qed

lemma insertInChunksLoop_fold:
  "insertInChunksLoop ins rows i s
   = fold (\<lambda>c s. if length c > 0 then ins c s else s) (chunksOf INSERT_CHUNK_SIZE (drop i rows)) s"
proof (induction ins rows i s rule: insertInChunksLoop.induct)
  case (1 ins rows i s)
  show ?case
  proof (cases "i < length rows")
    case False
    then show ?thesis by (subst insertInChunksLoop.simps) simp
  next
    case True
    then have ne: "drop i rows \<noteq> []" by simp
    have sl: "slice rows i (i + INSERT_CHUNK_SIZE) = take INSERT_CHUNK_SIZE (drop i rows)"
      by (simp add: slice_def)
    have dr: "drop (i + INSERT_CHUNK_SIZE) rows = drop INSERT_CHUNK_SIZE (drop i rows)"
      by (simp add: add.commute)
    have pos: "0 < INSERT_CHUNK_SIZE" by (simp add: INSERT_CHUNK_SIZE_def)
    show ?thesis
      apply (subst insertInChunksLoop.simps)
      apply (simp only: True if_True Let_def "1.IH" [OF True refl] dr)
      apply (simp add: chunksOf_step [OF pos ne] sl)
      done
  qed
qed

lemma statements_insertInChunks:
  assumes "\<And>c s. statements (ins c s) = statements s @ [(name, length c)]"
  shows "statements (insertInChunks ins rows s)
   = statements s @ map (\<lambda>c. (name, length c)) (chunksOf INSERT_CHUNK_SIZE rows)"
  unfolding insertInChunks_def insertInChunksLoop_fold drop_0
proof (rule fold_statements)
  fix c s assume "c \<in> set (chunksOf INSERT_CHUNK_SIZE rows)"
  then have "0 < length c" using chunksOf_lengths by blast
  then show "statements (if 0 < length c then ins c s else s) = statements s @ [(name, length c)]"
    by (simp add: assms)
qed

lemma bounded_fold:
  assumes "\<And>c s. c \<in> set cs \<Longrightarrow> boundedStatements s \<Longrightarrow> boundedStatements (body c s)"
    and "boundedStatements s"
  shows "boundedStatements (fold body cs s)"
  using assms by (induction cs arbitrary: s) simp_all

lemma bounded_forEachChunk:
  assumes "\<And>c s. 0 < length c \<Longrightarrow> length c \<le> INSERT_CHUNK_SIZE \<Longrightarrow> boundedStatements s
             \<Longrightarrow> boundedStatements (body c s)"
    and "boundedStatements s"
  shows "boundedStatements (forEachChunk rows body s)"
  unfolding forEachChunk_fold
  by (rule bounded_fold [OF _ assms(2)]) (use assms(1) chunksOf_lengths in blast)

lemma bounded_same:
  "statements s' = statements s \<Longrightarrow> boundedStatements s \<Longrightarrow> boundedStatements s'"
  by (simp add: boundedStatements_def)

lemma bounded_append:
  "statements s' = statements s @ [(name, n)] \<Longrightarrow> n \<le> INSERT_CHUNK_SIZE \<Longrightarrow> boundedStatements s
   \<Longrightarrow> boundedStatements s'"
  by (auto simp: boundedStatements_def)

lemma bounded_insertRowsDynamic:
  "boundedStatements s \<Longrightarrow> boundedStatements (insertRowsDynamic name cols rows s)"
  unfolding insertRowsDynamic_def
  by (rule bounded_forEachChunk)
     (auto intro: bounded_append [OF statements_insertDynamicStatement])

lemma bounded_upsertMeshIndex:
  "boundedStatements s \<Longrightarrow> boundedStatements (upsertMeshIndex meshIds s)"
  unfolding upsertMeshIndex_def
  by (auto intro!: bounded_forEachChunk
      intro: bounded_append [where name = "''mesh_index''"] simp: insertMeshIndexStatement_def)

lemma statements_unchanged [simp]:
  "statements (refreshMeshFlags ms s) = statements s"
  "statements (removeLayerPresence n ms s) = statements s"
  "statements (addLayerPresence n ms s) = statements s"
  "statements (deleteGenericRows n s) = statements s"
  "statements (deleteFrom n s) = statements s"
  "statements (dropTable n s) = statements s"
  "statements (createTableIfNotExists n s) = statements s"
  "statements (upsertLayerRegistry def s) = statements s"
  by (simp_all add: refreshMeshFlags_def removeLayerPresence_def addLayerPresence_def
      deleteGenericRows_def deleteFrom_def dropTable_def createTableIfNotExists_def
      upsertLayerRegistry_def Let_def split: option.splits)

lemma statements_unchanged2 [simp]:
  "statements (deleteLayerTables def s) = statements s"
  "statements (ensureLayerTables def s) = statements s"
  "statements (removeLayer r s) = statements s"
  by (simp_all add: deleteLayerTables_def ensureLayerTables_def removeLayer_def Let_def
      split: option.splits)

lemma bounded_processPointLayer:
  "boundedStatements s \<Longrightarrow> boundedStatements (snd (processPointLayer def s))"
  unfolding processPointLayer_def Let_def snd_conv
  by (intro bounded_forEachChunk bounded_insertRowsDynamic bounded_upsertMeshIndex)
     (auto intro: bounded_append [where name = "''point_features''"] simp: insertPointFeatures_def)

lemma bounded_lineChunkBody:
  assumes "length chunk \<le> INSERT_CHUNK_SIZE" "boundedStatements s"
  shows "boundedStatements (lineChunkBody def m chunk s)"
proof -
  have 1: "boundedStatements (snd (insertLineFeatures
      (map (\<lambda>item. (layerName def, meshId item, geometry item, properties item)) chunk) s))"
    using assms
    by (auto intro: bounded_append [where name = "''line_features''"] simp: insertLineFeatures_def)
  show ?thesis
    unfolding lineChunkBody_def Let_def
    by (simp add: split_beta)
       (intro bounded_insertRowsDynamic bounded_forEachChunk 1,
        auto intro: bounded_append [where name = "''line_mesh_map''"] simp: insertLineMeshMap_def)
qed

lemma bounded_polygonChunkBody:
  assumes "length chunk \<le> INSERT_CHUNK_SIZE" "boundedStatements s"
  shows "boundedStatements (polygonChunkBody def m chunk s)"
proof -
  have 1: "boundedStatements (snd (insertPolygonFeatures
      (map (\<lambda>item. (layerName def, meshId item, geometry item, properties item)) chunk) s))"
    using assms
    by (auto intro: bounded_append [where name = "''polygon_features''"] simp: insertPolygonFeatures_def)
  show ?thesis
    unfolding polygonChunkBody_def Let_def
    by (simp add: split_beta)
       (intro bounded_insertRowsDynamic bounded_forEachChunk 1,
        auto intro: bounded_append [where name = "''polygon_mesh_map''"] simp: insertPolygonMeshMap_def)
qed

lemma bounded_processLineLayer:
  "boundedStatements s \<Longrightarrow> boundedStatements (snd (processLineLayer env def s))"
  unfolding processLineLayer_def Let_def
  by (auto split: option.splits
      intro!: bounded_forEachChunk bounded_lineChunkBody bounded_insertRowsDynamic bounded_upsertMeshIndex)

lemma bounded_processPolygonLayer:
  "boundedStatements s \<Longrightarrow> boundedStatements (snd (processPolygonLayer env def s))"
  unfolding processPolygonLayer_def Let_def
  by (auto split: option.splits
      intro!: bounded_forEachChunk bounded_polygonChunkBody bounded_insertRowsDynamic bounded_upsertMeshIndex)

lemma bounded_processLayer:
  assumes "boundedStatements s"
  shows "boundedStatements (processLayer env def s)"
proof -
  define s4 where "s4 = ensureLayerTables def
    (case find (\<lambda>r. layerName r = layerName def) (layer_registry s) of
       Some prev \<Rightarrow>
         (case meshMapTable prev of
            Some m \<Rightarrow> if geometryType prev \<noteq> geometryType def
                      then dropTable m (deleteLayerTables def (deleteGenericRows (layerName def) s))
                      else deleteLayerTables def (deleteGenericRows (layerName def) s)
          | None \<Rightarrow> deleteLayerTables def (deleteGenericRows (layerName def) s))
     | None \<Rightarrow> deleteLayerTables def (deleteGenericRows (layerName def) s))"
  have "statements s4 = statements s" by (simp add: s4_def split: option.splits)
  then have b4: "boundedStatements s4" using assms by (rule bounded_same)
  have b5: "boundedStatements (snd (case geometryType def of
                PointKind \<Rightarrow> processPointLayer def s4
              | LineKind \<Rightarrow> processLineLayer env def s4
              | PolygonKind \<Rightarrow> processPolygonLayer env def s4))"
    using b4 by (cases "geometryType def")
      (simp_all add: bounded_processPointLayer bounded_processLineLayer bounded_processPolygonLayer)
  show ?thesis
    unfolding processLayer_def Let_def s4_def [symmetric]
    by (simp add: split_beta) (rule bounded_same [OF _ b5], simp)
qed

lemma bounded_ingestFile:
  assumes "boundedStatements s" "ingestFile env fileName input s = Inr s'"
  shows "boundedStatements s'"
proof -
  have r: "boundedStatements t \<Longrightarrow> boundedStatements (fold removeLayer rs t)" for rs t
  proof (induction rs arbitrary: t)
    case Nil
    then show ?case by simp
  next
    case (Cons a rs)
    have "boundedStatements (removeLayer a t)"
      by (rule bounded_same [OF _ Cons.prems]) simp
    then show ?case using Cons.IH by simp
  qed
  have p: "boundedStatements t \<Longrightarrow> boundedStatements (fold (processLayer env) ds t)" for ds t
    by (induction ds arbitrary: t) (simp_all add: bounded_processLayer)
  from assms(2) show ?thesis
    using assms(1) r p
    by (auto simp: ingestFile_def Let_def split: sum.splits if_splits)
qed

lemma upsertMeshFlagLoop_fold:
  "upsertMeshFlagLoop flag vals i s
   = fold (\<lambda>c s. if length c = 0 then s else upsertMeshFlagStatement flag c s)
       (chunksOf INSERT_CHUNK_SIZE (drop i vals)) s"
proof (induction flag vals i s rule: upsertMeshFlagLoop.induct)
  case (1 flag vals i s)
  show ?case
  proof (cases "i < length vals")
    case False
    then show ?thesis by (subst upsertMeshFlagLoop.simps) simp
  next
    case True
    then have ne: "drop i vals \<noteq> []" by simp
    have sl: "slice vals i (i + INSERT_CHUNK_SIZE) = take INSERT_CHUNK_SIZE (drop i vals)"
      by (simp add: slice_def)
    have dr: "drop (i + INSERT_CHUNK_SIZE) vals = drop INSERT_CHUNK_SIZE (drop i vals)"
      by (simp add: add.commute)
    have pos: "0 < INSERT_CHUNK_SIZE" by (simp add: INSERT_CHUNK_SIZE_def)
    show ?thesis
      apply (subst upsertMeshFlagLoop.simps)
      apply (simp only: True if_True Let_def "1.IH" [OF True refl] dr)
      apply (use True pos in \<open>simp add: chunksOf_step [OF pos ne] sl\<close>)
      done
  qed
qed

lemma statements_upsertMeshFlag:
  "statements (upsertMeshFlag meshIds flag s)
   = statements s @ map (\<lambda>c. (''mesh_index'', length c)) (chunksOf INSERT_CHUNK_SIZE meshIds)"
  unfolding upsertMeshFlag_def upsertMeshFlagLoop_fold drop_0
proof (rule fold_statements)
  fix c s assume "c \<in> set (chunksOf INSERT_CHUNK_SIZE meshIds)"
  then have "0 < length c" using chunksOf_lengths by blast
  then show "statements (if length c = 0 then s else upsertMeshFlagStatement flag c s)
      = statements s @ [(''mesh_index'', length c)]"
    by (simp add: upsertMeshFlagStatement_def)
qed

lemma statements_upsertMeshIndex:
  "statements (upsertMeshIndex meshIds s)
   = statements s @ map (\<lambda>c. (''mesh_index'', length c)) (chunksOf INSERT_CHUNK_SIZE meshIds)"
proof (cases "meshIds = []")
  case True
  then show ?thesis by (simp add: upsertMeshIndex_def)
next
  case False
  have "statements (fold insertMeshIndexStatement (chunksOf INSERT_CHUNK_SIZE meshIds) s)
      = statements s @ map (\<lambda>c. (''mesh_index'', length c)) (chunksOf INSERT_CHUNK_SIZE meshIds)"
    by (rule fold_statements) (simp add: insertMeshIndexStatement_def)
  with False show ?thesis by (simp add: upsertMeshIndex_def forEachChunk_fold)
qed

lemma chunks_summary:
  "concat (chunksOf INSERT_CHUNK_SIZE xs) = xs
   \<and> length (chunksOf INSERT_CHUNK_SIZE xs) = (length xs + 499) div 500
   \<and> (\<forall>c \<in> set (chunksOf INSERT_CHUNK_SIZE xs). 0 < length c \<and> length c \<le> 500)"
  using concat_chunksOf [of INSERT_CHUNK_SIZE xs] length_chunksOf [of INSERT_CHUNK_SIZE xs]
    chunksOf_lengths [of _ INSERT_CHUNK_SIZE xs]
  by (simp add: INSERT_CHUNK_SIZE_def)






lemma ingestFile_collection_returns:
  "ingestFile env fileName (FeatureCollectionInput fs) s
   = Inr (projr (ingestFile env fileName (FeatureCollectionInput fs) s))"
  by (simp add: ingestFile_def toFeatureCollection_def Let_def)

section \<open>Properties of the ingestion pipeline\<close>




text \<open>
  Claim C8.  Every insert statement carries at most 500 rows.  \<open>chunkArray\<close> returns for
  the chunk size 500, with \<open>\<lceil>n / 500\<rceil>\<close> non-empty chunks of at most 500 rows that
  concatenate to the input; \<open>insertRowsDynamic\<close>, \<open>insertInChunks\<close>, \<open>upsertMeshIndex\<close>
  and \<open>upsertMeshFlag\<close> send exactly one statement per chunk; and no statement sent
  during the ingestion of a file has more than 500 rows.
\<close>

theorem insert_statements_carry_at_most_500_rows:
  fixes rows :: "DynValue list list" and meshRows :: "(string \<times> nat \<times> string \<times> Geometry \<times> Json \<times> real \<times> real) list"
    and meshIds :: "string list"
  shows "(\<exists>chunks. chunkArray rows INSERT_CHUNK_SIZE = Some chunks
            \<and> concat chunks = rows \<and> length chunks = (length rows + 499) div 500
            \<and> (\<forall>c \<in> set chunks. 0 < length c \<and> length c \<le> 500)
            \<and> statements (insertRowsDynamic name cols rows s)
                = statements s @ map (\<lambda>c. (name, length c)) chunks)
       \<and> (\<exists>chunks. concat chunks = meshRows \<and> length chunks = (length meshRows + 499) div 500
            \<and> (\<forall>c \<in> set chunks. 0 < length c \<and> length c \<le> 500)
            \<and> statements (insertInChunks insertLineMeshMap meshRows s)
                = statements s @ map (\<lambda>c. (''line_mesh_map'', length c)) chunks
            \<and> statements (insertInChunks insertPolygonMeshMap meshRows s)
                = statements s @ map (\<lambda>c. (''polygon_mesh_map'', length c)) chunks)
       \<and> (\<exists>chunks. concat chunks = meshIds \<and> length chunks = (length meshIds + 499) div 500
            \<and> (\<forall>c \<in> set chunks. 0 < length c \<and> length c \<le> 500)
            \<and> statements (upsertMeshIndex meshIds s)
                = statements s @ map (\<lambda>c. (''mesh_index'', length c)) chunks
            \<and> statements (upsertMeshFlag meshIds flag s)
                = statements s @ map (\<lambda>c. (''mesh_index'', length c)) chunks)
       \<and> ((\<forall>st \<in> set (statements s). snd st \<le> 500)
            \<and> ingestFile env fileName input s = Inr s'
            \<longrightarrow> (\<forall>st \<in> set (statements s'). snd st \<le> 500))"
proof (intro conjI)
  show "\<exists>chunks. chunkArray rows INSERT_CHUNK_SIZE = Some chunks
            \<and> concat chunks = rows \<and> length chunks = (length rows + 499) div 500
            \<and> (\<forall>c \<in> set chunks. 0 < length c \<and> length c \<le> 500)
            \<and> statements (insertRowsDynamic name cols rows s)
                = statements s @ map (\<lambda>c. (name, length c)) chunks"
    using chunks_summary [of rows] statements_insertRowsDynamic [of name cols rows s]
      chunkArray_returns [of INSERT_CHUNK_SIZE rows]
    by (intro exI [where x = "chunksOf INSERT_CHUNK_SIZE rows"]) (simp add: INSERT_CHUNK_SIZE_def)
  show "\<exists>chunks. concat chunks = meshRows \<and> length chunks = (length meshRows + 499) div 500
            \<and> (\<forall>c \<in> set chunks. 0 < length c \<and> length c \<le> 500)
            \<and> statements (insertInChunks insertLineMeshMap meshRows s)
                = statements s @ map (\<lambda>c. (''line_mesh_map'', length c)) chunks
            \<and> statements (insertInChunks insertPolygonMeshMap meshRows s)
                = statements s @ map (\<lambda>c. (''polygon_mesh_map'', length c)) chunks"
    using chunks_summary [of meshRows]
      statements_insertInChunks [of insertLineMeshMap "''line_mesh_map''" meshRows s]
      statements_insertInChunks [of insertPolygonMeshMap "''polygon_mesh_map''" meshRows s]
    by (intro exI [where x = "chunksOf INSERT_CHUNK_SIZE meshRows"])
       (simp add: insertLineMeshMap_def insertPolygonMeshMap_def)
  show "\<exists>chunks. concat chunks = meshIds \<and> length chunks = (length meshIds + 499) div 500
            \<and> (\<forall>c \<in> set chunks. 0 < length c \<and> length c \<le> 500)
            \<and> statements (upsertMeshIndex meshIds s)
                = statements s @ map (\<lambda>c. (''mesh_index'', length c)) chunks
            \<and> statements (upsertMeshFlag meshIds flag s)
                = statements s @ map (\<lambda>c. (''mesh_index'', length c)) chunks"
    using chunks_summary [of meshIds] statements_upsertMeshIndex [of meshIds s]
      statements_upsertMeshFlag [of meshIds flag s]
    by (intro exI [where x = "chunksOf INSERT_CHUNK_SIZE meshIds"]) simp
  show "(\<forall>st \<in> set (statements s). snd st \<le> 500)
            \<and> ingestFile env fileName input s = Inr s'
            \<longrightarrow> (\<forall>st \<in> set (statements s'). snd st \<le> 500)"
    using bounded_ingestFile [of s env fileName input s']
    by (simp add: boundedStatements_def INSERT_CHUNK_SIZE_def)
qed

theorem insert_statements_carry_at_most_500_rows_witness:
  "chunkArray [[TextValue ''5339461132'']] INSERT_CHUNK_SIZE = Some [[[TextValue ''5339461132'']]]
   \<and> statements (insertRowsDynamic ''tokyo'' [''mesh_id''] [[TextValue ''5339461132'']] emptyStore)
       = [(''tokyo'', 1)]
   \<and> \<not> isl (ingestFile sampleEnv ''Tokyo Sample.geojson'' sampleInput emptyStore)
   \<and> list_all (\<lambda>st. snd st \<le> 500)
        (statements (projr (ingestFile sampleEnv ''Tokyo Sample.geojson'' sampleInput emptyStore)))"
proof -
  have r: "ingestFile sampleEnv ''Tokyo Sample.geojson'' sampleInput emptyStore
      = Inr (projr (ingestFile sampleEnv ''Tokyo Sample.geojson'' sampleInput emptyStore))"
    unfolding sampleInput_def by (rule ingestFile_collection_returns)
  have e: "\<forall>st \<in> set (statements emptyStore). snd st \<le> 500" by (simp add: emptyStore_def)
  have i: "\<not> isl (ingestFile sampleEnv ''Tokyo Sample.geojson'' sampleInput emptyStore)"
    by (subst r) simp
  note T = insert_statements_carry_at_most_500_rows [where rows = "[[TextValue ''5339461132'']]"
        and name = "''tokyo''" and cols = "[''mesh_id'']" and s = emptyStore
        and env = sampleEnv and fileName = "''Tokyo Sample.geojson''" and input = sampleInput
        and s' = "projr (ingestFile sampleEnv ''Tokyo Sample.geojson'' sampleInput emptyStore)"
        and meshRows = "[]" and meshIds = "[]" and flag = HasLines]
  from T obtain chunks where c: "chunkArray [[TextValue ''5339461132'']] INSERT_CHUNK_SIZE = Some chunks"
      "concat chunks = [[TextValue ''5339461132'']]"
      "length chunks = (length [[TextValue ''5339461132'']] + 499) div 500"
    and st: "statements (insertRowsDynamic ''tokyo'' [''mesh_id''] [[TextValue ''5339461132'']] emptyStore)
        = statements emptyStore @ map (\<lambda>c. (''tokyo'', length c)) chunks"
    by blast
  from c(3) have "length chunks = 1" by simp
  then obtain c0 where "chunks = [c0]" by (cases chunks) auto
  with c(2) have ch: "chunks = [[[TextValue ''5339461132'']]]" by simp
  have se: "statements emptyStore = []" by (simp add: emptyStore_def)
  from T e r have "\<forall>st \<in> set (statements (projr (ingestFile sampleEnv ''Tokyo Sample.geojson''
      sampleInput emptyStore))). snd st \<le> 500"
    by blast
  then have la: "list_all (\<lambda>st. snd st \<le> 500)
        (statements (projr (ingestFile sampleEnv ''Tokyo Sample.geojson'' sampleInput emptyStore)))"
    by (simp add: list_all_iff)
  show ?thesis using c(1) st i la unfolding ch se by simp
qed

section \<open>Ingesting a file twice\<close>

lemma fold_frame:
  assumes "\<And>c s. g (body c s) = g s"
  shows "g (fold body cs s) = g s"
  using assms by (induction cs arbitrary: s) simp_all

lemma enumerate_shift:
  "map (\<lambda>(k, v). g k v) (enumerate m ys) = map (\<lambda>(k, v). g (m + k) v) (enumerate 0 ys)"
  by (rule nth_equalityI) (simp_all add: nth_enumerate_eq)

lemma enumerate_append_map:
  "map (\<lambda>(k, v). f (n + k) v) (enumerate 0 (xs @ ys))
   = map (\<lambda>(k, v). f (n + k) v) (enumerate 0 xs)
     @ map (\<lambda>(k, v). f (n + length xs + k) v) (enumerate 0 ys)"
  using enumerate_shift [of "\<lambda>k. f (n + k)" "length xs" ys]
  by (simp add: enumerate_append_eq add.assoc)

lemma featureRows_append:
  "featureRows (xs @ ys) seq = featureRows xs seq @ featureRows ys (seq + length xs)"
  unfolding featureRows_def
  using enumerate_append_map [of "\<lambda>k v. case v of (layer, m, g, props) \<Rightarrow>
            \<lparr>row_id = k, source_layer = layer, mesh_id = m,
             geometry_json = g, properties_json = props\<rparr>" seq xs ys]
  by simp

lemma featureRows_Nil [simp]: "featureRows [] seq = []"
  by (simp add: featureRows_def)

lemma meshMapRows_append:
  "meshMapRows (xs @ ys) seq = meshMapRows xs seq @ meshMapRows ys (seq + length xs)"
  unfolding meshMapRows_def
  using enumerate_append_map [of "\<lambda>k v. case v of (layer, fid, m, g, props, len, rat) \<Rightarrow>
            \<lparr>row_id = k, source_layer = layer, mesh_id = m, geometry_json = g,
             properties_json = props, feature_id = fid, measured = len, ratio = rat\<rparr>" seq xs ys]
  by simp

lemma meshMapRows_Nil [simp]: "meshMapRows [] seq = []"
  by (simp add: meshMapRows_def)

lemma strip_featureRows [simp]: "map stripFeature (featureRows vals seq) = vals"
  by (rule nth_equalityI)
     (simp_all add: featureRows_def stripFeature_def nth_enumerate_eq split: prod.splits)

lemma strip_meshMapRows [simp]: "map stripMesh (meshMapRows vals seq) = map dropFeatureId vals"
  by (rule nth_equalityI)
     (simp_all add: meshMapRows_def stripMesh_def dropFeatureId_def nth_enumerate_eq split: prod.splits)

lemma length_featureRows [simp]: "length (featureRows vals seq) = length vals"
  by (simp add: featureRows_def)

lemma length_meshMapRows [simp]: "length (meshMapRows vals seq) = length vals"
  by (simp add: meshMapRows_def)

lemma featureRows_ids:
  "r \<in> set (featureRows vals seq) \<Longrightarrow> seq \<le> row_id r \<and> row_id r < seq + length vals \<and> stripFeature r \<in> set vals"
  by (auto simp add: featureRows_def in_set_enumerate_eq stripFeature_def) (metis nth_mem)

lemma meshMapRows_fids:
  "r \<in> set (meshMapRows vals seq) \<Longrightarrow>
     \<exists>v \<in> set vals. feature_id r = fst (snd v) \<and> source_layer r = fst v"
  by (auto simp add: meshMapRows_def in_set_enumerate_eq) (metis nth_mem fst_conv snd_conv)

lemma cells_dynRowsOf [simp]: "map dyn_cells (dynRowsOf seq cols rows) = map (zip cols) rows"
  by (rule nth_equalityI) (simp_all add: dynRowsOf_def nth_enumerate_eq)

lemma appendCells_Nil [simp]: "appendCells name [] cells = cells"
  by (auto simp add: appendCells_def split: option.splits)

lemma appendCells_append:
  "appendCells name ys (appendCells name xs cells) = appendCells name (xs @ ys) cells"
  by (auto simp add: appendCells_def split: option.splits)

lemma cellsOf_insertDynamicStatement:
  "cellsOf (tables (insertDynamicStatement name cols chunk s))
   = appendCells name (map (zip cols) chunk) (cellsOf (tables s))"
proof (rule ext)
  fix x
  have "map dyn_cells (map (\<lambda>(k, vals). \<lparr>dyn_id = q + k, dyn_cells = zip cols vals\<rparr>)
          (enumerate 0 chunk)) = map (zip cols) chunk" for q
    using cells_dynRowsOf [of q cols chunk] by (simp add: dynRowsOf_def)
  then show "cellsOf (tables (insertDynamicStatement name cols chunk s)) x
        = appendCells name (map (zip cols) chunk) (cellsOf (tables s)) x"
    by (auto simp add: insertDynamicStatement_def Let_def cellsOf_def appendCells_def
        split: option.splits)
qed

lemma dom_insertDynamicStatement [simp]:
  "dom (tables (insertDynamicStatement name cols chunk s)) = dom (tables s)"
  by (auto simp add: insertDynamicStatement_def Let_def split: option.splits)

lemma insertDynamicStatement_fields [simp]:
  "mesh_index (insertDynamicStatement name cols chunk s) = mesh_index s"
  "point_features (insertDynamicStatement name cols chunk s) = point_features s"
  "line_features (insertDynamicStatement name cols chunk s) = line_features s"
  "polygon_features (insertDynamicStatement name cols chunk s) = polygon_features s"
  "line_mesh_map (insertDynamicStatement name cols chunk s) = line_mesh_map s"
  "polygon_mesh_map (insertDynamicStatement name cols chunk s) = polygon_mesh_map s"
  "layer_registry (insertDynamicStatement name cols chunk s) = layer_registry s"
  "point_features_seq (insertDynamicStatement name cols chunk s) = point_features_seq s"
  "line_features_seq (insertDynamicStatement name cols chunk s) = line_features_seq s"
  "polygon_features_seq (insertDynamicStatement name cols chunk s) = polygon_features_seq s"
  "line_mesh_map_seq (insertDynamicStatement name cols chunk s) = line_mesh_map_seq s"
  "polygon_mesh_map_seq (insertDynamicStatement name cols chunk s) = polygon_mesh_map_seq s"
  by (simp_all add: insertDynamicStatement_def Let_def split: option.splits)

lemma fold_cong_nonempty:
  assumes "\<And>c s. c \<noteq> [] \<Longrightarrow> body c s = body' c s" and "\<forall>c \<in> set cs. c \<noteq> []"
  shows "fold body cs s = fold body' cs s"
  using assms(2) by (induction cs arbitrary: s) (simp_all add: assms(1))

lemma forEachChunk_plain:
  assumes "\<And>c s. c \<noteq> [] \<Longrightarrow> body c s = body' c s"
  shows "forEachChunk rows body s = fold body' (chunksOf 500 rows) s"
proof -
  have "\<forall>c \<in> set (chunksOf 500 rows). c \<noteq> []"
    using chunksOf_lengths [of _ 500 rows] by fastforce
  then have "fold body (chunksOf 500 rows) s = fold body' (chunksOf 500 rows) s"
    using assms by (intro fold_cong_nonempty) simp_all
  then show ?thesis
    by (simp add: forEachChunk_fold INSERT_CHUNK_SIZE_def)
qed

lemma concat_chunksOf_500 [simp]: "concat (chunksOf 500 xs) = xs"
  by (simp add: concat_chunksOf)

lemma insertRowsDynamic_plain:
  "insertRowsDynamic name cols rows s
   = fold (insertDynamicStatement name cols) (chunksOf 500 rows) s"
  unfolding insertRowsDynamic_def by (rule forEachChunk_plain) simp

lemma cellsOf_fold_insertDynamic:
  "cellsOf (tables (fold (insertDynamicStatement name cols) cs s))
   = appendCells name (map (zip cols) (concat cs)) (cellsOf (tables s))"
  by (induction cs arbitrary: s)
     (simp_all add: cellsOf_insertDynamicStatement appendCells_append)

lemma cellsOf_insertRowsDynamic [simp]:
  "cellsOf (tables (insertRowsDynamic name cols rows s))
   = appendCells name (map (zip cols) rows) (cellsOf (tables s))"
  by (simp add: insertRowsDynamic_plain cellsOf_fold_insertDynamic)

lemma dom_fold_insertDynamic:
  "dom (tables (fold (insertDynamicStatement name cols) cs s)) = dom (tables s)"
  by (induction cs arbitrary: s) simp_all

lemma dom_insertRowsDynamic [simp]:
  "dom (tables (insertRowsDynamic name cols rows s)) = dom (tables s)"
  by (simp add: insertRowsDynamic_plain dom_fold_insertDynamic)

lemma insertRowsDynamic_fields [simp]:
  "mesh_index (insertRowsDynamic name cols rows s) = mesh_index s"
  "point_features (insertRowsDynamic name cols rows s) = point_features s"
  "line_features (insertRowsDynamic name cols rows s) = line_features s"
  "polygon_features (insertRowsDynamic name cols rows s) = polygon_features s"
  "line_mesh_map (insertRowsDynamic name cols rows s) = line_mesh_map s"
  "polygon_mesh_map (insertRowsDynamic name cols rows s) = polygon_mesh_map s"
  "layer_registry (insertRowsDynamic name cols rows s) = layer_registry s"
  "point_features_seq (insertRowsDynamic name cols rows s) = point_features_seq s"
  "line_features_seq (insertRowsDynamic name cols rows s) = line_features_seq s"
  "polygon_features_seq (insertRowsDynamic name cols rows s) = polygon_features_seq s"
  "line_mesh_map_seq (insertRowsDynamic name cols rows s) = line_mesh_map_seq s"
  "polygon_mesh_map_seq (insertRowsDynamic name cols rows s) = polygon_mesh_map_seq s"
  unfolding insertRowsDynamic_plain by (rule fold_frame, simp)+

lemma upsertIdx_fold:
  "fold (\<lambda>m idx. case idx m of
                    Some r \<Rightarrow> idx
                  | None \<Rightarrow> idx(m \<mapsto> \<lparr>has_points = False, has_lines = False,
                                        has_polygons = False, layer_presence = Map.empty\<rparr>))
        chunk idx = upsertIdx chunk idx"
proof (induction chunk arbitrary: idx)
  case Nil
  then show ?case by (auto simp add: upsertIdx_def split: option.splits)
next
  case (Cons m chunk)
  show ?case
    by (cases "idx m")
       (auto simp add: Cons upsertIdx_def defaultIndexRow_def split: option.splits)
qed

lemma upsertIdx_Nil [simp]: "upsertIdx [] idx = idx"
  by (auto simp add: upsertIdx_def split: option.splits)

lemma upsertIdx_append: "upsertIdx ys (upsertIdx xs idx) = upsertIdx (xs @ ys) idx"
  by (auto simp add: upsertIdx_def split: option.splits)

lemma insertMeshIndexStatement_fields [simp]:
  "mesh_index (insertMeshIndexStatement chunk s) = upsertIdx chunk (mesh_index s)"
  "point_features (insertMeshIndexStatement chunk s) = point_features s"
  "line_features (insertMeshIndexStatement chunk s) = line_features s"
  "polygon_features (insertMeshIndexStatement chunk s) = polygon_features s"
  "line_mesh_map (insertMeshIndexStatement chunk s) = line_mesh_map s"
  "polygon_mesh_map (insertMeshIndexStatement chunk s) = polygon_mesh_map s"
  "layer_registry (insertMeshIndexStatement chunk s) = layer_registry s"
  "tables (insertMeshIndexStatement chunk s) = tables s"
  "point_features_seq (insertMeshIndexStatement chunk s) = point_features_seq s"
  "line_features_seq (insertMeshIndexStatement chunk s) = line_features_seq s"
  "polygon_features_seq (insertMeshIndexStatement chunk s) = polygon_features_seq s"
  "line_mesh_map_seq (insertMeshIndexStatement chunk s) = line_mesh_map_seq s"
  "polygon_mesh_map_seq (insertMeshIndexStatement chunk s) = polygon_mesh_map_seq s"
  by (simp_all add: insertMeshIndexStatement_def upsertIdx_fold)

lemma mesh_index_fold_insertMeshIndexStatement:
  "mesh_index (fold insertMeshIndexStatement cs s) = upsertIdx (concat cs) (mesh_index s)"
  by (induction cs arbitrary: s) (simp_all add: upsertIdx_append)

lemma upsertMeshIndex_plain:
  "upsertMeshIndex meshIds s = fold insertMeshIndexStatement (chunksOf 500 meshIds) s"
proof (cases "meshIds = []")
  case True
  then show ?thesis by (simp add: upsertMeshIndex_def)
next
  case False
  have "forEachChunk meshIds insertMeshIndexStatement s
        = fold insertMeshIndexStatement (chunksOf 500 meshIds) s"
    by (rule forEachChunk_plain) simp
  with False show ?thesis by (simp add: upsertMeshIndex_def)
qed

lemma upsertMeshIndex_fields [simp]:
  "point_features (upsertMeshIndex meshIds s) = point_features s"
  "line_features (upsertMeshIndex meshIds s) = line_features s"
  "polygon_features (upsertMeshIndex meshIds s) = polygon_features s"
  "line_mesh_map (upsertMeshIndex meshIds s) = line_mesh_map s"
  "polygon_mesh_map (upsertMeshIndex meshIds s) = polygon_mesh_map s"
  "layer_registry (upsertMeshIndex meshIds s) = layer_registry s"
  "tables (upsertMeshIndex meshIds s) = tables s"
  "point_features_seq (upsertMeshIndex meshIds s) = point_features_seq s"
  "line_features_seq (upsertMeshIndex meshIds s) = line_features_seq s"
  "polygon_features_seq (upsertMeshIndex meshIds s) = polygon_features_seq s"
  "line_mesh_map_seq (upsertMeshIndex meshIds s) = line_mesh_map_seq s"
  "polygon_mesh_map_seq (upsertMeshIndex meshIds s) = polygon_mesh_map_seq s"
  unfolding upsertMeshIndex_plain by (rule fold_frame, simp)+

lemma mesh_index_upsertMeshIndex [simp]:
  "mesh_index (upsertMeshIndex meshIds s) = upsertIdx meshIds (mesh_index s)"
  by (simp add: upsertMeshIndex_plain mesh_index_fold_insertMeshIndexStatement)

lemma refreshIdx_Nil [simp]: "refreshIdx [] pf lm pm idx = idx"
  by (auto simp add: refreshIdx_def split: option.splits)

lemma removeIdx_Nil [simp]: "removeIdx name [] idx = idx"
  by (auto simp add: removeIdx_def split: option.splits)

lemma addIdx_Nil [simp]: "addIdx name [] idx = idx"
  by (auto simp add: addIdx_def split: option.splits)

lemma refreshMeshFlags_fields [simp]:
  "mesh_index (refreshMeshFlags meshIds s) = refreshIdx meshIds (point_features s) (line_mesh_map s) (polygon_mesh_map s) (mesh_index s)"
  "point_features (refreshMeshFlags meshIds s) = point_features s"
  "line_features (refreshMeshFlags meshIds s) = line_features s"
  "polygon_features (refreshMeshFlags meshIds s) = polygon_features s"
  "line_mesh_map (refreshMeshFlags meshIds s) = line_mesh_map s"
  "polygon_mesh_map (refreshMeshFlags meshIds s) = polygon_mesh_map s"
  "layer_registry (refreshMeshFlags meshIds s) = layer_registry s"
  "tables (refreshMeshFlags meshIds s) = tables s"
  "point_features_seq (refreshMeshFlags meshIds s) = point_features_seq s"
  "line_features_seq (refreshMeshFlags meshIds s) = line_features_seq s"
  "polygon_features_seq (refreshMeshFlags meshIds s) = polygon_features_seq s"
  "line_mesh_map_seq (refreshMeshFlags meshIds s) = line_mesh_map_seq s"
  "polygon_mesh_map_seq (refreshMeshFlags meshIds s) = polygon_mesh_map_seq s"
  by (auto simp add: refreshMeshFlags_def refreshIdx_def split: option.splits intro!: ext)

lemma removeLayerPresence_fields [simp]:
  "mesh_index (removeLayerPresence name meshIds s) = removeIdx name meshIds (mesh_index s)"
  "point_features (removeLayerPresence name meshIds s) = point_features s"
  "line_features (removeLayerPresence name meshIds s) = line_features s"
  "polygon_features (removeLayerPresence name meshIds s) = polygon_features s"
  "line_mesh_map (removeLayerPresence name meshIds s) = line_mesh_map s"
  "polygon_mesh_map (removeLayerPresence name meshIds s) = polygon_mesh_map s"
  "layer_registry (removeLayerPresence name meshIds s) = layer_registry s"
  "tables (removeLayerPresence name meshIds s) = tables s"
  "point_features_seq (removeLayerPresence name meshIds s) = point_features_seq s"
  "line_features_seq (removeLayerPresence name meshIds s) = line_features_seq s"
  "polygon_features_seq (removeLayerPresence name meshIds s) = polygon_features_seq s"
  "line_mesh_map_seq (removeLayerPresence name meshIds s) = line_mesh_map_seq s"
  "polygon_mesh_map_seq (removeLayerPresence name meshIds s) = polygon_mesh_map_seq s"
  by (auto simp add: removeLayerPresence_def removeIdx_def split: option.splits intro!: ext)

lemma addLayerPresence_fields [simp]:
  "mesh_index (addLayerPresence name meshIds s) = addIdx name meshIds (mesh_index s)"
  "point_features (addLayerPresence name meshIds s) = point_features s"
  "line_features (addLayerPresence name meshIds s) = line_features s"
  "polygon_features (addLayerPresence name meshIds s) = polygon_features s"
  "line_mesh_map (addLayerPresence name meshIds s) = line_mesh_map s"
  "polygon_mesh_map (addLayerPresence name meshIds s) = polygon_mesh_map s"
  "layer_registry (addLayerPresence name meshIds s) = layer_registry s"
  "tables (addLayerPresence name meshIds s) = tables s"
  "point_features_seq (addLayerPresence name meshIds s) = point_features_seq s"
  "line_features_seq (addLayerPresence name meshIds s) = line_features_seq s"
  "polygon_features_seq (addLayerPresence name meshIds s) = polygon_features_seq s"
  "line_mesh_map_seq (addLayerPresence name meshIds s) = line_mesh_map_seq s"
  "polygon_mesh_map_seq (addLayerPresence name meshIds s) = polygon_mesh_map_seq s"
  by (auto simp add: addLayerPresence_def addIdx_def split: option.splits intro!: ext)

lemma dropTable_fields [simp]:
  "mesh_index (dropTable name s) = mesh_index s"
  "point_features (dropTable name s) = point_features s"
  "line_features (dropTable name s) = line_features s"
  "polygon_features (dropTable name s) = polygon_features s"
  "line_mesh_map (dropTable name s) = line_mesh_map s"
  "polygon_mesh_map (dropTable name s) = polygon_mesh_map s"
  "layer_registry (dropTable name s) = layer_registry s"
  "tables (dropTable name s) = (tables s)(name := None)"
  "point_features_seq (dropTable name s) = point_features_seq s"
  "line_features_seq (dropTable name s) = line_features_seq s"
  "polygon_features_seq (dropTable name s) = polygon_features_seq s"
  "line_mesh_map_seq (dropTable name s) = line_mesh_map_seq s"
  "polygon_mesh_map_seq (dropTable name s) = polygon_mesh_map_seq s"
  by (auto simp add: dropTable_def tableExists_def)

lemma deleteFrom_fields [simp]:
  "mesh_index (deleteFrom name s) = mesh_index s"
  "point_features (deleteFrom name s) = point_features s"
  "line_features (deleteFrom name s) = line_features s"
  "polygon_features (deleteFrom name s) = polygon_features s"
  "line_mesh_map (deleteFrom name s) = line_mesh_map s"
  "polygon_mesh_map (deleteFrom name s) = polygon_mesh_map s"
  "layer_registry (deleteFrom name s) = layer_registry s"
  "point_features_seq (deleteFrom name s) = point_features_seq s"
  "line_features_seq (deleteFrom name s) = line_features_seq s"
  "polygon_features_seq (deleteFrom name s) = polygon_features_seq s"
  "line_mesh_map_seq (deleteFrom name s) = line_mesh_map_seq s"
  "polygon_mesh_map_seq (deleteFrom name s) = polygon_mesh_map_seq s"
  by (simp_all add: deleteFrom_def split: option.splits)

lemma createTableIfNotExists_fields [simp]:
  "mesh_index (createTableIfNotExists name s) = mesh_index s"
  "point_features (createTableIfNotExists name s) = point_features s"
  "line_features (createTableIfNotExists name s) = line_features s"
  "polygon_features (createTableIfNotExists name s) = polygon_features s"
  "line_mesh_map (createTableIfNotExists name s) = line_mesh_map s"
  "polygon_mesh_map (createTableIfNotExists name s) = polygon_mesh_map s"
  "layer_registry (createTableIfNotExists name s) = layer_registry s"
  "point_features_seq (createTableIfNotExists name s) = point_features_seq s"
  "line_features_seq (createTableIfNotExists name s) = line_features_seq s"
  "polygon_features_seq (createTableIfNotExists name s) = polygon_features_seq s"
  "line_mesh_map_seq (createTableIfNotExists name s) = line_mesh_map_seq s"
  "polygon_mesh_map_seq (createTableIfNotExists name s) = polygon_mesh_map_seq s"
  by (simp_all add: createTableIfNotExists_def split: option.splits)

lemma cellsOf_upd_None [simp]: "cellsOf (tabs(name := None)) = (cellsOf tabs)(name := None)"
  by (auto simp add: cellsOf_def)

lemma cellsOf_deleteFrom [simp]:
  "cellsOf (tables (deleteFrom name s)) = clearCells name (cellsOf (tables s))"
  by (auto simp add: deleteFrom_def cellsOf_def clearCells_def split: option.splits)

lemma cellsOf_createTableIfNotExists [simp]:
  "cellsOf (tables (createTableIfNotExists name s)) = createCells name (cellsOf (tables s))"
  by (auto simp add: createTableIfNotExists_def cellsOf_def createCells_def split: option.splits)

lemma deleteLayerTables_fields [simp]:
  "mesh_index (deleteLayerTables def s) = mesh_index s"
  "point_features (deleteLayerTables def s) = point_features s"
  "line_features (deleteLayerTables def s) = line_features s"
  "polygon_features (deleteLayerTables def s) = polygon_features s"
  "line_mesh_map (deleteLayerTables def s) = line_mesh_map s"
  "polygon_mesh_map (deleteLayerTables def s) = polygon_mesh_map s"
  "layer_registry (deleteLayerTables def s) = layer_registry s"
  "point_features_seq (deleteLayerTables def s) = point_features_seq s"
  "line_features_seq (deleteLayerTables def s) = line_features_seq s"
  "polygon_features_seq (deleteLayerTables def s) = polygon_features_seq s"
  "line_mesh_map_seq (deleteLayerTables def s) = line_mesh_map_seq s"
  "polygon_mesh_map_seq (deleteLayerTables def s) = polygon_mesh_map_seq s"
  by (simp_all add: deleteLayerTables_def Let_def split: option.splits)

lemma ensureLayerTables_fields [simp]:
  "mesh_index (ensureLayerTables def s) = mesh_index s"
  "point_features (ensureLayerTables def s) = point_features s"
  "line_features (ensureLayerTables def s) = line_features s"
  "polygon_features (ensureLayerTables def s) = polygon_features s"
  "line_mesh_map (ensureLayerTables def s) = line_mesh_map s"
  "polygon_mesh_map (ensureLayerTables def s) = polygon_mesh_map s"
  "layer_registry (ensureLayerTables def s) = layer_registry s"
  "point_features_seq (ensureLayerTables def s) = point_features_seq s"
  "line_features_seq (ensureLayerTables def s) = line_features_seq s"
  "polygon_features_seq (ensureLayerTables def s) = polygon_features_seq s"
  "line_mesh_map_seq (ensureLayerTables def s) = line_mesh_map_seq s"
  "polygon_mesh_map_seq (ensureLayerTables def s) = polygon_mesh_map_seq s"
  by (simp_all add: ensureLayerTables_def Let_def split: option.splits)



lemma upsertLayerRegistry_fields [simp]:
  "mesh_index (upsertLayerRegistry def s) = mesh_index s"
  "point_features (upsertLayerRegistry def s) = point_features s"
  "line_features (upsertLayerRegistry def s) = line_features s"
  "polygon_features (upsertLayerRegistry def s) = polygon_features s"
  "line_mesh_map (upsertLayerRegistry def s) = line_mesh_map s"
  "polygon_mesh_map (upsertLayerRegistry def s) = polygon_mesh_map s"
  "tables (upsertLayerRegistry def s) = tables s"
  "point_features_seq (upsertLayerRegistry def s) = point_features_seq s"
  "line_features_seq (upsertLayerRegistry def s) = line_features_seq s"
  "polygon_features_seq (upsertLayerRegistry def s) = polygon_features_seq s"
  "line_mesh_map_seq (upsertLayerRegistry def s) = line_mesh_map_seq s"
  "polygon_mesh_map_seq (upsertLayerRegistry def s) = polygon_mesh_map_seq s"
  by (simp_all add: upsertLayerRegistry_def Let_def)

lemma deleteGenericRows_fields [simp]:
  "mesh_index (deleteGenericRows name s) = mesh_index s"
  "point_features (deleteGenericRows name s) = filter (\<lambda>r. source_layer r \<noteq> name) (point_features s)"
  "line_features (deleteGenericRows name s) = filter (\<lambda>r. source_layer r \<noteq> name) (line_features s)"
  "polygon_features (deleteGenericRows name s) = filter (\<lambda>r. source_layer r \<noteq> name) (polygon_features s)"
  "layer_registry (deleteGenericRows name s) = layer_registry s"
  "tables (deleteGenericRows name s) = tables s"
  "point_features_seq (deleteGenericRows name s) = point_features_seq s"
  "line_features_seq (deleteGenericRows name s) = line_features_seq s"
  "polygon_features_seq (deleteGenericRows name s) = polygon_features_seq s"
  "line_mesh_map_seq (deleteGenericRows name s) = line_mesh_map_seq s"
  "polygon_mesh_map_seq (deleteGenericRows name s) = polygon_mesh_map_seq s"
  by (simp_all add: deleteGenericRows_def Let_def)

lemma insertPointFeatures_fields [simp]:
  "mesh_index (insertPointFeatures vals s) = mesh_index s"
  "point_features (insertPointFeatures vals s) = point_features s @ featureRows vals (point_features_seq s)"
  "line_features (insertPointFeatures vals s) = line_features s"
  "polygon_features (insertPointFeatures vals s) = polygon_features s"
  "line_mesh_map (insertPointFeatures vals s) = line_mesh_map s"
  "polygon_mesh_map (insertPointFeatures vals s) = polygon_mesh_map s"
  "layer_registry (insertPointFeatures vals s) = layer_registry s"
  "tables (insertPointFeatures vals s) = tables s"
  "point_features_seq (insertPointFeatures vals s) = point_features_seq s + length vals"
  "line_features_seq (insertPointFeatures vals s) = line_features_seq s"
  "polygon_features_seq (insertPointFeatures vals s) = polygon_features_seq s"
  "line_mesh_map_seq (insertPointFeatures vals s) = line_mesh_map_seq s"
  "polygon_mesh_map_seq (insertPointFeatures vals s) = polygon_mesh_map_seq s"
  by (simp_all add: insertPointFeatures_def)

lemma insertLineMeshMap_fields [simp]:
  "mesh_index (insertLineMeshMap vals s) = mesh_index s"
  "point_features (insertLineMeshMap vals s) = point_features s"
  "line_features (insertLineMeshMap vals s) = line_features s"
  "polygon_features (insertLineMeshMap vals s) = polygon_features s"
  "line_mesh_map (insertLineMeshMap vals s) = line_mesh_map s @ meshMapRows vals (line_mesh_map_seq s)"
  "polygon_mesh_map (insertLineMeshMap vals s) = polygon_mesh_map s"
  "layer_registry (insertLineMeshMap vals s) = layer_registry s"
  "tables (insertLineMeshMap vals s) = tables s"
  "point_features_seq (insertLineMeshMap vals s) = point_features_seq s"
  "line_features_seq (insertLineMeshMap vals s) = line_features_seq s"
  "polygon_features_seq (insertLineMeshMap vals s) = polygon_features_seq s"
  "line_mesh_map_seq (insertLineMeshMap vals s) = line_mesh_map_seq s + length vals"
  "polygon_mesh_map_seq (insertLineMeshMap vals s) = polygon_mesh_map_seq s"
  by (simp_all add: insertLineMeshMap_def)

lemma insertPolygonMeshMap_fields [simp]:
  "mesh_index (insertPolygonMeshMap vals s) = mesh_index s"
  "point_features (insertPolygonMeshMap vals s) = point_features s"
  "line_features (insertPolygonMeshMap vals s) = line_features s"
  "polygon_features (insertPolygonMeshMap vals s) = polygon_features s"
  "line_mesh_map (insertPolygonMeshMap vals s) = line_mesh_map s"
  "polygon_mesh_map (insertPolygonMeshMap vals s) = polygon_mesh_map s @ meshMapRows vals (polygon_mesh_map_seq s)"
  "layer_registry (insertPolygonMeshMap vals s) = layer_registry s"
  "tables (insertPolygonMeshMap vals s) = tables s"
  "point_features_seq (insertPolygonMeshMap vals s) = point_features_seq s"
  "line_features_seq (insertPolygonMeshMap vals s) = line_features_seq s"
  "polygon_features_seq (insertPolygonMeshMap vals s) = polygon_features_seq s"
  "line_mesh_map_seq (insertPolygonMeshMap vals s) = line_mesh_map_seq s"
  "polygon_mesh_map_seq (insertPolygonMeshMap vals s) = polygon_mesh_map_seq s + length vals"
  by (simp_all add: insertPolygonMeshMap_def)

lemma insertLineFeatures_fields [simp]:
  "mesh_index (snd (insertLineFeatures vals s)) = mesh_index s"
  "point_features (snd (insertLineFeatures vals s)) = point_features s"
  "line_features (snd (insertLineFeatures vals s)) = line_features s @ featureRows vals (line_features_seq s)"
  "polygon_features (snd (insertLineFeatures vals s)) = polygon_features s"
  "line_mesh_map (snd (insertLineFeatures vals s)) = line_mesh_map s"
  "polygon_mesh_map (snd (insertLineFeatures vals s)) = polygon_mesh_map s"
  "layer_registry (snd (insertLineFeatures vals s)) = layer_registry s"
  "tables (snd (insertLineFeatures vals s)) = tables s"
  "point_features_seq (snd (insertLineFeatures vals s)) = point_features_seq s"
  "line_features_seq (snd (insertLineFeatures vals s)) = line_features_seq s + length vals"
  "polygon_features_seq (snd (insertLineFeatures vals s)) = polygon_features_seq s"
  "line_mesh_map_seq (snd (insertLineFeatures vals s)) = line_mesh_map_seq s"
  "polygon_mesh_map_seq (snd (insertLineFeatures vals s)) = polygon_mesh_map_seq s"
  by (simp_all add: insertLineFeatures_def)

lemma insertPolygonFeatures_fields [simp]:
  "mesh_index (snd (insertPolygonFeatures vals s)) = mesh_index s"
  "point_features (snd (insertPolygonFeatures vals s)) = point_features s"
  "line_features (snd (insertPolygonFeatures vals s)) = line_features s"
  "polygon_features (snd (insertPolygonFeatures vals s)) = polygon_features s @ featureRows vals (polygon_features_seq s)"
  "line_mesh_map (snd (insertPolygonFeatures vals s)) = line_mesh_map s"
  "polygon_mesh_map (snd (insertPolygonFeatures vals s)) = polygon_mesh_map s"
  "layer_registry (snd (insertPolygonFeatures vals s)) = layer_registry s"
  "tables (snd (insertPolygonFeatures vals s)) = tables s"
  "point_features_seq (snd (insertPolygonFeatures vals s)) = point_features_seq s"
  "line_features_seq (snd (insertPolygonFeatures vals s)) = line_features_seq s"
  "polygon_features_seq (snd (insertPolygonFeatures vals s)) = polygon_features_seq s + length vals"
  "line_mesh_map_seq (snd (insertPolygonFeatures vals s)) = line_mesh_map_seq s"
  "polygon_mesh_map_seq (snd (insertPolygonFeatures vals s)) = polygon_mesh_map_seq s"
  by (simp_all add: insertPolygonFeatures_def)

lemma fst_insertLineFeatures [simp]:
  "fst (insertLineFeatures vals s) = map (\<lambda>k. line_features_seq s + k) [0..<length vals]"
  by (simp add: insertLineFeatures_def)

lemma fst_insertPolygonFeatures [simp]:
  "fst (insertPolygonFeatures vals s) = map (\<lambda>k. polygon_features_seq s + k) [0..<length vals]"
  by (simp add: insertPolygonFeatures_def)

lemma integrity_frame:
  assumes "integrity s"
    and "line_features s' = line_features s" and "line_mesh_map s' = line_mesh_map s"
    and "polygon_features s' = polygon_features s" and "polygon_mesh_map s' = polygon_mesh_map s"
    and "line_features_seq s' = line_features_seq s"
    and "polygon_features_seq s' = polygon_features_seq s"
  shows "integrity s'"
  using assms by (simp add: integrity_def serialsAhead_def linked_def)





lemma dropFeatureId_concat:
  assumes "length ids = length chunk"
  shows "map dropFeatureId (concat (map (\<lambda>(rowId, item). map (\<lambda>piece. (name, rowId, g piece item)) (pieces item))
                                     (zip ids chunk)))
         = concat (map (\<lambda>item. map (\<lambda>piece. (name, g piece item)) (pieces item)) chunk)"
  using assms
proof (induction chunk arbitrary: ids)
  case Nil
  then show ?case by simp
next
  case (Cons item chunk)
  then obtain i rest where "ids = i # rest" and "length rest = length chunk"
    by (cases ids) auto
  then show ?case using Cons.IH [of rest] by (simp add: dropFeatureId_def comp_def)
qed

lemma generic_rows_ids:
  assumes "v \<in> set (concat (map (\<lambda>(rowId, item). map (\<lambda>piece. (name, rowId, g piece item)) (pieces item))
                                (zip (map (\<lambda>k. seq + k) [0..<length chunk]) chunk)))"
  shows "fst v = name \<and> seq \<le> fst (snd v) \<and> fst (snd v) < seq + length chunk"
proof -
  from assms obtain rowId item where "(rowId, item) \<in> set (zip (map (\<lambda>k. seq + k) [0..<length chunk]) chunk)"
    and v: "v \<in> set (map (\<lambda>piece. (name, rowId, g piece item)) (pieces item))"
    by auto
  then have "rowId \<in> set (map (\<lambda>k. seq + k) [0..<length chunk])"
    by (meson set_zip_leftD)
  then have "seq \<le> rowId \<and> rowId < seq + length chunk" by auto
  with v show ?thesis by auto
qed

lemma drop_lineGenericMeshRows [simp]:
  "map dropFeatureId (lineGenericMeshRows name seq chunk) = lineMapValues name chunk"
  unfolding lineGenericMeshRows_def lineMapValues_def
  by (rule dropFeatureId_concat [where g = "\<lambda>piece item. (meshId piece, geometry piece, properties item,
        lengthM piece, lengthRatio piece)"]) simp

lemma drop_polygonGenericMeshRows [simp]:
  "map dropFeatureId (polygonGenericMeshRows name seq chunk) = polygonMapValues name chunk"
  unfolding polygonGenericMeshRows_def polygonMapValues_def
  by (rule dropFeatureId_concat [where g = "\<lambda>piece item. (meshId piece, geometry piece, properties item,
        areaM2 piece, areaRatio piece)"]) simp

lemma lineGenericMeshRows_ids:
  "v \<in> set (lineGenericMeshRows name seq chunk) \<Longrightarrow>
     fst v = name \<and> seq \<le> fst (snd v) \<and> fst (snd v) < seq + length chunk"
  unfolding lineGenericMeshRows_def
  by (rule generic_rows_ids [where g = "\<lambda>piece item. (meshId piece, geometry piece, properties item,
        lengthM piece, lengthRatio piece)"])

lemma polygonGenericMeshRows_ids:
  "v \<in> set (polygonGenericMeshRows name seq chunk) \<Longrightarrow>
     fst v = name \<and> seq \<le> fst (snd v) \<and> fst (snd v) < seq + length chunk"
  unfolding polygonGenericMeshRows_def
  by (rule generic_rows_ids [where g = "\<lambda>piece item. (meshId piece, geometry piece, properties item,
        areaM2 piece, areaRatio piece)"])

lemma fold_insertLineMeshMap:
  "line_mesh_map (fold insertLineMeshMap cs s)
     = line_mesh_map s @ meshMapRows (concat cs) (line_mesh_map_seq s)"
  "line_mesh_map_seq (fold insertLineMeshMap cs s) = line_mesh_map_seq s + length (concat cs)"
  by (induction cs arbitrary: s) (simp_all add: meshMapRows_append)

lemma lineChunkBody_unfold:
  "lineChunkBody def m chunk s
   = insertRowsDynamic m [''mesh_id'', ''geometry'', ''properties'', ''length_m'', ''length_ratio'']
       (lineMapCells chunk)
       (fold insertLineMeshMap
          (chunksOf 500 (lineGenericMeshRows (layerName def) (line_features_seq s) chunk))
          (snd (insertLineFeatures (lineFeatureValues (layerName def) chunk) s)))"
proof -
  have "forEachChunk rows (\<lambda>meshChunk s. if length meshChunk > 0 then insertLineMeshMap meshChunk s else s) t
        = fold insertLineMeshMap (chunksOf 500 rows) t" for rows t
    by (rule forEachChunk_plain) simp
  then show ?thesis
    by (simp add: lineChunkBody_def Let_def insertLineFeatures_def lineMapCells_def
        lineGenericMeshRows_def lineFeatureValues_def)
qed

lemma fold_insertLineMeshMap_fields [simp]:
  "mesh_index (fold insertLineMeshMap cs s) = mesh_index s"
  "point_features (fold insertLineMeshMap cs s) = point_features s"
  "line_features (fold insertLineMeshMap cs s) = line_features s"
  "polygon_features (fold insertLineMeshMap cs s) = polygon_features s"
  "polygon_mesh_map (fold insertLineMeshMap cs s) = polygon_mesh_map s"
  "layer_registry (fold insertLineMeshMap cs s) = layer_registry s"
  "tables (fold insertLineMeshMap cs s) = tables s"
  "point_features_seq (fold insertLineMeshMap cs s) = point_features_seq s"
  "line_features_seq (fold insertLineMeshMap cs s) = line_features_seq s"
  "polygon_features_seq (fold insertLineMeshMap cs s) = polygon_features_seq s"
  "polygon_mesh_map_seq (fold insertLineMeshMap cs s) = polygon_mesh_map_seq s"
  by (rule fold_frame, simp)+

lemma lineChunkBody_fields [simp]:
  "mesh_index (lineChunkBody def m chunk s) = mesh_index s"
  "point_features (lineChunkBody def m chunk s) = point_features s"
  "line_features (lineChunkBody def m chunk s) = line_features s @ featureRows (lineFeatureValues (layerName def) chunk) (line_features_seq s)"
  "polygon_features (lineChunkBody def m chunk s) = polygon_features s"
  "line_mesh_map (lineChunkBody def m chunk s) = line_mesh_map s @ meshMapRows (lineGenericMeshRows (layerName def) (line_features_seq s) chunk) (line_mesh_map_seq s)"
  "polygon_mesh_map (lineChunkBody def m chunk s) = polygon_mesh_map s"
  "layer_registry (lineChunkBody def m chunk s) = layer_registry s"
  "point_features_seq (lineChunkBody def m chunk s) = point_features_seq s"
  "line_features_seq (lineChunkBody def m chunk s) = line_features_seq s + length chunk"
  "polygon_features_seq (lineChunkBody def m chunk s) = polygon_features_seq s"
  "polygon_mesh_map_seq (lineChunkBody def m chunk s) = polygon_mesh_map_seq s"
  by (simp_all add: lineChunkBody_unfold fold_insertLineMeshMap lineFeatureValues_def)

lemma cellsOf_lineChunkBody [simp]:
  "cellsOf (tables (lineChunkBody def m chunk s))
   = appendCells m (map (zip [''mesh_id'', ''geometry'', ''properties'', ''length_m'', ''length_ratio''])
                        (lineMapCells chunk)) (cellsOf (tables s))"
  by (simp add: lineChunkBody_unfold)

lemma dom_lineChunkBody [simp]:
  "dom (tables (lineChunkBody def m chunk s)) = dom (tables s)"
  by (simp add: lineChunkBody_unfold)

lemma integrity_lineChunkBody:
  assumes "integrity s"
  shows "integrity (lineChunkBody def m chunk s)"
proof -
  let ?n = "layerName def"
  let ?seq = "line_features_seq s"
  have new_f: "?seq \<le> row_id r \<and> row_id r < ?seq + length chunk \<and> source_layer r = ?n"
    if "r \<in> set (featureRows (lineFeatureValues ?n chunk) ?seq)" for r
    using featureRows_ids [OF that]
    by (auto simp add: lineFeatureValues_def stripFeature_def)
  have new_m: "?seq \<le> feature_id r \<and> feature_id r < ?seq + length chunk \<and> source_layer r = ?n"
    if "r \<in> set (meshMapRows (lineGenericMeshRows ?n ?seq chunk) q)" for r q
    using meshMapRows_fids [OF that] lineGenericMeshRows_ids [of _ ?n ?seq chunk] by auto
  show ?thesis
    using assms unfolding integrity_def serialsAhead_def linked_def
    apply (simp add: ball_Un)
    apply (intro conjI ballI impI)
    using new_f new_m apply (fastforce simp add: less_imp_le)+
    done
qed

lemma lineFeatureValues_append:
  "lineFeatureValues name (xs @ ys) = lineFeatureValues name xs @ lineFeatureValues name ys"
  by (simp add: lineFeatureValues_def)

lemma lineMapValues_append:
  "lineMapValues name (xs @ ys) = lineMapValues name xs @ lineMapValues name ys"
  by (simp add: lineMapValues_def)

lemma lineMapCells_append:
  "lineMapCells (xs @ ys) = lineMapCells xs @ lineMapCells ys"
  by (simp add: lineMapCells_def)

lemma fold_lineChunkBody:
  "map stripFeature (line_features (fold (lineChunkBody def m) cs s))
     = map stripFeature (line_features s) @ lineFeatureValues (layerName def) (concat cs)"
  "map stripMesh (line_mesh_map (fold (lineChunkBody def m) cs s))
     = map stripMesh (line_mesh_map s) @ lineMapValues (layerName def) (concat cs)"
  "cellsOf (tables (fold (lineChunkBody def m) cs s))
     = appendCells m (map (zip [''mesh_id'', ''geometry'', ''properties'', ''length_m'', ''length_ratio''])
                        (lineMapCells (concat cs))) (cellsOf (tables s))"
  "dom (tables (fold (lineChunkBody def m) cs s)) = dom (tables s)"
  "integrity s \<Longrightarrow> integrity (fold (lineChunkBody def m) cs s)"
proof (induction cs arbitrary: s)
  case Nil
  {
    case 1 show ?case by (simp add: lineFeatureValues_def)
  next
    case 2 show ?case by (simp add: lineMapValues_def)
  next
    case 3 show ?case by (simp add: lineMapCells_def)
  next
    case 4 show ?case by simp
  next
    case 5 then show ?case by simp
  }
next
  case (Cons c cs)
  {
    case 1 show ?case by (simp add: Cons.IH(1) lineFeatureValues_append)
  next
    case 2 show ?case by (simp add: Cons.IH(2) lineMapValues_append)
  next
    case 3 show ?case by (simp add: Cons.IH(3) lineMapCells_append appendCells_append)
  next
    case 4 show ?case by (simp add: Cons.IH(4))
  next
    case 5 then show ?case by (simp add: Cons.IH(5) integrity_lineChunkBody)
  }
qed

lemma fold_lineChunkBody_fields [simp]:
  "mesh_index (fold (lineChunkBody def m) cs s) = mesh_index s"
  "point_features (fold (lineChunkBody def m) cs s) = point_features s"
  "polygon_features (fold (lineChunkBody def m) cs s) = polygon_features s"
  "polygon_mesh_map (fold (lineChunkBody def m) cs s) = polygon_mesh_map s"
  "layer_registry (fold (lineChunkBody def m) cs s) = layer_registry s"
  "point_features_seq (fold (lineChunkBody def m) cs s) = point_features_seq s"
  "polygon_features_seq (fold (lineChunkBody def m) cs s) = polygon_features_seq s"
  "polygon_mesh_map_seq (fold (lineChunkBody def m) cs s) = polygon_mesh_map_seq s"
  by (rule fold_frame, simp)+

lemma fold_insertPolygonMeshMap:
  "polygon_mesh_map (fold insertPolygonMeshMap cs s)
     = polygon_mesh_map s @ meshMapRows (concat cs) (polygon_mesh_map_seq s)"
  "polygon_mesh_map_seq (fold insertPolygonMeshMap cs s) = polygon_mesh_map_seq s + length (concat cs)"
  by (induction cs arbitrary: s) (simp_all add: meshMapRows_append)

lemma polygonChunkBody_unfold:
  "polygonChunkBody def m chunk s
   = insertRowsDynamic m [''mesh_id'', ''geometry'', ''properties'', ''area_m2'', ''area_ratio'']
       (polygonMapCells chunk)
       (fold insertPolygonMeshMap
          (chunksOf 500 (polygonGenericMeshRows (layerName def) (polygon_features_seq s) chunk))
          (snd (insertPolygonFeatures (polygonFeatureValues (layerName def) chunk) s)))"
proof -
  have "forEachChunk rows (\<lambda>meshChunk s. if length meshChunk > 0 then insertPolygonMeshMap meshChunk s else s) t
        = fold insertPolygonMeshMap (chunksOf 500 rows) t" for rows t
    by (rule forEachChunk_plain) simp
  then show ?thesis
    by (simp add: polygonChunkBody_def Let_def insertPolygonFeatures_def polygonMapCells_def
        polygonGenericMeshRows_def polygonFeatureValues_def)
qed

lemma fold_insertPolygonMeshMap_fields [simp]:
  "mesh_index (fold insertPolygonMeshMap cs s) = mesh_index s"
  "point_features (fold insertPolygonMeshMap cs s) = point_features s"
  "line_features (fold insertPolygonMeshMap cs s) = line_features s"
  "polygon_features (fold insertPolygonMeshMap cs s) = polygon_features s"
  "line_mesh_map (fold insertPolygonMeshMap cs s) = line_mesh_map s"
  "layer_registry (fold insertPolygonMeshMap cs s) = layer_registry s"
  "tables (fold insertPolygonMeshMap cs s) = tables s"
  "point_features_seq (fold insertPolygonMeshMap cs s) = point_features_seq s"
  "line_features_seq (fold insertPolygonMeshMap cs s) = line_features_seq s"
  "polygon_features_seq (fold insertPolygonMeshMap cs s) = polygon_features_seq s"
  "line_mesh_map_seq (fold insertPolygonMeshMap cs s) = line_mesh_map_seq s"
  by (rule fold_frame, simp)+

lemma polygonChunkBody_fields [simp]:
  "mesh_index (polygonChunkBody def m chunk s) = mesh_index s"
  "point_features (polygonChunkBody def m chunk s) = point_features s"
  "line_features (polygonChunkBody def m chunk s) = line_features s"
  "polygon_features (polygonChunkBody def m chunk s) = polygon_features s @ featureRows (polygonFeatureValues (layerName def) chunk) (polygon_features_seq s)"
  "line_mesh_map (polygonChunkBody def m chunk s) = line_mesh_map s"
  "polygon_mesh_map (polygonChunkBody def m chunk s) = polygon_mesh_map s @ meshMapRows (polygonGenericMeshRows (layerName def) (polygon_features_seq s) chunk) (polygon_mesh_map_seq s)"
  "layer_registry (polygonChunkBody def m chunk s) = layer_registry s"
  "point_features_seq (polygonChunkBody def m chunk s) = point_features_seq s"
  "line_features_seq (polygonChunkBody def m chunk s) = line_features_seq s"
  "polygon_features_seq (polygonChunkBody def m chunk s) = polygon_features_seq s + length chunk"
  "line_mesh_map_seq (polygonChunkBody def m chunk s) = line_mesh_map_seq s"
  by (simp_all add: polygonChunkBody_unfold fold_insertPolygonMeshMap polygonFeatureValues_def)

lemma cellsOf_polygonChunkBody [simp]:
  "cellsOf (tables (polygonChunkBody def m chunk s))
   = appendCells m (map (zip [''mesh_id'', ''geometry'', ''properties'', ''area_m2'', ''area_ratio''])
                        (polygonMapCells chunk)) (cellsOf (tables s))"
  by (simp add: polygonChunkBody_unfold)

lemma dom_polygonChunkBody [simp]:
  "dom (tables (polygonChunkBody def m chunk s)) = dom (tables s)"
  by (simp add: polygonChunkBody_unfold)

lemma integrity_polygonChunkBody:
  assumes "integrity s"
  shows "integrity (polygonChunkBody def m chunk s)"
proof -
  let ?n = "layerName def"
  let ?seq = "polygon_features_seq s"
  have new_f: "?seq \<le> row_id r \<and> row_id r < ?seq + length chunk \<and> source_layer r = ?n"
    if "r \<in> set (featureRows (polygonFeatureValues ?n chunk) ?seq)" for r
    using featureRows_ids [OF that]
    by (auto simp add: polygonFeatureValues_def stripFeature_def)
  have new_m: "?seq \<le> feature_id r \<and> feature_id r < ?seq + length chunk \<and> source_layer r = ?n"
    if "r \<in> set (meshMapRows (polygonGenericMeshRows ?n ?seq chunk) q)" for r q
    using meshMapRows_fids [OF that] polygonGenericMeshRows_ids [of _ ?n ?seq chunk] by auto
  show ?thesis
    using assms unfolding integrity_def serialsAhead_def linked_def
    apply (simp add: ball_Un)
    apply (intro conjI ballI impI)
    using new_f new_m apply (fastforce simp add: less_imp_le)+
    done
qed

lemma polygonFeatureValues_append:
  "polygonFeatureValues name (xs @ ys) = polygonFeatureValues name xs @ polygonFeatureValues name ys"
  by (simp add: polygonFeatureValues_def)

lemma polygonMapValues_append:
  "polygonMapValues name (xs @ ys) = polygonMapValues name xs @ polygonMapValues name ys"
  by (simp add: polygonMapValues_def)

lemma polygonMapCells_append:
  "polygonMapCells (xs @ ys) = polygonMapCells xs @ polygonMapCells ys"
  by (simp add: polygonMapCells_def)

lemma fold_polygonChunkBody:
  "map stripFeature (polygon_features (fold (polygonChunkBody def m) cs s))
     = map stripFeature (polygon_features s) @ polygonFeatureValues (layerName def) (concat cs)"
  "map stripMesh (polygon_mesh_map (fold (polygonChunkBody def m) cs s))
     = map stripMesh (polygon_mesh_map s) @ polygonMapValues (layerName def) (concat cs)"
  "cellsOf (tables (fold (polygonChunkBody def m) cs s))
     = appendCells m (map (zip [''mesh_id'', ''geometry'', ''properties'', ''area_m2'', ''area_ratio''])
                        (polygonMapCells (concat cs))) (cellsOf (tables s))"
  "dom (tables (fold (polygonChunkBody def m) cs s)) = dom (tables s)"
  "integrity s \<Longrightarrow> integrity (fold (polygonChunkBody def m) cs s)"
proof (induction cs arbitrary: s)
  case Nil
  {
    case 1 show ?case by (simp add: polygonFeatureValues_def)
  next
    case 2 show ?case by (simp add: polygonMapValues_def)
  next
    case 3 show ?case by (simp add: polygonMapCells_def)
  next
    case 4 show ?case by simp
  next
    case 5 then show ?case by simp
  }
next
  case (Cons c cs)
  {
    case 1 show ?case by (simp add: Cons.IH(1) polygonFeatureValues_append)
  next
    case 2 show ?case by (simp add: Cons.IH(2) polygonMapValues_append)
  next
    case 3 show ?case by (simp add: Cons.IH(3) polygonMapCells_append appendCells_append)
  next
    case 4 show ?case by (simp add: Cons.IH(4))
  next
    case 5 then show ?case by (simp add: Cons.IH(5) integrity_polygonChunkBody)
  }
qed

lemma fold_polygonChunkBody_fields [simp]:
  "mesh_index (fold (polygonChunkBody def m) cs s) = mesh_index s"
  "point_features (fold (polygonChunkBody def m) cs s) = point_features s"
  "line_features (fold (polygonChunkBody def m) cs s) = line_features s"
  "line_mesh_map (fold (polygonChunkBody def m) cs s) = line_mesh_map s"
  "layer_registry (fold (polygonChunkBody def m) cs s) = layer_registry s"
  "point_features_seq (fold (polygonChunkBody def m) cs s) = point_features_seq s"
  "line_features_seq (fold (polygonChunkBody def m) cs s) = line_features_seq s"
  "line_mesh_map_seq (fold (polygonChunkBody def m) cs s) = line_mesh_map_seq s"
  by (rule fold_frame, simp)+

lemma fold_insertPointFeatures:
  "point_features (fold insertPointFeatures cs s)
     = point_features s @ featureRows (concat cs) (point_features_seq s)"
  "point_features_seq (fold insertPointFeatures cs s) = point_features_seq s + length (concat cs)"
  by (induction cs arbitrary: s) (simp_all add: featureRows_append)

lemma fold_insertPointFeatures_fields [simp]:
  "mesh_index (fold insertPointFeatures cs s) = mesh_index s"
  "line_features (fold insertPointFeatures cs s) = line_features s"
  "polygon_features (fold insertPointFeatures cs s) = polygon_features s"
  "line_mesh_map (fold insertPointFeatures cs s) = line_mesh_map s"
  "polygon_mesh_map (fold insertPointFeatures cs s) = polygon_mesh_map s"
  "layer_registry (fold insertPointFeatures cs s) = layer_registry s"
  "tables (fold insertPointFeatures cs s) = tables s"
  "line_features_seq (fold insertPointFeatures cs s) = line_features_seq s"
  "polygon_features_seq (fold insertPointFeatures cs s) = polygon_features_seq s"
  "line_mesh_map_seq (fold insertPointFeatures cs s) = line_mesh_map_seq s"
  "polygon_mesh_map_seq (fold insertPointFeatures cs s) = polygon_mesh_map_seq s"
  by (rule fold_frame, simp)+

lemma processPointLayer_unfold:
  "processPointLayer def s
   = (pointMeshIds def,
      fold insertPointFeatures (chunksOf 500 (pointFeatureValues def))
        (insertRowsDynamic (tableName def) [''mesh_id'', ''geometry'', ''properties'']
           (pointCells def) (upsertMeshIndex (pointMeshIds def) s)))"
proof -
  have "forEachChunk rows (\<lambda>chunk s. if length chunk > 0 then insertPointFeatures chunk s else s) t
        = fold insertPointFeatures (chunksOf 500 rows) t" for rows t
    by (rule forEachChunk_plain) simp
  then show ?thesis
    by (simp add: processPointLayer_def Let_def pointMeshIds_def pointCells_def
        pointFeatureValues_def pointKept_def)
qed

lemma processPointLayer_fields [simp]:
  "mesh_index (snd (processPointLayer def s)) = upsertIdx (pointMeshIds def) (mesh_index s)"
  "point_features (snd (processPointLayer def s)) = point_features s @ featureRows (pointFeatureValues def) (point_features_seq s)"
  "line_features (snd (processPointLayer def s)) = line_features s"
  "polygon_features (snd (processPointLayer def s)) = polygon_features s"
  "line_mesh_map (snd (processPointLayer def s)) = line_mesh_map s"
  "polygon_mesh_map (snd (processPointLayer def s)) = polygon_mesh_map s"
  "layer_registry (snd (processPointLayer def s)) = layer_registry s"
  "line_features_seq (snd (processPointLayer def s)) = line_features_seq s"
  "polygon_features_seq (snd (processPointLayer def s)) = polygon_features_seq s"
  "line_mesh_map_seq (snd (processPointLayer def s)) = line_mesh_map_seq s"
  "polygon_mesh_map_seq (snd (processPointLayer def s)) = polygon_mesh_map_seq s"
  by (simp_all add: processPointLayer_unfold fold_insertPointFeatures)

lemma processPointLayer_more [simp]:
  "fst (processPointLayer def s) = pointMeshIds def"
  "cellsOf (tables (snd (processPointLayer def s)))
     = appendCells (tableName def)
         (map (zip [''mesh_id'', ''geometry'', ''properties'']) (pointCells def)) (cellsOf (tables s))"
  "integrity s \<Longrightarrow> integrity (snd (processPointLayer def s))"
  by (simp_all add: processPointLayer_unfold integrity_def serialsAhead_def linked_def)

lemma processLineLayer_unfold:
  assumes "meshMapTable def = Some m"
  shows "processLineLayer env def s
   = (lineMeshIds (lineItemsOf env def),
      fold (lineChunkBody def m) (chunksOf 500 (lineItemsOf env def))
        (insertRowsDynamic (tableName def) [''mesh_id'', ''geometry'', ''properties'']
           (lineLayerCells (lineItemsOf env def))
           (upsertMeshIndex (lineIndexIds (lineItemsOf env def)) s)))"
  using assms
  by (simp add: processLineLayer_def Let_def lineMeshIds_def lineLayerCells_def
      lineIndexIds_def lineItemsOf_def forEachChunk_fold INSERT_CHUNK_SIZE_def)

lemma processLineLayer_fields [simp]:
  "meshMapTable def = Some m \<Longrightarrow> mesh_index (snd (processLineLayer env def s)) = upsertIdx (lineIndexIds (lineItemsOf env def)) (mesh_index s)"
  "meshMapTable def = Some m \<Longrightarrow> point_features (snd (processLineLayer env def s)) = point_features s"
  "meshMapTable def = Some m \<Longrightarrow> polygon_features (snd (processLineLayer env def s)) = polygon_features s"
  "meshMapTable def = Some m \<Longrightarrow> polygon_mesh_map (snd (processLineLayer env def s)) = polygon_mesh_map s"
  "meshMapTable def = Some m \<Longrightarrow> layer_registry (snd (processLineLayer env def s)) = layer_registry s"
  "meshMapTable def = Some m \<Longrightarrow> point_features_seq (snd (processLineLayer env def s)) = point_features_seq s"
  "meshMapTable def = Some m \<Longrightarrow> polygon_features_seq (snd (processLineLayer env def s)) = polygon_features_seq s"
  "meshMapTable def = Some m \<Longrightarrow> polygon_mesh_map_seq (snd (processLineLayer env def s)) = polygon_mesh_map_seq s"
  by (simp_all add: processLineLayer_unfold)

lemma processLineLayer_more [simp]:
  assumes "meshMapTable def = Some m"
  shows "fst (processLineLayer env def s) = lineMeshIds (lineItemsOf env def)"
    and "map stripFeature (line_features (snd (processLineLayer env def s)))
         = map stripFeature (line_features s)
           @ lineFeatureValues (layerName def) (lineItemsOf env def)"
    and "map stripMesh (line_mesh_map (snd (processLineLayer env def s)))
         = map stripMesh (line_mesh_map s)
           @ lineMapValues (layerName def) (lineItemsOf env def)"
    and "cellsOf (tables (snd (processLineLayer env def s)))
         = appendCells m (map (zip [''mesh_id'', ''geometry'', ''properties'', ''length_m'', ''length_ratio''])
                              (lineMapCells (lineItemsOf env def)))
             (appendCells (tableName def)
                (map (zip [''mesh_id'', ''geometry'', ''properties''])
                     (lineLayerCells (lineItemsOf env def))) (cellsOf (tables s)))"
    and "integrity s \<Longrightarrow> integrity (snd (processLineLayer env def s))"
proof -
  show "fst (processLineLayer env def s) = lineMeshIds (lineItemsOf env def)"
    using assms by (simp add: processLineLayer_unfold)
  show "map stripFeature (line_features (snd (processLineLayer env def s)))
         = map stripFeature (line_features s)
           @ lineFeatureValues (layerName def) (lineItemsOf env def)"
    using assms by (simp add: processLineLayer_unfold fold_lineChunkBody)
  show "map stripMesh (line_mesh_map (snd (processLineLayer env def s)))
         = map stripMesh (line_mesh_map s)
           @ lineMapValues (layerName def) (lineItemsOf env def)"
    using assms by (simp add: processLineLayer_unfold fold_lineChunkBody)
  show "cellsOf (tables (snd (processLineLayer env def s)))
         = appendCells m (map (zip [''mesh_id'', ''geometry'', ''properties'', ''length_m'', ''length_ratio''])
                              (lineMapCells (lineItemsOf env def)))
             (appendCells (tableName def)
                (map (zip [''mesh_id'', ''geometry'', ''properties''])
                     (lineLayerCells (lineItemsOf env def))) (cellsOf (tables s)))"
    using assms by (simp add: processLineLayer_unfold fold_lineChunkBody)
  show "integrity (snd (processLineLayer env def s))" if "integrity s"
  proof -
    have "integrity (insertRowsDynamic (tableName def) [''mesh_id'', ''geometry'', ''properties'']
           (lineLayerCells (lineItemsOf env def))
           (upsertMeshIndex (lineIndexIds (lineItemsOf env def)) s))"
      using that by (simp add: integrity_def serialsAhead_def linked_def)
    then show ?thesis
      using assms by (simp add: processLineLayer_unfold fold_lineChunkBody)
  qed
qed

lemma processPolygonLayer_unfold:
  assumes "meshMapTable def = Some m"
  shows "processPolygonLayer env def s
   = (polygonMeshIds (polygonItemsOf env def),
      fold (polygonChunkBody def m) (chunksOf 500 (polygonItemsOf env def))
        (insertRowsDynamic (tableName def) [''mesh_id'', ''geometry'', ''properties'']
           (polygonLayerCells (polygonItemsOf env def))
           (upsertMeshIndex (polygonIndexIds (polygonItemsOf env def)) s)))"
  using assms
  by (simp add: processPolygonLayer_def Let_def polygonMeshIds_def polygonLayerCells_def
      polygonIndexIds_def polygonItemsOf_def forEachChunk_fold INSERT_CHUNK_SIZE_def)

lemma processPolygonLayer_fields [simp]:
  "meshMapTable def = Some m \<Longrightarrow> mesh_index (snd (processPolygonLayer env def s)) = upsertIdx (polygonIndexIds (polygonItemsOf env def)) (mesh_index s)"
  "meshMapTable def = Some m \<Longrightarrow> point_features (snd (processPolygonLayer env def s)) = point_features s"
  "meshMapTable def = Some m \<Longrightarrow> line_features (snd (processPolygonLayer env def s)) = line_features s"
  "meshMapTable def = Some m \<Longrightarrow> line_mesh_map (snd (processPolygonLayer env def s)) = line_mesh_map s"
  "meshMapTable def = Some m \<Longrightarrow> layer_registry (snd (processPolygonLayer env def s)) = layer_registry s"
  "meshMapTable def = Some m \<Longrightarrow> point_features_seq (snd (processPolygonLayer env def s)) = point_features_seq s"
  "meshMapTable def = Some m \<Longrightarrow> line_features_seq (snd (processPolygonLayer env def s)) = line_features_seq s"
  "meshMapTable def = Some m \<Longrightarrow> line_mesh_map_seq (snd (processPolygonLayer env def s)) = line_mesh_map_seq s"
  by (simp_all add: processPolygonLayer_unfold)

lemma processPolygonLayer_more [simp]:
  assumes "meshMapTable def = Some m"
  shows "fst (processPolygonLayer env def s) = polygonMeshIds (polygonItemsOf env def)"
    and "map stripFeature (polygon_features (snd (processPolygonLayer env def s)))
         = map stripFeature (polygon_features s)
           @ polygonFeatureValues (layerName def) (polygonItemsOf env def)"
    and "map stripMesh (polygon_mesh_map (snd (processPolygonLayer env def s)))
         = map stripMesh (polygon_mesh_map s)
           @ polygonMapValues (layerName def) (polygonItemsOf env def)"
    and "cellsOf (tables (snd (processPolygonLayer env def s)))
         = appendCells m (map (zip [''mesh_id'', ''geometry'', ''properties'', ''area_m2'', ''area_ratio''])
                              (polygonMapCells (polygonItemsOf env def)))
             (appendCells (tableName def)
                (map (zip [''mesh_id'', ''geometry'', ''properties''])
                     (polygonLayerCells (polygonItemsOf env def))) (cellsOf (tables s)))"
    and "integrity s \<Longrightarrow> integrity (snd (processPolygonLayer env def s))"
proof -
  show "fst (processPolygonLayer env def s) = polygonMeshIds (polygonItemsOf env def)"
    using assms by (simp add: processPolygonLayer_unfold)
  show "map stripFeature (polygon_features (snd (processPolygonLayer env def s)))
         = map stripFeature (polygon_features s)
           @ polygonFeatureValues (layerName def) (polygonItemsOf env def)"
    using assms by (simp add: processPolygonLayer_unfold fold_polygonChunkBody)
  show "map stripMesh (polygon_mesh_map (snd (processPolygonLayer env def s)))
         = map stripMesh (polygon_mesh_map s)
           @ polygonMapValues (layerName def) (polygonItemsOf env def)"
    using assms by (simp add: processPolygonLayer_unfold fold_polygonChunkBody)
  show "cellsOf (tables (snd (processPolygonLayer env def s)))
         = appendCells m (map (zip [''mesh_id'', ''geometry'', ''properties'', ''area_m2'', ''area_ratio''])
                              (polygonMapCells (polygonItemsOf env def)))
             (appendCells (tableName def)
                (map (zip [''mesh_id'', ''geometry'', ''properties''])
                     (polygonLayerCells (polygonItemsOf env def))) (cellsOf (tables s)))"
    using assms by (simp add: processPolygonLayer_unfold fold_polygonChunkBody)
  show "integrity (snd (processPolygonLayer env def s))" if "integrity s"
  proof -
    have "integrity (insertRowsDynamic (tableName def) [''mesh_id'', ''geometry'', ''properties'']
           (polygonLayerCells (polygonItemsOf env def))
           (upsertMeshIndex (polygonIndexIds (polygonItemsOf env def)) s))"
      using that by (simp add: integrity_def serialsAhead_def linked_def)
    then show ?thesis
      using assms by (simp add: processPolygonLayer_unfold fold_polygonChunkBody)
  qed
qed






lemma set_fold_setAdd [simp]: "set (fold setAdd xs acc) = set xs \<union> set acc"
  by (induction xs arbitrary: acc) (auto simp add: setAdd_def)


lemma layer_registry_upsertLayerRegistry [simp]:
  "layer_registry (upsertLayerRegistry def s) = upsertRows def (layer_registry s)"
  by (simp add: upsertLayerRegistry_def upsertRows_def layerRowOf_def Let_def)





lemma dropPrevious_fields [simp]:
  "mesh_index (dropPrevious def rows s) = mesh_index s"
  "point_features (dropPrevious def rows s) = point_features s"
  "line_features (dropPrevious def rows s) = line_features s"
  "polygon_features (dropPrevious def rows s) = polygon_features s"
  "line_mesh_map (dropPrevious def rows s) = line_mesh_map s"
  "polygon_mesh_map (dropPrevious def rows s) = polygon_mesh_map s"
  "layer_registry (dropPrevious def rows s) = layer_registry s"
  "tables (dropPrevious def rows s) = droppedTables def rows (tables s)"
  "point_features_seq (dropPrevious def rows s) = point_features_seq s"
  "line_features_seq (dropPrevious def rows s) = line_features_seq s"
  "polygon_features_seq (dropPrevious def rows s) = polygon_features_seq s"
  "line_mesh_map_seq (dropPrevious def rows s) = line_mesh_map_seq s"
  "polygon_mesh_map_seq (dropPrevious def rows s) = polygon_mesh_map_seq s"
  by (simp_all add: dropPrevious_def droppedTables_def split: option.splits)

lemma cellsOf_droppedTables [simp]:
  "cellsOf (droppedTables def rows tabs) = droppedTables def rows (cellsOf tabs)"
  by (simp add: droppedTables_def split: option.splits)

lemma integrity_simple [simp]:
  "integrity (upsertLayerRegistry def s) = integrity s"
  "integrity (refreshMeshFlags ms s) = integrity s"
  "integrity (addLayerPresence n ms s) = integrity s"
  "integrity (removeLayerPresence n ms s) = integrity s"
  "integrity (ensureLayerTables def s) = integrity s"
  "integrity (dropPrevious def rows s) = integrity s"
  "integrity (deleteLayerTables def s) = integrity s"
  "integrity (dropTable name s) = integrity s"
  by (simp_all add: integrity_def serialsAhead_def linked_def)

















lemma cellMeshId_zip3 [simp]:
  "cellMeshId (zip [''mesh_id'', ''geometry'', ''properties''] (TextValue m # rest)) = m"
  by (simp add: cellMeshId_def)

lemma cellMeshId_zip5 [simp]:
  "cellMeshId (zip [''mesh_id'', a, b, c, d] (TextValue m # rest)) = m"
  by (simp add: cellMeshId_def)












lemma dom_index_ops [simp]:
  "dom (refreshS ids P L G idx) = dom idx"
  "dom (addS n ids idx) = dom idx"
  "dom (removeS n ids idx) = dom idx"
  "dom (upsertS ids idx) = dom idx \<union> ids"
  by (auto simp add: refreshS_def addS_def removeS_def upsertS_def dom_def split: option.splits)







lemma meshOf_append [simp]: "meshOf (xs @ ys) = meshOf xs \<union> meshOf ys"
  by (auto simp add: meshOf_def)

lemma meshOf_Nil [simp]: "meshOf [] = {}"
  by (simp add: meshOf_def)























end
